theory Spec2Isabelle
  imports Complex_Main "HOL-Library.Word"
begin

section \<open>The Python extension module of msprime\<close>

text \<open>
  This theory embeds the parts of \<^verbatim>\<open>_msprimemodule.c\<close> that the claims of the
  specification are about: argument validation, the dictionary encoding of table
  collections, the driver loop around the simulation kernel and the module-level
  functions. The simulation kernel (\<^verbatim>\<open>msp_*\<close>), the tables library (\<^verbatim>\<open>tsk_*\<close>), GSL and
  the CPython and NumPy runtimes are not part of that file. The kernel is a parameter of
  the wrappers that call it; the small pieces of the runtimes that the wrappers rely on
  are modelled where they are used, each with a note.
\<close>

subsection \<open>C doubles\<close>

text \<open>
  The wrappers never compute with doubles: they convert, compare and store them. A
  double is modelled by the value it denotes, an extended real or NaN. Every double is
  such a value (the two zeros denote the same one); the model has more values than
  there are doubles, so a statement proved for all of them holds for all doubles.
\<close>

datatype double = Finite real | PlusInf | MinusInf | NaN

text \<open>The C comparison operators on doubles: every comparison with NaN is false.\<close>

fun d_lt :: "double \<Rightarrow> double \<Rightarrow> bool" where
  "d_lt NaN y = False"
| "d_lt x NaN = False"
| "d_lt (Finite a) (Finite b) = (a < b)"
| "d_lt (Finite a) PlusInf = True"
| "d_lt (Finite a) MinusInf = False"
| "d_lt PlusInf y = False"
| "d_lt MinusInf MinusInf = False"
| "d_lt MinusInf y = True"

fun d_eq :: "double \<Rightarrow> double \<Rightarrow> bool" where
  "d_eq NaN y = False"
| "d_eq x NaN = False"
| "d_eq x y = (x = y)"

definition d_le :: "double \<Rightarrow> double \<Rightarrow> bool" where
  "d_le x y = (d_lt x y \<or> d_eq x y)"

definition d_gt :: "double \<Rightarrow> double \<Rightarrow> bool" where
  "d_gt x y = d_lt y x"

definition d_ge :: "double \<Rightarrow> double \<Rightarrow> bool" where
  "d_ge x y = d_le y x"

subsection \<open>Python objects and exceptions\<close>

text \<open>
  The Python values the wrappers receive and build. A dictionary is a map from its
  string keys (the wrappers only look up string keys); a NumPy array has a shape and
  typed elements.
\<close>

datatype array_data =
    F64 "double list"
  | I32 "32 word list"
  | U32 "32 word list"
  | I8 "8 word list"

datatype ndarray = NdArray (shape: "nat list") (elems: array_data)

datatype pyobj =
    PyNone
  | PyBool bool
  | PyLong int
  | PyFloat double
  | PyStr string
  | PyTuple "pyobj list"
  | PyList "pyobj list"
  | PyDict "string \<Rightarrow> pyobj option"
  | PyArray ndarray

text \<open>
  The exceptions the module raises. \<open>InputError\<close> and \<open>LibraryError\<close> are the module's
  own classes; they carry the section name and the kernel's error code, which
  \<^verbatim>\<open>msp_strerror\<close> turns into the message. \<open>Interrupt\<close> stands for the exception a
  signal handler raised (\<^verbatim>\<open>PyErr_CheckSignals() < 0\<close>), \<open>MemoryFault\<close> for undefined
  behaviour of the C code (a NULL dereference or a read past the end of a buffer).
\<close>

datatype pyerr =
    ValueError string
  | TypeError string
  | SystemError string
  | InputError string int
  | LibraryError int
  | TskitLibraryError int
  | Interrupt
  | MemoryFault

subsection \<open>Numbers of the CPython and NumPy runtimes\<close>

text \<open>
  \<^verbatim>\<open>PyNumber_Check\<close>: integers, booleans and floats are numbers, and so is a NumPy array
  (it has the number slots); none, strings, tuples, lists and dictionaries are not.
\<close>

fun PyNumber_Check :: "pyobj \<Rightarrow> bool" where
  "PyNumber_Check (PyLong i) = True"
| "PyNumber_Check (PyBool b) = True"
| "PyNumber_Check (PyFloat d) = True"
| "PyNumber_Check (PyArray a) = True"
| "PyNumber_Check x = False"

text \<open>
  The number slots of NumPy's array type. \<^verbatim>\<open>__float__\<close> converts an array of exactly one
  element, of any number of dimensions, to the double of that element and raises a
  \<open>TypeError\<close> for every other array. \<^verbatim>\<open>__index__\<close> converts an array of no dimensions
  and of an integer type to its element and raises a \<open>TypeError\<close> for every other array.
  The elements of the three integer types are exact as doubles. \<open>None\<close> is the raised
  exception.
\<close>

fun array_doubles :: "array_data \<Rightarrow> double list" where
  "array_doubles (F64 xs) = xs"
| "array_doubles (I32 xs) = map (\<lambda>w. Finite (real_of_int (sint w))) xs"
| "array_doubles (U32 xs) = map (\<lambda>w. Finite (real_of_int (uint w))) xs"
| "array_doubles (I8 xs) = map (\<lambda>w. Finite (real_of_int (sint w))) xs"

fun array_ints :: "array_data \<Rightarrow> int list option" where
  "array_ints (F64 xs) = None"
| "array_ints (I32 xs) = Some (map sint xs)"
| "array_ints (U32 xs) = Some (map uint xs)"
| "array_ints (I8 xs) = Some (map sint xs)"

definition ndarray_float :: "ndarray \<Rightarrow> double option" where
  "ndarray_float a =
     (case array_doubles (elems a) of
        [x] \<Rightarrow> if prod_list (shape a) = 1 then Some x else None
      | _ \<Rightarrow> None)"

definition ndarray_index :: "ndarray \<Rightarrow> int option" where
  "ndarray_index a =
     (if shape a \<noteq> [] then None
      else
        (case array_ints (elems a) of
           Some [i] \<Rightarrow> Some i
         | _ \<Rightarrow> None))"

text \<open>
  \<^verbatim>\<open>PyNumber_Index\<close>, the \<^verbatim>\<open>__index__\<close> of an object: the value of an integer or a boolean,
  the slot of an array, and a \<open>TypeError\<close> (\<open>None\<close>) for every other object, a float
  included.
\<close>

fun py_index :: "pyobj \<Rightarrow> int option" where
  "py_index (PyLong i) = Some i"
| "py_index (PyBool b) = Some (if b then 1 else 0)"
| "py_index (PyArray a) = ndarray_index a"
| "py_index x = None"

text \<open>
  \<^verbatim>\<open>PyLong_AsLong\<close> returns a C \<^verbatim>\<open>long\<close> (64 bits): the \<^verbatim>\<open>__index__\<close> of the object if it
  has one that fits, and \<open>-1\<close> with an exception set if it has none or one that does not
  fit (CPython from version 3.10 on; earlier versions also try \<^verbatim>\<open>__int__\<close>, with a
  warning). The wrappers do not look at the exception, so only the returned value is
  modelled.
\<close>

definition PyLong_AsLong :: "pyobj \<Rightarrow> int" where
  "PyLong_AsLong x =
     (case py_index x of
        None \<Rightarrow> - 1
      | Some i \<Rightarrow> if - (2 ^ 63) \<le> i \<and> i < 2 ^ 63 then i else - 1)"

text \<open>
  \<^verbatim>\<open>PyLong_AsDouble\<close>, the \<^verbatim>\<open>__float__\<close> of an integer: the nearest double, a tie going to
  the even significand of 53 bits, and an \<open>OverflowError\<close> (\<open>None\<close>) when that is beyond
  the range of doubles. \<open>bit_length n\<close> is the number of binary digits of \<open>n\<close>.
\<close>

fun bit_length :: "nat \<Rightarrow> nat" where
  "bit_length n = (if n = 0 then 0 else Suc (bit_length (n div 2)))"

declare bit_length.simps [simp del]

definition round_half_even :: "nat \<Rightarrow> nat \<Rightarrow> nat" where
  "round_half_even a u =
     (let q = a div u; r = a mod u in
      if 2 * r < u then q
      else if u < 2 * r then q + 1
      else if even q then q else q + 1)"

definition PyLong_AsDouble :: "int \<Rightarrow> double option" where
  "PyLong_AsDouble i =
     (if \<bar>i\<bar> < 2 ^ 53 then Some (Finite (real_of_int i))
      else
        let a = nat \<bar>i\<bar>;
            u = 2 ^ (bit_length a - 53);
            v = round_half_even a u * u
        in if 2 ^ 1024 \<le> v then None
           else Some (Finite (if i < 0 then - real v else real v)))"

text \<open>
  The \<^verbatim>\<open>__float__\<close> of an object: the value of a float, the double of an integer or a
  boolean, the slot of an array, and a \<open>TypeError\<close> (\<open>None\<close>) for every other object.
\<close>

fun py_float :: "pyobj \<Rightarrow> double option" where
  "py_float (PyFloat d) = Some d"
| "py_float (PyLong i) = PyLong_AsDouble i"
| "py_float (PyBool b) = Some (Finite (if b then 1 else 0))"
| "py_float (PyArray a) = ndarray_float a"
| "py_float x = None"

text \<open>
  \<^verbatim>\<open>PyFloat_AsDouble\<close> returns the \<^verbatim>\<open>__float__\<close> of the object, and \<open>-1.0\<close> with an exception
  set if the conversion raises. As for \<^verbatim>\<open>PyLong_AsLong\<close> only the returned value is
  modelled.
\<close>

definition PyFloat_AsDouble :: "pyobj \<Rightarrow> double" where
  "PyFloat_AsDouble x = (case py_float x of None \<Rightarrow> Finite (- 1) | Some d \<Rightarrow> d)"

text \<open>
  The objects that are integers (they have an \<^verbatim>\<open>__index__\<close>) with their value, and those
  that convert to a double: the vocabulary in which the theorems say "a population id"
  and "a number".
\<close>

definition is_py_int :: "pyobj \<Rightarrow> bool" where
  "is_py_int x = (py_index x \<noteq> None)"

definition py_int_val :: "pyobj \<Rightarrow> int" where
  "py_int_val x = (case py_index x of None \<Rightarrow> 0 | Some i \<Rightarrow> i)"

definition is_py_real :: "pyobj \<Rightarrow> bool" where
  "is_py_real x = (py_float x \<noteq> None)"

subsection \<open>RandomGenerator\<close>

text \<open>
  \<^verbatim>\<open>typedef struct { PyObject_HEAD unsigned long seed; gsl_rng* rng; } RandomGenerator;\<close>
  The generator is represented by the seed it was set with; \<open>None\<close> is the NULL pointer.
  \<^verbatim>\<open>unsigned long\<close> is taken to be 64 bits wide (LP64).
\<close>

datatype gsl_rng = Gsl_rng "64 word"

record RandomGenerator =
  seed :: "64 word"
  rng :: "gsl_rng option"

text \<open>
  The format unit \<^verbatim>\<open>"K"\<close> of \<^verbatim>\<open>PyArg_ParseTupleAndKeywords\<close>: an integer (an object with
  an \<^verbatim>\<open>__index__\<close>) is converted to \<^verbatim>\<open>unsigned long long\<close> without overflow checking, that
  is, reduced modulo \<open>2 ^ 64\<close>; any other object is a \<open>TypeError\<close>.
\<close>

definition PyArg_K :: "pyobj \<Rightarrow> pyerr + 64 word" where
  "PyArg_K x =
     (case py_index x of
        None \<Rightarrow> Inl (TypeError ''an integer is required'')
      | Some i \<Rightarrow> Inr (word_of_int i))"

definition RandomGenerator_init :: "pyobj \<Rightarrow> pyerr + RandomGenerator" where
  "RandomGenerator_init seed_arg =
     (case PyArg_K seed_arg of
        Inl e \<Rightarrow> Inl e
      | Inr s \<Rightarrow>
          if s = 0 \<or> s \<ge> 2 ^ 32
          then Inl (ValueError ''seeds must be greater than 0 and less than 2^32'')
          else Inr \<lparr>seed = s, rng = Some (Gsl_rng s)\<rparr>)"

definition RandomGenerator_check_state :: "RandomGenerator \<Rightarrow> pyerr option" where
  "RandomGenerator_check_state self =
     (if rng self = None then Some (SystemError ''RandomGenerator not initialised'')
      else None)"

text \<open>\<^verbatim>\<open>Py_BuildValue("k", self->seed)\<close>: the seed as a Python integer.\<close>

definition RandomGenerator_get_seed :: "RandomGenerator \<Rightarrow> pyerr + pyobj" where
  "RandomGenerator_get_seed self =
     (case RandomGenerator_check_state self of
        Some e \<Rightarrow> Inl e
      | None \<Rightarrow> Inr (PyLong (uint (seed self))))"

subsection \<open>The static variables of the module and the GSL error handler\<close>

text \<open>
  GSL keeps one process-wide handler pointer; NULL selects its default handler, and
  \<^verbatim>\<open>gsl_set_error_handler_off\<close> installs its own no-op handler. The module's static
  variables that are written after load are \<^verbatim>\<open>old_gsl_error_handler\<close>, the two exception
  classes, the six type objects and the pointer \<^verbatim>\<open>PyArray_API\<close> that NumPy's header
  declares and \<^verbatim>\<open>import_array\<close> sets. Of a type object the member \<^verbatim>\<open>tp_new\<close> and whether
  \<^verbatim>\<open>PyType_Ready\<close> has completed it are modelled, of \<^verbatim>\<open>PyArray_API\<close> whether it is set.
\<close>

datatype gsl_error_handler_t = NULL_handler | no_error_handler | User_handler nat

datatype newfunc = PyType_GenericNew

record PyTypeObject =
  tp_new :: "newfunc option"
  tp_ready :: bool

datatype type_name =
    LightweightTableCollectionType
  | RandomGeneratorType
  | MutationGeneratorType
  | SimulatorType
  | RecombinationMapType
  | IntervalMapType

record globals =
  gsl_error_handler :: gsl_error_handler_t
  old_gsl_error_handler :: gsl_error_handler_t
  MsprimeInputError :: "string option"
  MsprimeLibraryError :: "string option"
  type_objects :: "type_name \<Rightarrow> PyTypeObject"
  PyArray_API :: bool

text \<open>
  GSL's two setters, as its manual documents them: both install a handler and return the
  one that was installed before.
\<close>

definition gsl_set_error_handler_off :: "globals \<Rightarrow> gsl_error_handler_t \<times> globals" where
  "gsl_set_error_handler_off g = (gsl_error_handler g, g\<lparr>gsl_error_handler := no_error_handler\<rparr>)"

definition gsl_set_error_handler ::
  "gsl_error_handler_t \<Rightarrow> globals \<Rightarrow> gsl_error_handler_t \<times> globals" where
  "gsl_set_error_handler h g = (gsl_error_handler g, g\<lparr>gsl_error_handler := h\<rparr>)"

definition msprime_restore_gsl_error_handler :: "globals \<Rightarrow> globals" where
  "msprime_restore_gsl_error_handler g = snd (gsl_set_error_handler (old_gsl_error_handler g) g)"

definition msprime_unset_gsl_error_handler :: "globals \<Rightarrow> globals" where
  "msprime_unset_gsl_error_handler g =
     (case gsl_set_error_handler_off g of
        (previous, g') \<Rightarrow> g'\<lparr>old_gsl_error_handler := previous\<rparr>)"

text \<open>
  \<^verbatim>\<open>PyInit__msprime\<close>, as far as it writes the static variables. What the calls of the
  runtime return is a parameter: whether \<^verbatim>\<open>PyModule_Create\<close> and \<^verbatim>\<open>import_array\<close> succeed,
  and for which types \<^verbatim>\<open>PyType_Ready\<close> does. The types are initialised in the order of the
  source; the first failure ends the function with NULL (\<open>False\<close>), leaving what was
  written. A failure of \<^verbatim>\<open>PyErr_NewException\<close> is not modelled.
\<close>

record init_calls =
  PyModule_Create_ok :: bool
  import_array_ok :: bool
  PyType_Ready_ok :: "type_name \<Rightarrow> bool"

fun init_types :: "(type_name \<Rightarrow> bool) \<Rightarrow> type_name list \<Rightarrow> globals \<Rightarrow> bool \<times> globals" where
  "init_types ready_ok [] g = (True, g)"
| "init_types ready_ok (t # ts) g =
     (let g1 = g\<lparr>type_objects := (type_objects g)
                 (t := (type_objects g t)\<lparr>tp_new := Some PyType_GenericNew\<rparr>)\<rparr>
      in if \<not> ready_ok t then (False, g1)
         else init_types ready_ok ts
                (g1\<lparr>type_objects := (type_objects g1)
                      (t := (type_objects g1 t)\<lparr>tp_ready := True\<rparr>)\<rparr>))"

definition PyInit__msprime :: "init_calls \<Rightarrow> globals \<Rightarrow> bool \<times> globals" where
  "PyInit__msprime calls g =
     (if \<not> PyModule_Create_ok calls then (False, g)
      else if \<not> import_array_ok calls then (False, g)
      else
        (case init_types (PyType_Ready_ok calls)
                [LightweightTableCollectionType, RandomGeneratorType, MutationGeneratorType,
                 SimulatorType, RecombinationMapType, IntervalMapType]
                (g\<lparr>PyArray_API := True\<rparr>) of
           (False, g') \<Rightarrow> (False, g')
         | (True, g') \<Rightarrow>
             (True,
              g'\<lparr>MsprimeInputError := Some ''_msprime.InputError'',
                 MsprimeLibraryError := Some ''_msprime.LibraryError'',
                 old_gsl_error_handler := NULL_handler\<rparr>)))"

subsection \<open>Samples\<close>

text \<open>
  \<^verbatim>\<open>sample_t\<close> and \<^verbatim>\<open>population_id_t\<close> are declared in \<^verbatim>\<open>msprime.h\<close>, which is not part of
  the module's file. The record has the two fields the module writes; the conversion to
  \<^verbatim>\<open>population_id_t\<close> is the parameter \<open>cast\<close> of \<open>parse_samples\<close>, and \<open>to_population_id_t\<close>
  below is that conversion for a signed integer type.
\<close>

record 'p sample_t =
  population_id :: 'p
  time :: double

text \<open>
  The body of the loop of \<^verbatim>\<open>parse_samples\<close> for one entry of the list.
  \<^verbatim>\<open>Py_ssize_t\<close> is a signed 64-bit integer.
\<close>

definition parse_samples_entry :: "(int \<Rightarrow> 'p) \<Rightarrow> 64 word \<Rightarrow> pyobj \<Rightarrow> pyerr + 'p sample_t" where
  "parse_samples_entry cast num_populations sample =
     (case sample of
        PyTuple items \<Rightarrow>
          if length items \<noteq> 2
          then Inl (ValueError ''sample must be (population,time) tuple'')
          else if \<not> PyNumber_Check (items ! 0)
          then Inl (TypeError ''population is not number'')
          else
            let tmp_long = PyLong_AsLong (items ! 0) in
            if tmp_long < 0
            then Inl (ValueError ''Negative population ID in sample at index %d'')
            else if tmp_long \<ge> sint num_populations
            then Inl (ValueError ''Invalid population reference %d in sample at index %d'')
            else if \<not> PyNumber_Check (items ! 1)
            then Inl (TypeError ''time is not number'')
            else
              let t = PyFloat_AsDouble (items ! 1) in
              if d_lt t (Finite 0)
              then Inl (ValueError ''negative times not valid'')
              else Inr \<lparr>population_id = cast tmp_long, time = t\<rparr>
      | _ \<Rightarrow> Inl (TypeError ''not a tuple''))"

fun parse_samples_loop :: "(int \<Rightarrow> 'p) \<Rightarrow> 64 word \<Rightarrow> pyobj list \<Rightarrow> pyerr + 'p sample_t list" where
  "parse_samples_loop cast num_populations [] = Inr []"
| "parse_samples_loop cast num_populations (sample # rest) =
     (case parse_samples_entry cast num_populations sample of
        Inl e \<Rightarrow> Inl e
      | Inr s \<Rightarrow>
          (case parse_samples_loop cast num_populations rest of
             Inl e \<Rightarrow> Inl e
           | Inr ss \<Rightarrow> Inr (s # ss)))"

text \<open>
  \<^verbatim>\<open>parse_samples\<close> returns the number of samples and the array of samples. A failure of
  \<^verbatim>\<open>PyMem_Malloc\<close> is not modelled.
\<close>

definition parse_samples :: "(int \<Rightarrow> 'p) \<Rightarrow> pyobj list \<Rightarrow> 64 word \<Rightarrow> pyerr + (nat \<times> 'p sample_t list)" where
  "parse_samples cast py_samples num_populations =
     (case parse_samples_loop cast num_populations py_samples of
        Inl e \<Rightarrow> Inl e
      | Inr ss \<Rightarrow> Inr (length py_samples, ss))"

text \<open>
  \<^verbatim>\<open>population_id_t\<close> is a signed integer type (the module compares the stored id with
  \<^verbatim>\<open>TSK_NULL\<close>, and the tables hold population ids as \<^verbatim>\<open>NPY_INT32\<close>). Its width \<open>'w\<close> is
  left open; \<^verbatim>\<open>msprime.h\<close> makes it 32 bits. The conversion of a \<^verbatim>\<open>long\<close> to it keeps the
  low bits, in two's complement; the stored id is read with \<open>sint\<close>.
\<close>

definition to_population_id_t :: "int \<Rightarrow> 'w::len word" where
  "to_population_id_t v = word_of_int v"

text \<open>
  What the specification calls a \<open>(population, time)\<close> pair: a tuple of an integer and a
  number, with its two components.
\<close>

fun sample_pair :: "pyobj \<Rightarrow> bool" where
  "sample_pair (PyTuple [p, t]) = (is_py_int p \<and> is_py_real t)"
| "sample_pair x = False"

fun sample_population :: "pyobj \<Rightarrow> int" where
  "sample_population (PyTuple (p # ts)) = py_int_val p"
| "sample_population x = 0"

fun sample_time :: "pyobj \<Rightarrow> double" where
  "sample_time (PyTuple (p # t # ts)) = PyFloat_AsDouble t"
| "sample_time x = Finite 0"

subsection \<open>Dictionaries and arrays of the table encoding\<close>

text \<open>Sequencing of steps that may raise: the first exception ends the sequence.\<close>

definition bind_err :: "pyerr + 'a \<Rightarrow> ('a \<Rightarrow> pyerr + 'b) \<Rightarrow> pyerr + 'b" where
  "bind_err m f = (case m of Inl e \<Rightarrow> Inl e | Inr x \<Rightarrow> f x)"

text \<open>
  \<^verbatim>\<open>get_table_dict_value\<close>: a missing key is a \<open>ValueError\<close>; when the entry is required,
  \<open>None\<close> is a \<open>TypeError\<close>. The messages are the format strings of the source.
\<close>

definition get_table_dict_value :: "(string \<Rightarrow> pyobj option) \<Rightarrow> string \<Rightarrow> bool \<Rightarrow> pyerr + pyobj" where
  "get_table_dict_value dict key_str required =
     (case dict key_str of
        None \<Rightarrow> Inl (ValueError ''%s not specified'')
      | Some ret \<Rightarrow>
          if required \<and> ret = PyNone then Inl (TypeError ''%s is required'') else Inr ret)"

datatype npy_type = NPY_FLOAT64 | NPY_INT32 | NPY_UINT32 | NPY_INT8

fun type_of_data :: "array_data \<Rightarrow> npy_type" where
  "type_of_data (F64 xs) = NPY_FLOAT64"
| "type_of_data (I32 xs) = NPY_INT32"
| "type_of_data (U32 xs) = NPY_UINT32"
| "type_of_data (I8 xs) = NPY_INT8"

fun f64_data :: "array_data \<Rightarrow> double list" where
  "f64_data (F64 xs) = xs"
| "f64_data d = []"

fun i32_data :: "array_data \<Rightarrow> 32 word list" where
  "i32_data (I32 xs) = xs"
| "i32_data d = []"

fun u32_data :: "array_data \<Rightarrow> 32 word list" where
  "u32_data (U32 xs) = xs"
| "u32_data d = []"

fun i8_data :: "array_data \<Rightarrow> 8 word list" where
  "i8_data (I8 xs) = xs"
| "i8_data d = []"

text \<open>
  \<^verbatim>\<open>PyArray_FROMANY(input, type, min_depth, max_depth, NPY_ARRAY_IN_ARRAY)\<close>: an array that
  already has the element type and a number of dimensions within the bounds is returned
  as it is. NumPy also converts other sequences and element types that cast safely; that
  conversion is not modelled, and such an input is an exception here.
\<close>

definition PyArray_FROMANY :: "pyobj \<Rightarrow> npy_type \<Rightarrow> nat \<Rightarrow> nat \<Rightarrow> pyerr + ndarray" where
  "PyArray_FROMANY input npy min_depth max_depth =
     (case input of
        PyArray a \<Rightarrow>
          if type_of_data (elems a) = npy \<and> min_depth \<le> length (shape a)
             \<and> length (shape a) \<le> max_depth
          then Inr a
          else Inl (TypeError ''cannot convert to an array of the required type'')
      | _ \<Rightarrow> Inl (TypeError ''cannot convert to an array of the required type''))"

text \<open>
  \<^verbatim>\<open>table_read_column_array\<close> returns the array and the value it leaves in \<^verbatim>\<open>*num_rows\<close>.
\<close>

definition table_read_column_array ::
  "pyobj \<Rightarrow> npy_type \<Rightarrow> nat \<Rightarrow> bool \<Rightarrow> pyerr + (ndarray \<times> nat)" where
  "table_read_column_array input npy num_rows check_num_rows =
     bind_err (PyArray_FROMANY input npy 1 1) (\<lambda>array.
       if check_num_rows
       then (if num_rows \<noteq> shape array ! 0
             then Inl (ValueError ''Input array dimensions must be equal.'')
             else Inr (array, num_rows))
       else Inr (array, shape array ! 0))"

text \<open>
  \<^verbatim>\<open>table_read_offset_array\<close>; \<^verbatim>\<open>(uint32_t) length\<close> is the length reduced modulo \<open>2 ^ 32\<close>.
\<close>

definition table_read_offset_array ::
  "pyobj \<Rightarrow> nat \<Rightarrow> nat \<Rightarrow> bool \<Rightarrow> pyerr + (ndarray \<times> nat)" where
  "table_read_offset_array input num_rows data_length check_num_rows =
     bind_err (PyArray_FROMANY input NPY_UINT32 1 1) (\<lambda>array.
       if \<not> check_num_rows \<and> shape array ! 0 = 0
       then Inl (ValueError ''Offset arrays must have at least one element'')
       else
         let num_rows = (if check_num_rows then num_rows else shape array ! 0 - 1) in
         if shape array ! 0 \<noteq> num_rows + 1
         then Inl (ValueError ''offset columns must have n + 1 rows.'')
         else if u32_data (elems array) ! num_rows \<noteq> (word_of_nat data_length :: 32 word)
         then Inl (ValueError ''Bad offset column encoding'')
         else Inr (array, num_rows))"

text \<open>
  \<^verbatim>\<open>PyArray_SimpleNewFromData(1, &n, type, data)\<close>: a one-dimensional array of the first
  \<open>n\<close> elements at \<open>data\<close>. The array shares the table's memory; the model takes a copy,
  so it says nothing about a table that is changed while such an array is alive.
\<close>

definition new_f64_array :: "nat \<Rightarrow> double list \<Rightarrow> pyobj" where
  "new_f64_array n xs = PyArray (NdArray [n] (F64 (take n xs)))"

definition new_i32_array :: "nat \<Rightarrow> 32 word list \<Rightarrow> pyobj" where
  "new_i32_array n xs = PyArray (NdArray [n] (I32 (take n xs)))"

definition new_u32_array :: "nat \<Rightarrow> 32 word list \<Rightarrow> pyobj" where
  "new_u32_array n xs = PyArray (NdArray [n] (U32 (take n xs)))"

definition new_i8_array :: "nat \<Rightarrow> 8 word list \<Rightarrow> pyobj" where
  "new_i8_array n xs = PyArray (NdArray [n] (I8 (take n xs)))"

subsection \<open>The tables library\<close>

text \<open>
  Modelled from the spec: the table structures and the functions \<^verbatim>\<open>tsk_*_table_clear\<close> and
  \<^verbatim>\<open>tsk_*_table_append_columns\<close> belong to the tables library, which is not part of the
  module's file. A table has its number of rows and its columns; a variable-length
  column is a packed array with its length and an offset column of \<open>num_rows + 1\<close>
  entries that starts at 0, ends at the length of the packed array and never decreases.
  \<^verbatim>\<open>tsk_size_t\<close> and \<^verbatim>\<open>tsk_flags_t\<close> are unsigned and \<^verbatim>\<open>tsk_id_t\<close> is signed, all of 32 bits.
  The numeric values of the error codes play no role.
\<close>

definition TSK_ERR_BAD_PARAM_VALUE :: int where
  "TSK_ERR_BAD_PARAM_VALUE = - 4"

definition TSK_ERR_BAD_OFFSET :: int where
  "TSK_ERR_BAD_OFFSET = - 200"

definition TSK_NULL :: "32 word" where
  "TSK_NULL = - 1"

definition check_offsets :: "nat \<Rightarrow> 32 word list \<Rightarrow> bool" where
  "check_offsets num_rows offsets = (offsets ! 0 = 0 \<and> sorted (take (Suc num_rows) offsets))"

text \<open>
  Appending \<open>num_rows\<close> rows of a variable-length column \<open>(packed, offsets)\<close> to the
  column \<open>(own, own_length, own_offset)\<close> of a table; \<open>None\<close> (two NULL pointers) appends
  empty entries.
\<close>

definition append_packed :: "'a list \<Rightarrow> nat \<Rightarrow> ('a list \<times> 32 word list) option \<Rightarrow> 'a list" where
  "append_packed own num_rows col =
     (case col of
        None \<Rightarrow> own
      | Some (packed, offsets) \<Rightarrow> own @ take (unat (offsets ! num_rows)) packed)"

definition append_length :: "nat \<Rightarrow> nat \<Rightarrow> ('a list \<times> 32 word list) option \<Rightarrow> nat" where
  "append_length own_length num_rows col =
     (case col of
        None \<Rightarrow> own_length
      | Some (packed, offsets) \<Rightarrow> own_length + unat (offsets ! num_rows))"

definition append_offset ::
  "32 word list \<Rightarrow> nat \<Rightarrow> nat \<Rightarrow> ('a list \<times> 32 word list) option \<Rightarrow> 32 word list" where
  "append_offset own_offset own_length num_rows col =
     (case col of
        None \<Rightarrow> own_offset @ replicate num_rows (word_of_nat own_length)
      | Some (packed, offsets) \<Rightarrow>
          butlast own_offset @ map (\<lambda>x. word_of_nat own_length + x) (take (Suc num_rows) offsets))"

definition offsets_ok :: "nat \<Rightarrow> ('a list \<times> 32 word list) option \<Rightarrow> bool" where
  "offsets_ok num_rows col =
     (case col of None \<Rightarrow> True | Some (packed, offsets) \<Rightarrow> check_offsets num_rows offsets)"

text \<open>A fixed-width column that may be NULL: the rows are then filled with \<open>TSK_NULL\<close>.\<close>

definition append_ids :: "32 word list \<Rightarrow> nat \<Rightarrow> 32 word list option \<Rightarrow> 32 word list" where
  "append_ids own num_rows col =
     (case col of
        None \<Rightarrow> own @ replicate num_rows TSK_NULL
      | Some xs \<Rightarrow> own @ take num_rows xs)"

text \<open>
  The wrappers hand NumPy buffers to the library as a pair of pointers taken together
  or left NULL together.
\<close>

definition packed_column ::
  "'a list option \<Rightarrow> 32 word list option \<Rightarrow> ('a list \<times> 32 word list) option" where
  "packed_column data offsets =
     (case (data, offsets) of (Some d, Some ofs) \<Rightarrow> Some (d, ofs) | _ \<Rightarrow> None)"

record tsk_node_table_t =
  nodes_num_rows :: nat
  nodes_time :: "double list"
  nodes_flags :: "32 word list"
  nodes_population :: "32 word list"
  nodes_individual :: "32 word list"
  nodes_metadata :: "8 word list"
  nodes_metadata_length :: nat
  nodes_metadata_offset :: "32 word list"

definition tsk_node_table_clear :: "tsk_node_table_t \<Rightarrow> int \<times> tsk_node_table_t" where
  "tsk_node_table_clear t =
     (0, \<lparr>nodes_num_rows = 0, nodes_time = [], nodes_flags = [], nodes_population = [],
          nodes_individual = [], nodes_metadata = [], nodes_metadata_length = 0,
          nodes_metadata_offset = [0]\<rparr>)"

definition tsk_node_table_append_columns ::
  "tsk_node_table_t \<Rightarrow> nat \<Rightarrow> 32 word list \<Rightarrow> double list \<Rightarrow> 32 word list option \<Rightarrow>
   32 word list option \<Rightarrow> 8 word list option \<Rightarrow> 32 word list option \<Rightarrow> int \<times> tsk_node_table_t" where
  "tsk_node_table_append_columns t num_rows flags time_col population individual metadata
       metadata_offset =
     (if (metadata = None) \<noteq> (metadata_offset = None) then (TSK_ERR_BAD_PARAM_VALUE, t)
      else
        let md = packed_column metadata metadata_offset in
        if \<not> offsets_ok num_rows md then (TSK_ERR_BAD_OFFSET, t)
        else
          (0, \<lparr>nodes_num_rows = nodes_num_rows t + num_rows,
               nodes_time = nodes_time t @ take num_rows time_col,
               nodes_flags = nodes_flags t @ take num_rows flags,
               nodes_population = append_ids (nodes_population t) num_rows population,
               nodes_individual = append_ids (nodes_individual t) num_rows individual,
               nodes_metadata = append_packed (nodes_metadata t) num_rows md,
               nodes_metadata_length = append_length (nodes_metadata_length t) num_rows md,
               nodes_metadata_offset =
                 append_offset (nodes_metadata_offset t) (nodes_metadata_length t) num_rows md\<rparr>))"

record tsk_edge_table_t =
  edges_num_rows :: nat
  edges_left :: "double list"
  edges_right :: "double list"
  edges_parent :: "32 word list"
  edges_child :: "32 word list"

definition tsk_edge_table_clear :: "tsk_edge_table_t \<Rightarrow> int \<times> tsk_edge_table_t" where
  "tsk_edge_table_clear t =
     (0, \<lparr>edges_num_rows = 0, edges_left = [], edges_right = [], edges_parent = [],
          edges_child = []\<rparr>)"

definition tsk_edge_table_append_columns ::
  "tsk_edge_table_t \<Rightarrow> nat \<Rightarrow> double list \<Rightarrow> double list \<Rightarrow> 32 word list \<Rightarrow> 32 word list \<Rightarrow>
   int \<times> tsk_edge_table_t" where
  "tsk_edge_table_append_columns t num_rows left right parent child =
     (0, \<lparr>edges_num_rows = edges_num_rows t + num_rows,
          edges_left = edges_left t @ take num_rows left,
          edges_right = edges_right t @ take num_rows right,
          edges_parent = edges_parent t @ take num_rows parent,
          edges_child = edges_child t @ take num_rows child\<rparr>)"

record tsk_individual_table_t =
  individuals_num_rows :: nat
  individuals_flags :: "32 word list"
  individuals_location :: "double list"
  individuals_location_length :: nat
  individuals_location_offset :: "32 word list"
  individuals_metadata :: "8 word list"
  individuals_metadata_length :: nat
  individuals_metadata_offset :: "32 word list"

definition tsk_individual_table_clear :: "tsk_individual_table_t \<Rightarrow> int \<times> tsk_individual_table_t" where
  "tsk_individual_table_clear t =
     (0, \<lparr>individuals_num_rows = 0, individuals_flags = [], individuals_location = [],
          individuals_location_length = 0, individuals_location_offset = [0],
          individuals_metadata = [], individuals_metadata_length = 0,
          individuals_metadata_offset = [0]\<rparr>)"

definition tsk_individual_table_append_columns ::
  "tsk_individual_table_t \<Rightarrow> nat \<Rightarrow> 32 word list \<Rightarrow> double list option \<Rightarrow> 32 word list option \<Rightarrow>
   8 word list option \<Rightarrow> 32 word list option \<Rightarrow> int \<times> tsk_individual_table_t" where
  "tsk_individual_table_append_columns t num_rows flags location location_offset metadata
       metadata_offset =
     (if (location = None) \<noteq> (location_offset = None) then (TSK_ERR_BAD_PARAM_VALUE, t)
      else if (metadata = None) \<noteq> (metadata_offset = None) then (TSK_ERR_BAD_PARAM_VALUE, t)
      else
        let loc = packed_column location location_offset;
            md = packed_column metadata metadata_offset in
        if \<not> offsets_ok num_rows loc then (TSK_ERR_BAD_OFFSET, t)
        else if \<not> offsets_ok num_rows md then (TSK_ERR_BAD_OFFSET, t)
        else
          (0, \<lparr>individuals_num_rows = individuals_num_rows t + num_rows,
               individuals_flags = individuals_flags t @ take num_rows flags,
               individuals_location = append_packed (individuals_location t) num_rows loc,
               individuals_location_length =
                 append_length (individuals_location_length t) num_rows loc,
               individuals_location_offset =
                 append_offset (individuals_location_offset t) (individuals_location_length t)
                   num_rows loc,
               individuals_metadata = append_packed (individuals_metadata t) num_rows md,
               individuals_metadata_length =
                 append_length (individuals_metadata_length t) num_rows md,
               individuals_metadata_offset =
                 append_offset (individuals_metadata_offset t) (individuals_metadata_length t)
                   num_rows md\<rparr>))"

record tsk_migration_table_t =
  migrations_num_rows :: nat
  migrations_left :: "double list"
  migrations_right :: "double list"
  migrations_node :: "32 word list"
  migrations_source :: "32 word list"
  migrations_dest :: "32 word list"
  migrations_time :: "double list"

definition tsk_migration_table_clear :: "tsk_migration_table_t \<Rightarrow> int \<times> tsk_migration_table_t" where
  "tsk_migration_table_clear t =
     (0, \<lparr>migrations_num_rows = 0, migrations_left = [], migrations_right = [],
          migrations_node = [], migrations_source = [], migrations_dest = [],
          migrations_time = []\<rparr>)"

definition tsk_migration_table_append_columns ::
  "tsk_migration_table_t \<Rightarrow> nat \<Rightarrow> double list \<Rightarrow> double list \<Rightarrow> 32 word list \<Rightarrow>
   32 word list \<Rightarrow> 32 word list \<Rightarrow> double list \<Rightarrow> int \<times> tsk_migration_table_t" where
  "tsk_migration_table_append_columns t num_rows left right node source dest time_col =
     (0, \<lparr>migrations_num_rows = migrations_num_rows t + num_rows,
          migrations_left = migrations_left t @ take num_rows left,
          migrations_right = migrations_right t @ take num_rows right,
          migrations_node = migrations_node t @ take num_rows node,
          migrations_source = migrations_source t @ take num_rows source,
          migrations_dest = migrations_dest t @ take num_rows dest,
          migrations_time = migrations_time t @ take num_rows time_col\<rparr>)"

record tsk_site_table_t =
  sites_num_rows :: nat
  sites_position :: "double list"
  sites_ancestral_state :: "8 word list"
  sites_ancestral_state_length :: nat
  sites_ancestral_state_offset :: "32 word list"
  sites_metadata :: "8 word list"
  sites_metadata_length :: nat
  sites_metadata_offset :: "32 word list"

definition tsk_site_table_clear :: "tsk_site_table_t \<Rightarrow> int \<times> tsk_site_table_t" where
  "tsk_site_table_clear t =
     (0, \<lparr>sites_num_rows = 0, sites_position = [], sites_ancestral_state = [],
          sites_ancestral_state_length = 0, sites_ancestral_state_offset = [0],
          sites_metadata = [], sites_metadata_length = 0, sites_metadata_offset = [0]\<rparr>)"

definition tsk_site_table_append_columns ::
  "tsk_site_table_t \<Rightarrow> nat \<Rightarrow> double list \<Rightarrow> 8 word list \<Rightarrow> 32 word list \<Rightarrow>
   8 word list option \<Rightarrow> 32 word list option \<Rightarrow> int \<times> tsk_site_table_t" where
  "tsk_site_table_append_columns t num_rows position ancestral_state ancestral_state_offset
       metadata metadata_offset =
     (if (metadata = None) \<noteq> (metadata_offset = None) then (TSK_ERR_BAD_PARAM_VALUE, t)
      else
        let anc = Some (ancestral_state, ancestral_state_offset);
            md = packed_column metadata metadata_offset in
        if \<not> offsets_ok num_rows anc then (TSK_ERR_BAD_OFFSET, t)
        else if \<not> offsets_ok num_rows md then (TSK_ERR_BAD_OFFSET, t)
        else
          (0, \<lparr>sites_num_rows = sites_num_rows t + num_rows,
               sites_position = sites_position t @ take num_rows position,
               sites_ancestral_state = append_packed (sites_ancestral_state t) num_rows anc,
               sites_ancestral_state_length =
                 append_length (sites_ancestral_state_length t) num_rows anc,
               sites_ancestral_state_offset =
                 append_offset (sites_ancestral_state_offset t) (sites_ancestral_state_length t)
                   num_rows anc,
               sites_metadata = append_packed (sites_metadata t) num_rows md,
               sites_metadata_length = append_length (sites_metadata_length t) num_rows md,
               sites_metadata_offset =
                 append_offset (sites_metadata_offset t) (sites_metadata_length t) num_rows md\<rparr>))"

record tsk_mutation_table_t =
  mutations_num_rows :: nat
  mutations_site :: "32 word list"
  mutations_node :: "32 word list"
  mutations_parent :: "32 word list"
  mutations_derived_state :: "8 word list"
  mutations_derived_state_length :: nat
  mutations_derived_state_offset :: "32 word list"
  mutations_metadata :: "8 word list"
  mutations_metadata_length :: nat
  mutations_metadata_offset :: "32 word list"

definition tsk_mutation_table_clear :: "tsk_mutation_table_t \<Rightarrow> int \<times> tsk_mutation_table_t" where
  "tsk_mutation_table_clear t =
     (0, \<lparr>mutations_num_rows = 0, mutations_site = [], mutations_node = [],
          mutations_parent = [], mutations_derived_state = [],
          mutations_derived_state_length = 0, mutations_derived_state_offset = [0],
          mutations_metadata = [], mutations_metadata_length = 0,
          mutations_metadata_offset = [0]\<rparr>)"

definition tsk_mutation_table_append_columns ::
  "tsk_mutation_table_t \<Rightarrow> nat \<Rightarrow> 32 word list \<Rightarrow> 32 word list \<Rightarrow> 32 word list option \<Rightarrow>
   8 word list \<Rightarrow> 32 word list \<Rightarrow> 8 word list option \<Rightarrow> 32 word list option \<Rightarrow>
   int \<times> tsk_mutation_table_t" where
  "tsk_mutation_table_append_columns t num_rows site node parent derived_state
       derived_state_offset metadata metadata_offset =
     (if (metadata = None) \<noteq> (metadata_offset = None) then (TSK_ERR_BAD_PARAM_VALUE, t)
      else
        let der = Some (derived_state, derived_state_offset);
            md = packed_column metadata metadata_offset in
        if \<not> offsets_ok num_rows der then (TSK_ERR_BAD_OFFSET, t)
        else if \<not> offsets_ok num_rows md then (TSK_ERR_BAD_OFFSET, t)
        else
          (0, \<lparr>mutations_num_rows = mutations_num_rows t + num_rows,
               mutations_site = mutations_site t @ take num_rows site,
               mutations_node = mutations_node t @ take num_rows node,
               mutations_parent = append_ids (mutations_parent t) num_rows parent,
               mutations_derived_state = append_packed (mutations_derived_state t) num_rows der,
               mutations_derived_state_length =
                 append_length (mutations_derived_state_length t) num_rows der,
               mutations_derived_state_offset =
                 append_offset (mutations_derived_state_offset t)
                   (mutations_derived_state_length t) num_rows der,
               mutations_metadata = append_packed (mutations_metadata t) num_rows md,
               mutations_metadata_length =
                 append_length (mutations_metadata_length t) num_rows md,
               mutations_metadata_offset =
                 append_offset (mutations_metadata_offset t) (mutations_metadata_length t)
                   num_rows md\<rparr>))"

record tsk_population_table_t =
  populations_num_rows :: nat
  populations_metadata :: "8 word list"
  populations_metadata_length :: nat
  populations_metadata_offset :: "32 word list"

definition tsk_population_table_clear :: "tsk_population_table_t \<Rightarrow> int \<times> tsk_population_table_t" where
  "tsk_population_table_clear t =
     (0, \<lparr>populations_num_rows = 0, populations_metadata = [],
          populations_metadata_length = 0, populations_metadata_offset = [0]\<rparr>)"

definition tsk_population_table_append_columns ::
  "tsk_population_table_t \<Rightarrow> nat \<Rightarrow> 8 word list \<Rightarrow> 32 word list \<Rightarrow> int \<times> tsk_population_table_t" where
  "tsk_population_table_append_columns t num_rows metadata metadata_offset =
     (let md = Some (metadata, metadata_offset) in
      if \<not> offsets_ok num_rows md then (TSK_ERR_BAD_OFFSET, t)
      else
        (0, \<lparr>populations_num_rows = populations_num_rows t + num_rows,
             populations_metadata = append_packed (populations_metadata t) num_rows md,
             populations_metadata_length =
               append_length (populations_metadata_length t) num_rows md,
             populations_metadata_offset =
               append_offset (populations_metadata_offset t) (populations_metadata_length t)
                 num_rows md\<rparr>))"

record tsk_provenance_table_t =
  provenances_num_rows :: nat
  provenances_timestamp :: "8 word list"
  provenances_timestamp_length :: nat
  provenances_timestamp_offset :: "32 word list"
  provenances_record :: "8 word list"
  provenances_record_length :: nat
  provenances_record_offset :: "32 word list"

definition tsk_provenance_table_clear :: "tsk_provenance_table_t \<Rightarrow> int \<times> tsk_provenance_table_t" where
  "tsk_provenance_table_clear t =
     (0, \<lparr>provenances_num_rows = 0, provenances_timestamp = [],
          provenances_timestamp_length = 0, provenances_timestamp_offset = [0],
          provenances_record = [], provenances_record_length = 0,
          provenances_record_offset = [0]\<rparr>)"

definition tsk_provenance_table_append_columns ::
  "tsk_provenance_table_t \<Rightarrow> nat \<Rightarrow> 8 word list \<Rightarrow> 32 word list \<Rightarrow> 8 word list \<Rightarrow>
   32 word list \<Rightarrow> int \<times> tsk_provenance_table_t" where
  "tsk_provenance_table_append_columns t num_rows timestamp timestamp_offset record_col
       record_offset =
     (let ts = Some (timestamp, timestamp_offset);
          rc = Some (record_col, record_offset) in
      if \<not> offsets_ok num_rows ts then (TSK_ERR_BAD_OFFSET, t)
      else if \<not> offsets_ok num_rows rc then (TSK_ERR_BAD_OFFSET, t)
      else
        (0, \<lparr>provenances_num_rows = provenances_num_rows t + num_rows,
             provenances_timestamp = append_packed (provenances_timestamp t) num_rows ts,
             provenances_timestamp_length =
               append_length (provenances_timestamp_length t) num_rows ts,
             provenances_timestamp_offset =
               append_offset (provenances_timestamp_offset t) (provenances_timestamp_length t)
                 num_rows ts,
             provenances_record = append_packed (provenances_record t) num_rows rc,
             provenances_record_length =
               append_length (provenances_record_length t) num_rows rc,
             provenances_record_offset =
               append_offset (provenances_record_offset t) (provenances_record_length t)
                 num_rows rc\<rparr>))"

record tsk_table_collection_t =
  sequence_length :: double
  individuals :: tsk_individual_table_t
  nodes :: tsk_node_table_t
  edges :: tsk_edge_table_t
  migrations :: tsk_migration_table_t
  sites :: tsk_site_table_t
  mutations :: tsk_mutation_table_t
  populations :: tsk_population_table_t
  provenances :: tsk_provenance_table_t

subsection \<open>Reading a table collection from its dictionary encoding\<close>

text \<open>
  Every \<^verbatim>\<open>parse_*_table_dict\<close> ends in the same way: the table is cleared when
  \<^verbatim>\<open>clear_table\<close> is set, the columns are appended, and an error code of the library is
  raised by \<^verbatim>\<open>handle_library_error\<close>. A function returns the exception, if any, with the
  table as it has left it.
\<close>

definition clear_and_append ::
  "bool \<Rightarrow> ('t \<Rightarrow> int \<times> 't) \<Rightarrow> ('t \<Rightarrow> int \<times> 't) \<Rightarrow> 't \<Rightarrow> pyerr option \<times> 't" where
  "clear_and_append clear_table clear_columns append_columns t =
     (case (if clear_table then clear_columns t else (0, t)) of
        (err, t1) \<Rightarrow>
          if err \<noteq> 0 then (Some (LibraryError err), t1)
          else
            (case append_columns t1 of
               (err, t2) \<Rightarrow>
                 if err \<noteq> 0 then (Some (LibraryError err), t2) else (None, t2)))"

text \<open>
  An optional variable-length column: both inputs are \<open>None\<close>, or the packed array and
  its offsets are read (the offsets against the number of rows found so far).
\<close>

definition read_optional_i8 ::
  "pyobj \<Rightarrow> pyobj \<Rightarrow> nat \<Rightarrow> bool \<Rightarrow> pyerr + (8 word list option \<times> 32 word list option \<times> nat)" where
  "read_optional_i8 metadata_input metadata_offset_input num_rows check_num_rows =
     (if (metadata_input = PyNone) \<noteq> (metadata_offset_input = PyNone)
      then Inl (TypeError ''metadata and metadata_offset must be specified together'')
      else if metadata_input \<noteq> PyNone
      then
        bind_err (table_read_column_array metadata_input NPY_INT8 0 False)
          (\<lambda>(metadata_array, metadata_length).
        bind_err (table_read_offset_array metadata_offset_input num_rows metadata_length
                    check_num_rows)
          (\<lambda>(metadata_offset_array, num_rows).
        Inr (Some (i8_data (elems metadata_array)),
             Some (u32_data (elems metadata_offset_array)), num_rows)))
      else Inr (None, None, num_rows))"

definition parse_individual_table_dict ::
  "tsk_individual_table_t \<Rightarrow> (string \<Rightarrow> pyobj option) \<Rightarrow> bool \<Rightarrow>
   pyerr option \<times> tsk_individual_table_t" where
  "parse_individual_table_dict table dict clear_table =
     (case
        bind_err (get_table_dict_value dict ''flags'' True) (\<lambda>flags_input.
        bind_err (get_table_dict_value dict ''location'' False) (\<lambda>location_input.
        bind_err (get_table_dict_value dict ''location_offset'' False) (\<lambda>location_offset_input.
        bind_err (get_table_dict_value dict ''metadata'' False) (\<lambda>metadata_input.
        bind_err (get_table_dict_value dict ''metadata_offset'' False) (\<lambda>metadata_offset_input.
        bind_err (table_read_column_array flags_input NPY_UINT32 0 False)
          (\<lambda>(flags_array, num_rows).
        bind_err
          (if (location_input = PyNone) \<noteq> (location_offset_input = PyNone)
           then Inl (TypeError ''location and location_offset must be specified together'')
           else if location_input \<noteq> PyNone
           then
             bind_err (table_read_column_array location_input NPY_FLOAT64 0 False)
               (\<lambda>(location_array, location_length).
             bind_err (table_read_offset_array location_offset_input num_rows location_length
                         True)
               (\<lambda>(location_offset_array, num_rows).
             Inr (Some (f64_data (elems location_array)),
                  Some (u32_data (elems location_offset_array)))))
           else Inr (None, None))
          (\<lambda>(location_data, location_offset_data).
        bind_err (read_optional_i8 metadata_input metadata_offset_input num_rows True)
          (\<lambda>(metadata_data, metadata_offset_data, num_rows).
        Inr (num_rows, u32_data (elems flags_array), location_data, location_offset_data,
             metadata_data, metadata_offset_data)))))))))
      of
        Inl e \<Rightarrow> (Some e, table)
      | Inr (num_rows, flags, location_data, location_offset_data, metadata_data,
             metadata_offset_data) \<Rightarrow>
          clear_and_append clear_table tsk_individual_table_clear
            (\<lambda>t. tsk_individual_table_append_columns t num_rows flags location_data
                    location_offset_data metadata_data metadata_offset_data)
            table)"

text \<open>An optional column of ids, checked against the number of rows.\<close>

definition read_optional_i32 :: "pyobj \<Rightarrow> nat \<Rightarrow> pyerr + 32 word list option" where
  "read_optional_i32 input num_rows =
     (if input \<noteq> PyNone
      then bind_err (table_read_column_array input NPY_INT32 num_rows True)
             (\<lambda>(array, num_rows). Inr (Some (i32_data (elems array))))
      else Inr None)"

definition parse_node_table_dict ::
  "tsk_node_table_t \<Rightarrow> (string \<Rightarrow> pyobj option) \<Rightarrow> bool \<Rightarrow> pyerr option \<times> tsk_node_table_t" where
  "parse_node_table_dict table dict clear_table =
     (case
        bind_err (get_table_dict_value dict ''flags'' True) (\<lambda>flags_input.
        bind_err (get_table_dict_value dict ''time'' True) (\<lambda>time_input.
        bind_err (get_table_dict_value dict ''population'' False) (\<lambda>population_input.
        bind_err (get_table_dict_value dict ''individual'' False) (\<lambda>individual_input.
        bind_err (get_table_dict_value dict ''metadata'' False) (\<lambda>metadata_input.
        bind_err (get_table_dict_value dict ''metadata_offset'' False) (\<lambda>metadata_offset_input.
        bind_err (table_read_column_array flags_input NPY_UINT32 0 False)
          (\<lambda>(flags_array, num_rows).
        bind_err (table_read_column_array time_input NPY_FLOAT64 num_rows True)
          (\<lambda>(time_array, num_rows).
        bind_err (read_optional_i32 population_input num_rows) (\<lambda>population_data.
        bind_err (read_optional_i32 individual_input num_rows) (\<lambda>individual_data.
        bind_err (read_optional_i8 metadata_input metadata_offset_input num_rows True)
          (\<lambda>(metadata_data, metadata_offset_data, num_rows).
        Inr (num_rows, u32_data (elems flags_array), f64_data (elems time_array),
             population_data, individual_data, metadata_data, metadata_offset_data))))))))))))
      of
        Inl e \<Rightarrow> (Some e, table)
      | Inr (num_rows, flags, time_data, population_data, individual_data, metadata_data,
             metadata_offset_data) \<Rightarrow>
          clear_and_append clear_table tsk_node_table_clear
            (\<lambda>t. tsk_node_table_append_columns t num_rows flags time_data population_data
                    individual_data metadata_data metadata_offset_data)
            table)"

definition parse_edge_table_dict ::
  "tsk_edge_table_t \<Rightarrow> (string \<Rightarrow> pyobj option) \<Rightarrow> bool \<Rightarrow> pyerr option \<times> tsk_edge_table_t" where
  "parse_edge_table_dict table dict clear_table =
     (case
        bind_err (get_table_dict_value dict ''left'' True) (\<lambda>left_input.
        bind_err (get_table_dict_value dict ''right'' True) (\<lambda>right_input.
        bind_err (get_table_dict_value dict ''parent'' True) (\<lambda>parent_input.
        bind_err (get_table_dict_value dict ''child'' True) (\<lambda>child_input.
        bind_err (table_read_column_array left_input NPY_FLOAT64 0 False)
          (\<lambda>(left_array, num_rows).
        bind_err (table_read_column_array right_input NPY_FLOAT64 num_rows True)
          (\<lambda>(right_array, num_rows).
        bind_err (table_read_column_array parent_input NPY_INT32 num_rows True)
          (\<lambda>(parent_array, num_rows).
        bind_err (table_read_column_array child_input NPY_INT32 num_rows True)
          (\<lambda>(child_array, num_rows).
        Inr (num_rows, f64_data (elems left_array), f64_data (elems right_array),
             i32_data (elems parent_array), i32_data (elems child_array))))))))))
      of
        Inl e \<Rightarrow> (Some e, table)
      | Inr (num_rows, left, right, parent, child) \<Rightarrow>
          clear_and_append clear_table tsk_edge_table_clear
            (\<lambda>t. tsk_edge_table_append_columns t num_rows left right parent child)
            table)"

definition parse_migration_table_dict ::
  "tsk_migration_table_t \<Rightarrow> (string \<Rightarrow> pyobj option) \<Rightarrow> bool \<Rightarrow>
   pyerr option \<times> tsk_migration_table_t" where
  "parse_migration_table_dict table dict clear_table =
     (case
        bind_err (get_table_dict_value dict ''left'' True) (\<lambda>left_input.
        bind_err (get_table_dict_value dict ''right'' True) (\<lambda>right_input.
        bind_err (get_table_dict_value dict ''node'' True) (\<lambda>node_input.
        bind_err (get_table_dict_value dict ''source'' True) (\<lambda>source_input.
        bind_err (get_table_dict_value dict ''dest'' True) (\<lambda>dest_input.
        bind_err (get_table_dict_value dict ''time'' True) (\<lambda>time_input.
        bind_err (table_read_column_array left_input NPY_FLOAT64 0 False)
          (\<lambda>(left_array, num_rows).
        bind_err (table_read_column_array right_input NPY_FLOAT64 num_rows True)
          (\<lambda>(right_array, num_rows).
        bind_err (table_read_column_array node_input NPY_INT32 num_rows True)
          (\<lambda>(node_array, num_rows).
        bind_err (table_read_column_array source_input NPY_INT32 num_rows True)
          (\<lambda>(source_array, num_rows).
        bind_err (table_read_column_array dest_input NPY_INT32 num_rows True)
          (\<lambda>(dest_array, num_rows).
        bind_err (table_read_column_array time_input NPY_FLOAT64 num_rows True)
          (\<lambda>(time_array, num_rows).
        Inr (num_rows, f64_data (elems left_array), f64_data (elems right_array),
             i32_data (elems node_array), i32_data (elems source_array),
             i32_data (elems dest_array), f64_data (elems time_array))))))))))))))
      of
        Inl e \<Rightarrow> (Some e, table)
      | Inr (num_rows, left, right, node, source, dest, time_data) \<Rightarrow>
          clear_and_append clear_table tsk_migration_table_clear
            (\<lambda>t. tsk_migration_table_append_columns t num_rows left right node source dest
                    time_data)
            table)"

text \<open>
  In \<^verbatim>\<open>parse_site_table_dict\<close> and \<^verbatim>\<open>parse_mutation_table_dict\<close> the offsets of the metadata
  are read with \<^verbatim>\<open>check_num_rows\<close> false, which overwrites the number of rows. When that
  makes it larger than the other columns are long, the library reads past their end:
  the model stops with \<open>MemoryFault\<close>.
\<close>

definition parse_site_table_dict ::
  "tsk_site_table_t \<Rightarrow> (string \<Rightarrow> pyobj option) \<Rightarrow> bool \<Rightarrow> pyerr option \<times> tsk_site_table_t" where
  "parse_site_table_dict table dict clear_table =
     (case
        bind_err (get_table_dict_value dict ''position'' True) (\<lambda>position_input.
        bind_err (get_table_dict_value dict ''ancestral_state'' True) (\<lambda>ancestral_state_input.
        bind_err (get_table_dict_value dict ''ancestral_state_offset'' True)
          (\<lambda>ancestral_state_offset_input.
        bind_err (get_table_dict_value dict ''metadata'' False) (\<lambda>metadata_input.
        bind_err (get_table_dict_value dict ''metadata_offset'' False) (\<lambda>metadata_offset_input.
        bind_err (table_read_column_array position_input NPY_FLOAT64 0 False)
          (\<lambda>(position_array, num_rows).
        bind_err (table_read_column_array ancestral_state_input NPY_INT8 0 False)
          (\<lambda>(ancestral_state_array, ancestral_state_length).
        bind_err (table_read_offset_array ancestral_state_offset_input num_rows
                    ancestral_state_length True)
          (\<lambda>(ancestral_state_offset_array, num_rows).
        bind_err (read_optional_i8 metadata_input metadata_offset_input num_rows False)
          (\<lambda>(metadata_data, metadata_offset_data, num_rows).
        Inr (num_rows, f64_data (elems position_array), i8_data (elems ancestral_state_array),
             u32_data (elems ancestral_state_offset_array), metadata_data,
             metadata_offset_data))))))))))
      of
        Inl e \<Rightarrow> (Some e, table)
      | Inr (num_rows, position, ancestral_state, ancestral_state_offset, metadata_data,
             metadata_offset_data) \<Rightarrow>
          if length position < num_rows then (Some MemoryFault, table)
          else
            clear_and_append clear_table tsk_site_table_clear
              (\<lambda>t. tsk_site_table_append_columns t num_rows position ancestral_state
                      ancestral_state_offset metadata_data metadata_offset_data)
              table)"

definition parse_mutation_table_dict ::
  "tsk_mutation_table_t \<Rightarrow> (string \<Rightarrow> pyobj option) \<Rightarrow> bool \<Rightarrow>
   pyerr option \<times> tsk_mutation_table_t" where
  "parse_mutation_table_dict table dict clear_table =
     (case
        bind_err (get_table_dict_value dict ''site'' True) (\<lambda>site_input.
        bind_err (get_table_dict_value dict ''node'' True) (\<lambda>node_input.
        bind_err (get_table_dict_value dict ''parent'' False) (\<lambda>parent_input.
        bind_err (get_table_dict_value dict ''derived_state'' True) (\<lambda>derived_state_input.
        bind_err (get_table_dict_value dict ''derived_state_offset'' True)
          (\<lambda>derived_state_offset_input.
        bind_err (get_table_dict_value dict ''metadata'' False) (\<lambda>metadata_input.
        bind_err (get_table_dict_value dict ''metadata_offset'' False) (\<lambda>metadata_offset_input.
        bind_err (table_read_column_array site_input NPY_INT32 0 False)
          (\<lambda>(site_array, num_rows).
        bind_err (table_read_column_array derived_state_input NPY_INT8 0 False)
          (\<lambda>(derived_state_array, derived_state_length).
        bind_err (table_read_offset_array derived_state_offset_input num_rows
                    derived_state_length True)
          (\<lambda>(derived_state_offset_array, num_rows).
        bind_err (table_read_column_array node_input NPY_INT32 num_rows True)
          (\<lambda>(node_array, num_rows).
        bind_err (read_optional_i32 parent_input num_rows) (\<lambda>parent_data.
        bind_err (read_optional_i8 metadata_input metadata_offset_input num_rows False)
          (\<lambda>(metadata_data, metadata_offset_data, num_rows).
        Inr (num_rows, i32_data (elems site_array), i32_data (elems node_array), parent_data,
             i8_data (elems derived_state_array), u32_data (elems derived_state_offset_array),
             metadata_data, metadata_offset_data))))))))))))))
      of
        Inl e \<Rightarrow> (Some e, table)
      | Inr (num_rows, site, node, parent_data, derived_state, derived_state_offset,
             metadata_data, metadata_offset_data) \<Rightarrow>
          if length site < num_rows then (Some MemoryFault, table)
          else
            clear_and_append clear_table tsk_mutation_table_clear
              (\<lambda>t. tsk_mutation_table_append_columns t num_rows site node parent_data
                      derived_state derived_state_offset metadata_data metadata_offset_data)
              table)"

definition parse_population_table_dict ::
  "tsk_population_table_t \<Rightarrow> (string \<Rightarrow> pyobj option) \<Rightarrow> bool \<Rightarrow>
   pyerr option \<times> tsk_population_table_t" where
  "parse_population_table_dict table dict clear_table =
     (case
        bind_err (get_table_dict_value dict ''metadata'' True) (\<lambda>metadata_input.
        bind_err (get_table_dict_value dict ''metadata_offset'' True) (\<lambda>metadata_offset_input.
        bind_err (table_read_column_array metadata_input NPY_INT8 0 False)
          (\<lambda>(metadata_array, metadata_length).
        bind_err (table_read_offset_array metadata_offset_input 0 metadata_length False)
          (\<lambda>(metadata_offset_array, num_rows).
        Inr (num_rows, i8_data (elems metadata_array),
             u32_data (elems metadata_offset_array))))))
      of
        Inl e \<Rightarrow> (Some e, table)
      | Inr (num_rows, metadata, metadata_offset) \<Rightarrow>
          clear_and_append clear_table tsk_population_table_clear
            (\<lambda>t. tsk_population_table_append_columns t num_rows metadata metadata_offset)
            table)"

definition parse_provenance_table_dict ::
  "tsk_provenance_table_t \<Rightarrow> (string \<Rightarrow> pyobj option) \<Rightarrow> bool \<Rightarrow>
   pyerr option \<times> tsk_provenance_table_t" where
  "parse_provenance_table_dict table dict clear_table =
     (case
        bind_err (get_table_dict_value dict ''timestamp'' True) (\<lambda>timestamp_input.
        bind_err (get_table_dict_value dict ''timestamp_offset'' True) (\<lambda>timestamp_offset_input.
        bind_err (get_table_dict_value dict ''record'' True) (\<lambda>record_input.
        bind_err (get_table_dict_value dict ''record_offset'' True) (\<lambda>record_offset_input.
        bind_err (table_read_column_array timestamp_input NPY_INT8 0 False)
          (\<lambda>(timestamp_array, timestamp_length).
        bind_err (table_read_offset_array timestamp_offset_input 0 timestamp_length False)
          (\<lambda>(timestamp_offset_array, num_rows).
        bind_err (table_read_column_array record_input NPY_INT8 0 False)
          (\<lambda>(record_array, record_length).
        bind_err (table_read_offset_array record_offset_input num_rows record_length True)
          (\<lambda>(record_offset_array, num_rows).
        Inr (num_rows, i8_data (elems timestamp_array),
             u32_data (elems timestamp_offset_array), i8_data (elems record_array),
             u32_data (elems record_offset_array))))))))))
      of
        Inl e \<Rightarrow> (Some e, table)
      | Inr (num_rows, timestamp, timestamp_offset, record_data, record_offset) \<Rightarrow>
          clear_and_append clear_table tsk_provenance_table_clear
            (\<lambda>t. tsk_provenance_table_append_columns t num_rows timestamp timestamp_offset
                    record_data record_offset)
            table)"

text \<open>
  \<^verbatim>\<open>parse_table_collection_dict\<close> writes the sequence length and then reads the eight
  tables in turn; the first exception ends it, with the tables read so far replaced.
\<close>

definition table_dict_entry ::
  "(string \<Rightarrow> pyobj option) \<Rightarrow> string \<Rightarrow> pyerr + (string \<Rightarrow> pyobj option)" where
  "table_dict_entry tables_dict key_str =
     bind_err (get_table_dict_value tables_dict key_str True)
       (\<lambda>v. case v of PyDict d \<Rightarrow> Inr d | _ \<Rightarrow> Inl (TypeError ''not a dictionary''))"

definition and_then :: "pyerr option \<times> 's \<Rightarrow> ('s \<Rightarrow> pyerr option \<times> 's) \<Rightarrow> pyerr option \<times> 's" where
  "and_then r f = (case r of (None, s) \<Rightarrow> f s | (Some e, s) \<Rightarrow> (Some e, s))"

definition parse_table_collection_dict ::
  "tsk_table_collection_t \<Rightarrow> (string \<Rightarrow> pyobj option) \<Rightarrow> pyerr option \<times> tsk_table_collection_t" where
  "parse_table_collection_dict tabs tables_dict =
     (case get_table_dict_value tables_dict ''sequence_length'' True of
        Inl e \<Rightarrow> (Some e, tabs)
      | Inr v \<Rightarrow>
          if \<not> PyNumber_Check v then (Some (TypeError ''sequence_length is not number''), tabs)
          else
            and_then (None, tabs\<lparr>sequence_length := PyFloat_AsDouble v\<rparr>) (\<lambda>tabs.
            and_then
              (case table_dict_entry tables_dict ''individuals'' of
                 Inl e \<Rightarrow> (Some e, tabs)
               | Inr d \<Rightarrow>
                   (case parse_individual_table_dict (individuals tabs) d True of
                      (err, t) \<Rightarrow> (err, tabs\<lparr>individuals := t\<rparr>))) (\<lambda>tabs.
            and_then
              (case table_dict_entry tables_dict ''nodes'' of
                 Inl e \<Rightarrow> (Some e, tabs)
               | Inr d \<Rightarrow>
                   (case parse_node_table_dict (nodes tabs) d True of
                      (err, t) \<Rightarrow> (err, tabs\<lparr>nodes := t\<rparr>))) (\<lambda>tabs.
            and_then
              (case table_dict_entry tables_dict ''edges'' of
                 Inl e \<Rightarrow> (Some e, tabs)
               | Inr d \<Rightarrow>
                   (case parse_edge_table_dict (edges tabs) d True of
                      (err, t) \<Rightarrow> (err, tabs\<lparr>edges := t\<rparr>))) (\<lambda>tabs.
            and_then
              (case table_dict_entry tables_dict ''migrations'' of
                 Inl e \<Rightarrow> (Some e, tabs)
               | Inr d \<Rightarrow>
                   (case parse_migration_table_dict (migrations tabs) d True of
                      (err, t) \<Rightarrow> (err, tabs\<lparr>migrations := t\<rparr>))) (\<lambda>tabs.
            and_then
              (case table_dict_entry tables_dict ''sites'' of
                 Inl e \<Rightarrow> (Some e, tabs)
               | Inr d \<Rightarrow>
                   (case parse_site_table_dict (sites tabs) d True of
                      (err, t) \<Rightarrow> (err, tabs\<lparr>sites := t\<rparr>))) (\<lambda>tabs.
            and_then
              (case table_dict_entry tables_dict ''mutations'' of
                 Inl e \<Rightarrow> (Some e, tabs)
               | Inr d \<Rightarrow>
                   (case parse_mutation_table_dict (mutations tabs) d True of
                      (err, t) \<Rightarrow> (err, tabs\<lparr>mutations := t\<rparr>))) (\<lambda>tabs.
            and_then
              (case table_dict_entry tables_dict ''populations'' of
                 Inl e \<Rightarrow> (Some e, tabs)
               | Inr d \<Rightarrow>
                   (case parse_population_table_dict (populations tabs) d True of
                      (err, t) \<Rightarrow> (err, tabs\<lparr>populations := t\<rparr>))) (\<lambda>tabs.
              (case table_dict_entry tables_dict ''provenances'' of
                 Inl e \<Rightarrow> (Some e, tabs)
               | Inr d \<Rightarrow>
                   (case parse_provenance_table_dict (provenances tabs) d True of
                      (err, t) \<Rightarrow> (err, tabs\<lparr>provenances := t\<rparr>))))))))))))"

subsection \<open>Writing a table collection as a dictionary\<close>

text \<open>
  The column descriptors of \<^verbatim>\<open>write_table_arrays\<close>, each with the dictionary that the
  inner loop builds from it: one array per column, of the length the descriptor gives.
  Failures of allocation are not modelled.
\<close>

definition individual_cols :: "tsk_table_collection_t \<Rightarrow> (string \<Rightarrow> pyobj option)" where
  "individual_cols tabs =
     (let t = individuals tabs in
      [''flags'' \<mapsto> new_u32_array (individuals_num_rows t) (individuals_flags t),
       ''location'' \<mapsto> new_f64_array (individuals_location_length t) (individuals_location t),
       ''location_offset'' \<mapsto>
          new_u32_array (individuals_num_rows t + 1) (individuals_location_offset t),
       ''metadata'' \<mapsto> new_i8_array (individuals_metadata_length t) (individuals_metadata t),
       ''metadata_offset'' \<mapsto>
          new_u32_array (individuals_num_rows t + 1) (individuals_metadata_offset t)])"

definition node_cols :: "tsk_table_collection_t \<Rightarrow> (string \<Rightarrow> pyobj option)" where
  "node_cols tabs =
     (let t = nodes tabs in
      [''time'' \<mapsto> new_f64_array (nodes_num_rows t) (nodes_time t),
       ''flags'' \<mapsto> new_u32_array (nodes_num_rows t) (nodes_flags t),
       ''population'' \<mapsto> new_i32_array (nodes_num_rows t) (nodes_population t),
       ''individual'' \<mapsto> new_i32_array (nodes_num_rows t) (nodes_individual t),
       ''metadata'' \<mapsto> new_i8_array (nodes_metadata_length t) (nodes_metadata t),
       ''metadata_offset'' \<mapsto> new_u32_array (nodes_num_rows t + 1) (nodes_metadata_offset t)])"

definition edge_cols :: "tsk_table_collection_t \<Rightarrow> (string \<Rightarrow> pyobj option)" where
  "edge_cols tabs =
     (let t = edges tabs in
      [''left'' \<mapsto> new_f64_array (edges_num_rows t) (edges_left t),
       ''right'' \<mapsto> new_f64_array (edges_num_rows t) (edges_right t),
       ''parent'' \<mapsto> new_i32_array (edges_num_rows t) (edges_parent t),
       ''child'' \<mapsto> new_i32_array (edges_num_rows t) (edges_child t)])"

definition migration_cols :: "tsk_table_collection_t \<Rightarrow> (string \<Rightarrow> pyobj option)" where
  "migration_cols tabs =
     (let t = migrations tabs in
      [''left'' \<mapsto> new_f64_array (migrations_num_rows t) (migrations_left t),
       ''right'' \<mapsto> new_f64_array (migrations_num_rows t) (migrations_right t),
       ''node'' \<mapsto> new_i32_array (migrations_num_rows t) (migrations_node t),
       ''source'' \<mapsto> new_i32_array (migrations_num_rows t) (migrations_source t),
       ''dest'' \<mapsto> new_i32_array (migrations_num_rows t) (migrations_dest t),
       ''time'' \<mapsto> new_f64_array (migrations_num_rows t) (migrations_time t)])"

definition site_cols :: "tsk_table_collection_t \<Rightarrow> (string \<Rightarrow> pyobj option)" where
  "site_cols tabs =
     (let t = sites tabs in
      [''position'' \<mapsto> new_f64_array (sites_num_rows t) (sites_position t),
       ''ancestral_state'' \<mapsto>
          new_i8_array (sites_ancestral_state_length t) (sites_ancestral_state t),
       ''ancestral_state_offset'' \<mapsto>
          new_u32_array (sites_num_rows t + 1) (sites_ancestral_state_offset t),
       ''metadata'' \<mapsto> new_i8_array (sites_metadata_length t) (sites_metadata t),
       ''metadata_offset'' \<mapsto> new_u32_array (sites_num_rows t + 1) (sites_metadata_offset t)])"

definition mutation_cols :: "tsk_table_collection_t \<Rightarrow> (string \<Rightarrow> pyobj option)" where
  "mutation_cols tabs =
     (let t = mutations tabs in
      [''site'' \<mapsto> new_i32_array (mutations_num_rows t) (mutations_site t),
       ''node'' \<mapsto> new_i32_array (mutations_num_rows t) (mutations_node t),
       ''parent'' \<mapsto> new_i32_array (mutations_num_rows t) (mutations_parent t),
       ''derived_state'' \<mapsto>
          new_i8_array (mutations_derived_state_length t) (mutations_derived_state t),
       ''derived_state_offset'' \<mapsto>
          new_u32_array (mutations_num_rows t + 1) (mutations_derived_state_offset t),
       ''metadata'' \<mapsto> new_i8_array (mutations_metadata_length t) (mutations_metadata t),
       ''metadata_offset'' \<mapsto>
          new_u32_array (mutations_num_rows t + 1) (mutations_metadata_offset t)])"

definition population_cols :: "tsk_table_collection_t \<Rightarrow> (string \<Rightarrow> pyobj option)" where
  "population_cols tabs =
     (let t = populations tabs in
      [''metadata'' \<mapsto> new_i8_array (populations_metadata_length t) (populations_metadata t),
       ''metadata_offset'' \<mapsto>
          new_u32_array (populations_num_rows t + 1) (populations_metadata_offset t)])"

definition provenance_cols :: "tsk_table_collection_t \<Rightarrow> (string \<Rightarrow> pyobj option)" where
  "provenance_cols tabs =
     (let t = provenances tabs in
      [''timestamp'' \<mapsto>
          new_i8_array (provenances_timestamp_length t) (provenances_timestamp t),
       ''timestamp_offset'' \<mapsto>
          new_u32_array (provenances_num_rows t + 1) (provenances_timestamp_offset t),
       ''record'' \<mapsto> new_i8_array (provenances_record_length t) (provenances_record t),
       ''record_offset'' \<mapsto>
          new_u32_array (provenances_num_rows t + 1) (provenances_record_offset t)])"

definition write_table_arrays ::
  "tsk_table_collection_t \<Rightarrow> (string \<Rightarrow> pyobj option) \<Rightarrow> (string \<Rightarrow> pyobj option)" where
  "write_table_arrays tabs dict =
     dict(''individuals'' \<mapsto> PyDict (individual_cols tabs),
          ''nodes'' \<mapsto> PyDict (node_cols tabs),
          ''edges'' \<mapsto> PyDict (edge_cols tabs),
          ''migrations'' \<mapsto> PyDict (migration_cols tabs),
          ''sites'' \<mapsto> PyDict (site_cols tabs),
          ''mutations'' \<mapsto> PyDict (mutation_cols tabs),
          ''populations'' \<mapsto> PyDict (population_cols tabs),
          ''provenances'' \<mapsto> PyDict (provenance_cols tabs))"

definition dump_tables_dict :: "tsk_table_collection_t \<Rightarrow> pyobj" where
  "dump_tables_dict tabs =
     PyDict (write_table_arrays tabs [''sequence_length'' \<mapsto> PyFloat (sequence_length tabs)])"

subsection \<open>LightweightTableCollection\<close>

record LightweightTableCollection =
  tables :: "tsk_table_collection_t option"

definition LightweightTableCollection_check_state :: "LightweightTableCollection \<Rightarrow> pyerr option" where
  "LightweightTableCollection_check_state self =
     (if tables self = None
      then Some (SystemError ''LightweightTableCollection not initialised'')
      else None)"

definition LightweightTableCollection_asdict :: "LightweightTableCollection \<Rightarrow> pyerr + pyobj" where
  "LightweightTableCollection_asdict self =
     (case tables self of
        None \<Rightarrow> Inl (SystemError ''LightweightTableCollection not initialised'')
      | Some tabs \<Rightarrow> Inr (dump_tables_dict tabs))"

text \<open>
  \<^verbatim>\<open>fromdict\<close> takes one argument, which the format \<^verbatim>\<open>"O!"\<close> requires to be a dictionary. It
  does not check that the collection is initialised before it writes to it.
\<close>

definition LightweightTableCollection_fromdict ::
  "LightweightTableCollection \<Rightarrow> pyobj \<Rightarrow> (pyerr + pyobj) \<times> LightweightTableCollection" where
  "LightweightTableCollection_fromdict self arg =
     (case arg of
        PyDict dict \<Rightarrow>
          (case tables self of
             None \<Rightarrow> (Inl MemoryFault, self)
           | Some tabs \<Rightarrow>
               (case parse_table_collection_dict tabs dict of
                  (Some e, tabs') \<Rightarrow> (Inl e, self\<lparr>tables := Some tabs'\<rparr>)
                | (None, tabs') \<Rightarrow> (Inr PyNone, self\<lparr>tables := Some tabs'\<rparr>)))
      | _ \<Rightarrow> (Inl (TypeError ''argument 1 must be dict''), self))"

text \<open>
  The invariants of the tables library on a table collection (its documented encoding):
  every column has one entry per row, and every variable-length column has a packed
  array of the recorded length and an offset column of \<open>num_rows + 1\<close> entries that
  starts at 0, ends at that length and never decreases.
\<close>

definition packed_wf :: "nat \<Rightarrow> 'a list \<Rightarrow> nat \<Rightarrow> 32 word list \<Rightarrow> bool" where
  "packed_wf num_rows packed packed_length offsets =
     (length packed = packed_length \<and> packed_length < 2 ^ 32
      \<and> length offsets = num_rows + 1 \<and> offsets ! 0 = 0
      \<and> offsets ! num_rows = word_of_nat packed_length \<and> sorted offsets)"

definition individual_table_wf :: "tsk_individual_table_t \<Rightarrow> bool" where
  "individual_table_wf t =
     (length (individuals_flags t) = individuals_num_rows t
      \<and> packed_wf (individuals_num_rows t) (individuals_location t)
          (individuals_location_length t) (individuals_location_offset t)
      \<and> packed_wf (individuals_num_rows t) (individuals_metadata t)
          (individuals_metadata_length t) (individuals_metadata_offset t))"

definition node_table_wf :: "tsk_node_table_t \<Rightarrow> bool" where
  "node_table_wf t =
     (length (nodes_time t) = nodes_num_rows t \<and> length (nodes_flags t) = nodes_num_rows t
      \<and> length (nodes_population t) = nodes_num_rows t
      \<and> length (nodes_individual t) = nodes_num_rows t
      \<and> packed_wf (nodes_num_rows t) (nodes_metadata t) (nodes_metadata_length t)
          (nodes_metadata_offset t))"

definition edge_table_wf :: "tsk_edge_table_t \<Rightarrow> bool" where
  "edge_table_wf t =
     (length (edges_left t) = edges_num_rows t \<and> length (edges_right t) = edges_num_rows t
      \<and> length (edges_parent t) = edges_num_rows t \<and> length (edges_child t) = edges_num_rows t)"

definition migration_table_wf :: "tsk_migration_table_t \<Rightarrow> bool" where
  "migration_table_wf t =
     (length (migrations_left t) = migrations_num_rows t
      \<and> length (migrations_right t) = migrations_num_rows t
      \<and> length (migrations_node t) = migrations_num_rows t
      \<and> length (migrations_source t) = migrations_num_rows t
      \<and> length (migrations_dest t) = migrations_num_rows t
      \<and> length (migrations_time t) = migrations_num_rows t)"

definition site_table_wf :: "tsk_site_table_t \<Rightarrow> bool" where
  "site_table_wf t =
     (length (sites_position t) = sites_num_rows t
      \<and> packed_wf (sites_num_rows t) (sites_ancestral_state t)
          (sites_ancestral_state_length t) (sites_ancestral_state_offset t)
      \<and> packed_wf (sites_num_rows t) (sites_metadata t) (sites_metadata_length t)
          (sites_metadata_offset t))"

definition mutation_table_wf :: "tsk_mutation_table_t \<Rightarrow> bool" where
  "mutation_table_wf t =
     (length (mutations_site t) = mutations_num_rows t
      \<and> length (mutations_node t) = mutations_num_rows t
      \<and> length (mutations_parent t) = mutations_num_rows t
      \<and> packed_wf (mutations_num_rows t) (mutations_derived_state t)
          (mutations_derived_state_length t) (mutations_derived_state_offset t)
      \<and> packed_wf (mutations_num_rows t) (mutations_metadata t) (mutations_metadata_length t)
          (mutations_metadata_offset t))"

definition population_table_wf :: "tsk_population_table_t \<Rightarrow> bool" where
  "population_table_wf t =
     packed_wf (populations_num_rows t) (populations_metadata t)
       (populations_metadata_length t) (populations_metadata_offset t)"

definition provenance_table_wf :: "tsk_provenance_table_t \<Rightarrow> bool" where
  "provenance_table_wf t =
     (packed_wf (provenances_num_rows t) (provenances_timestamp t)
        (provenances_timestamp_length t) (provenances_timestamp_offset t)
      \<and> packed_wf (provenances_num_rows t) (provenances_record t)
          (provenances_record_length t) (provenances_record_offset t))"

definition table_collection_wf :: "tsk_table_collection_t \<Rightarrow> bool" where
  "table_collection_wf tabs =
     (individual_table_wf (individuals tabs) \<and> node_table_wf (nodes tabs)
      \<and> edge_table_wf (edges tabs) \<and> migration_table_wf (migrations tabs)
      \<and> site_table_wf (sites tabs) \<and> mutation_table_wf (mutations tabs)
      \<and> population_table_wf (populations tabs) \<and> provenance_table_wf (provenances tabs))"

subsection \<open>The simulation kernel\<close>

text \<open>
  The kernel (\<^verbatim>\<open>msprime.h\<close>, \<^verbatim>\<open>msprime.c\<close>) is not part of the module's file. Of its state
  \<^verbatim>\<open>msp_t\<close> the module reads the member \<^verbatim>\<open>model\<close>: its type, its reference size and the
  parameters of the Dirac, Beta and sweep models. Everything else is the opaque
  \<open>kernel_state\<close>.
\<close>

datatype model_type_t =
    MSP_MODEL_HUDSON
  | MSP_MODEL_SMC
  | MSP_MODEL_SMC_PRIME
  | MSP_MODEL_BETA
  | MSP_MODEL_DIRAC
  | MSP_MODEL_DTWF
  | MSP_MODEL_SWEEP
  | MSP_MODEL_WF_PED

record simulation_model_t =
  model_type :: model_type_t
  reference_size :: double
  dirac_coalescent_psi :: double
  dirac_coalescent_c :: double
  beta_coalescent_alpha :: double
  beta_coalescent_truncation_point :: double
  sweep_locus :: double

record 'k msp_t =
  model :: simulation_model_t
  kernel_state :: 'k

datatype recomb_map_t = Recomb_map nat

text \<open>
  The functions of the kernel that the embedded wrappers call are parameters: a kernel
  is a record of them. A function takes the state, where the C function takes the
  pointer to it, and returns the C function's return value with the state it leaves.
  \<open>population_id_cast\<close> is the conversion to \<^verbatim>\<open>population_id_t\<close>.
\<close>

record ('p, 'k) kernel =
  population_id_cast :: "int \<Rightarrow> 'p"
  msp_alloc :: "nat \<Rightarrow> 'p sample_t list \<Rightarrow> recomb_map_t \<Rightarrow> tsk_table_collection_t option \<Rightarrow>
    gsl_rng \<Rightarrow> int \<times> 'k msp_t"
  msp_set_simulation_model_hudson :: "'k msp_t \<Rightarrow> double \<Rightarrow> int \<times> 'k msp_t"
  msp_set_simulation_model_dtwf :: "'k msp_t \<Rightarrow> double \<Rightarrow> int \<times> 'k msp_t"
  msp_set_simulation_model_wf_ped :: "'k msp_t \<Rightarrow> double \<Rightarrow> int \<times> 'k msp_t"
  msp_set_simulation_model_smc :: "'k msp_t \<Rightarrow> double \<Rightarrow> int \<times> 'k msp_t"
  msp_set_simulation_model_smc_prime :: "'k msp_t \<Rightarrow> double \<Rightarrow> int \<times> 'k msp_t"
  msp_set_simulation_model_dirac :: "'k msp_t \<Rightarrow> double \<Rightarrow> double \<Rightarrow> double \<Rightarrow> int \<times> 'k msp_t"
  msp_set_simulation_model_beta :: "'k msp_t \<Rightarrow> double \<Rightarrow> double \<Rightarrow> double \<Rightarrow> int \<times> 'k msp_t"
  msp_set_simulation_model_sweep_genic_selection ::
    "'k msp_t \<Rightarrow> double \<Rightarrow> double \<Rightarrow> double \<Rightarrow> double \<Rightarrow> double \<Rightarrow> double \<Rightarrow> int \<times> 'k msp_t"
  msp_get_model_name :: "'k msp_t \<Rightarrow> string"
  msp_set_start_time :: "'k msp_t \<Rightarrow> double \<Rightarrow> int \<times> 'k msp_t"
  msp_set_store_migrations :: "'k msp_t \<Rightarrow> bool \<Rightarrow> int \<times> 'k msp_t"
  msp_set_avl_node_block_size :: "'k msp_t \<Rightarrow> 64 word \<Rightarrow> int \<times> 'k msp_t"
  msp_set_segment_block_size :: "'k msp_t \<Rightarrow> 64 word \<Rightarrow> int \<times> 'k msp_t"
  msp_set_node_mapping_block_size :: "'k msp_t \<Rightarrow> 64 word \<Rightarrow> int \<times> 'k msp_t"
  msp_set_gene_conversion_rate :: "'k msp_t \<Rightarrow> double \<Rightarrow> double \<Rightarrow> int \<times> 'k msp_t"
  msp_set_dimensions :: "'k msp_t \<Rightarrow> 64 word \<Rightarrow> 64 word \<Rightarrow> int \<times> 'k msp_t"
  msp_alloc_pedigree :: "'k msp_t \<Rightarrow> nat \<Rightarrow> int \<Rightarrow> int \<times> 'k msp_t"
  msp_set_pedigree :: "'k msp_t \<Rightarrow> nat \<Rightarrow> 32 word list \<Rightarrow> 32 word list \<Rightarrow> double list \<Rightarrow>
    32 word list \<Rightarrow> int \<times> 'k msp_t"
  msp_set_population_configuration :: "'k msp_t \<Rightarrow> nat \<Rightarrow> double \<Rightarrow> double \<Rightarrow> int \<times> 'k msp_t"
  msp_get_num_populations :: "'k msp_t \<Rightarrow> nat"
  msp_set_migration_matrix :: "'k msp_t \<Rightarrow> nat \<Rightarrow> double list \<Rightarrow> int \<times> 'k msp_t"
  msp_set_store_full_arg :: "'k msp_t \<Rightarrow> int \<Rightarrow> 'k msp_t"
  msp_initialise :: "'k msp_t \<Rightarrow> int \<times> 'k msp_t"
  msp_run :: "'k msp_t \<Rightarrow> double \<Rightarrow> 64 word \<Rightarrow> int \<times> 'k msp_t"

text \<open>
  \<^verbatim>\<open>msp_get_model\<close> returns the pointer to the member \<^verbatim>\<open>model\<close>, which the module also reads
  directly (\<^verbatim>\<open>self->sim->model.type\<close>).
\<close>

definition msp_get_model :: "'k msp_t \<Rightarrow> simulation_model_t" where
  "msp_get_model s = model s"

text \<open>
  The exit status on which \<^verbatim>\<open>Simulator_run\<close> continues. The value is that of \<^verbatim>\<open>msprime.h\<close>;
  the theorems hold for any value.
\<close>

definition MSP_EXIT_MAX_EVENTS :: int where
  "MSP_EXIT_MAX_EVENTS = 1"

definition DBL_MAX :: double where
  "DBL_MAX = Finite (2 ^ 1024 - 2 ^ 971)"

subsection \<open>Simulator\<close>

record RecombinationMap =
  recomb_map :: "recomb_map_t option"

definition RecombinationMap_check_recomb_map :: "RecombinationMap \<Rightarrow> pyerr option" where
  "RecombinationMap_check_recomb_map self =
     (if recomb_map self = None then Some (ValueError ''recomb_map not initialised'') else None)"

text \<open>
  \<^verbatim>\<open>typedef struct { PyObject_HEAD msp_t *sim; RecombinationMap *recombination_map;
  RandomGenerator *random_generator; LightweightTableCollection *tables; } Simulator;\<close>
  A function of the module that returns \<^verbatim>\<open>int\<close> is modelled by the exception it sets, if
  any, with the simulator as it leaves it.
\<close>

record 'k Simulator =
  sim :: "'k msp_t option"
  sim_recombination_map :: "RecombinationMap option"
  sim_random_generator :: "RandomGenerator option"
  sim_tables :: "LightweightTableCollection option"

definition Simulator_check_sim :: "'k Simulator \<Rightarrow> pyerr option" where
  "Simulator_check_sim self =
     (if sim self = None then Some (SystemError ''simulator not initialised'') else None)"

text \<open>
  The recurring call of a kernel function on \<^verbatim>\<open>self->sim\<close> whose error code is raised by
  \<^verbatim>\<open>handle_input_error(section, err)\<close>.
\<close>

definition kernel_call ::
  "string \<Rightarrow> ('k msp_t \<Rightarrow> int \<times> 'k msp_t) \<Rightarrow> 'k Simulator \<Rightarrow> pyerr option \<times> 'k Simulator" where
  "kernel_call section_name f self =
     (case sim self of
        None \<Rightarrow> (Some MemoryFault, self)
      | Some s \<Rightarrow>
          (case f s of
             (err, s') \<Rightarrow>
               (if err \<noteq> 0 then Some (InputError section_name err) else None,
                self\<lparr>sim := Some s'\<rparr>)))"

text \<open>\<^verbatim>\<open>get_dict_value\<close> and \<^verbatim>\<open>get_dict_number\<close>.\<close>

definition get_dict_value :: "(string \<Rightarrow> pyobj option) \<Rightarrow> string \<Rightarrow> pyerr + pyobj" where
  "get_dict_value dict key_str =
     (case dict key_str of
        None \<Rightarrow> Inl (ValueError ''%s not specified'')
      | Some ret \<Rightarrow> Inr ret)"

definition get_dict_number :: "(string \<Rightarrow> pyobj option) \<Rightarrow> string \<Rightarrow> pyerr + pyobj" where
  "get_dict_number dict key_str =
     bind_err (get_dict_value dict key_str) (\<lambda>v.
       if \<not> PyNumber_Check v then Inl (TypeError ''%s is not number'') else Inr v)"

subsubsection \<open>The migration matrix\<close>

fun migration_matrix_loop :: "pyobj list \<Rightarrow> pyerr + double list" where
  "migration_matrix_loop [] = Inr []"
| "migration_matrix_loop (v # rest) =
     (if \<not> PyNumber_Check v then Inl (TypeError ''Migration rate not a number'')
      else
        let x = PyFloat_AsDouble v in
        if d_lt x (Finite 0) then Inl (ValueError ''Negative values not permitted'')
        else bind_err (migration_matrix_loop rest) (\<lambda>xs. Inr (x # xs)))"

text \<open>
  \<^verbatim>\<open>size_t\<close> has 64 bits, so the product of the numbers of populations is taken modulo
  \<open>2 ^ 64\<close>. A failure of \<^verbatim>\<open>PyMem_Malloc\<close> is not modelled.
\<close>

definition Simulator_parse_migration_matrix ::
  "('p, 'k) kernel \<Rightarrow> 'k Simulator \<Rightarrow> pyobj list \<Rightarrow> pyerr option \<times> 'k Simulator" where
  "Simulator_parse_migration_matrix K self py_migration_matrix =
     (let size = length py_migration_matrix in
      case Simulator_check_sim self of
        Some e \<Rightarrow> (Some e, self)
      | None \<Rightarrow>
          (case sim self of
             None \<Rightarrow> (Some MemoryFault, self)
           | Some s \<Rightarrow>
               let num_populations = msp_get_num_populations K s in
               if (num_populations * num_populations) mod 2 ^ 64 \<noteq> size
               then (Some (ValueError ''Migration matrix must be a flattened num_populations*num_populations square array''), self)
               else
                 (case migration_matrix_loop py_migration_matrix of
                    Inl e \<Rightarrow> (Some e, self)
                  | Inr migration_matrix \<Rightarrow>
                      kernel_call ''migration matrix''
                        (\<lambda>s. msp_set_migration_matrix K s size migration_matrix) self)))"

subsubsection \<open>Running the simulation\<close>

text \<open>
  The loop of \<^verbatim>\<open>Simulator_run\<close>. It ends when the kernel returns an error or a status other
  than \<^verbatim>\<open>MSP_EXIT_MAX_EVENTS\<close>, or when \<^verbatim>\<open>PyErr_CheckSignals\<close> reports that a signal handler
  has raised; otherwise it does not end, and the result is \<open>None\<close>. \<open>check_signals n\<close> is
  what the call of \<^verbatim>\<open>PyErr_CheckSignals\<close> after the \<open>n\<close>-th chunk returns (counting from 0).
\<close>

partial_function (option) Simulator_run_loop ::
  "('p, 'k) kernel \<Rightarrow> (nat \<Rightarrow> int) \<Rightarrow> double \<Rightarrow> nat \<Rightarrow> 'k msp_t \<Rightarrow> ((pyerr + pyobj) \<times> 'k msp_t) option" where
  "Simulator_run_loop K check_signals end_time n s =
     (case msp_run K s end_time 1024 of
        (status, s') \<Rightarrow>
          if status < 0 then Some (Inl (LibraryError status), s')
          else if check_signals n < 0 then Some (Inl Interrupt, s')
          else if status = MSP_EXIT_MAX_EVENTS
          then Simulator_run_loop K check_signals end_time (Suc n) s'
          else Some (Inr (PyBool (status = 0)), s'))"

text \<open>
  \<open>end_time\<close> is the optional argument as \<^verbatim>\<open>PyArg_ParseTuple\<close> delivers it (format
  \<^verbatim>\<open>"|d"\<close>), \<open>None\<close> when it is omitted.
\<close>

definition Simulator_run ::
  "('p, 'k) kernel \<Rightarrow> (nat \<Rightarrow> int) \<Rightarrow> 'k Simulator \<Rightarrow> double option \<Rightarrow>
   ((pyerr + pyobj) \<times> 'k Simulator) option" where
  "Simulator_run K check_signals self end_time_arg =
     (case Simulator_check_sim self of
        Some e \<Rightarrow> Some (Inl e, self)
      | None \<Rightarrow>
          (case sim self of
             None \<Rightarrow> Some (Inl MemoryFault, self)
           | Some s \<Rightarrow>
               let end_time = (case end_time_arg of None \<Rightarrow> DBL_MAX | Some t \<Rightarrow> t) in
               if d_lt end_time (Finite 0)
               then Some (Inl (ValueError ''end_time must be > 0''), self)
               else
                 (case Simulator_run_loop K check_signals end_time 0 s of
                    None \<Rightarrow> None
                  | Some (ret, s') \<Rightarrow> Some (ret, self\<lparr>sim := Some s'\<rparr>))))"

text \<open>
  The kernel's state before its \<open>n\<close>-th call by the loop (counting from 0), and the status
  that call returns: the vocabulary of the theorem on \<open>Simulator_run\<close>.
\<close>

primrec run_state :: "('p, 'k) kernel \<Rightarrow> double \<Rightarrow> 'k msp_t \<Rightarrow> nat \<Rightarrow> 'k msp_t" where
  "run_state K end_time s 0 = s"
| "run_state K end_time s (Suc n) = snd (msp_run K (run_state K end_time s n) end_time 1024)"

definition run_status :: "('p, 'k) kernel \<Rightarrow> double \<Rightarrow> 'k msp_t \<Rightarrow> nat \<Rightarrow> int" where
  "run_status K end_time s n = fst (msp_run K (run_state K end_time s n) end_time 1024)"

subsubsection \<open>The simulation model\<close>

text \<open>
  \<^verbatim>\<open>Simulator_parse_sweep_genic_selection_model\<close>: the five parameters are read and handed
  to the kernel, whose error code is raised under its own section name.
\<close>

definition Simulator_parse_sweep_genic_selection_model ::
  "('p, 'k) kernel \<Rightarrow> 'k Simulator \<Rightarrow> (string \<Rightarrow> pyobj option) \<Rightarrow> double \<Rightarrow>
   pyerr option \<times> 'k Simulator" where
  "Simulator_parse_sweep_genic_selection_model K self py_model reference_size_arg =
     (case
        bind_err (get_dict_number py_model ''position'') (\<lambda>v1.
        bind_err (get_dict_number py_model ''start_frequency'') (\<lambda>v2.
        bind_err (get_dict_number py_model ''end_frequency'') (\<lambda>v3.
        bind_err (get_dict_number py_model ''alpha'') (\<lambda>v4.
        bind_err (get_dict_number py_model ''dt'') (\<lambda>v5.
        Inr (PyFloat_AsDouble v1, PyFloat_AsDouble v2, PyFloat_AsDouble v3,
             PyFloat_AsDouble v4, PyFloat_AsDouble v5))))))
      of
        Inl e \<Rightarrow> (Some e, self)
      | Inr (position, start_frequency, end_frequency, alpha, dt) \<Rightarrow>
          kernel_call ''sweep genic selection''
            (\<lambda>s. msp_set_simulation_model_sweep_genic_selection K s reference_size_arg position
                    start_frequency end_frequency alpha dt)
            self)"

text \<open>
  In \<^verbatim>\<open>Simulator_parse_simulation_model\<close> the name is compared with each model name in
  turn (\<^verbatim>\<open>PyObject_RichCompareBool\<close>, modelled as equality with the string), and the
  matching setter of the kernel is called; its error code is kept in \<^verbatim>\<open>err\<close> and raised at
  the end. \<open>model_step\<close> is one such \<^verbatim>\<open>if (is_model) { err = ...; }\<close> for a model without
  parameters of its own: it works on the pair of \<^verbatim>\<open>err\<close> and the kernel's state.
\<close>

definition model_step ::
  "bool \<Rightarrow> ('k msp_t \<Rightarrow> int \<times> 'k msp_t) \<Rightarrow> int \<times> 'k msp_t \<Rightarrow> int \<times> 'k msp_t" where
  "model_step is_model set_model st = (if is_model then set_model (snd st) else st)"

definition dirac_step ::
  "('p, 'k) kernel \<Rightarrow> (string \<Rightarrow> pyobj option) \<Rightarrow> double \<Rightarrow> bool \<Rightarrow> int \<times> 'k msp_t \<Rightarrow>
   pyerr + (int \<times> 'k msp_t)" where
  "dirac_step K py_model reference_size_arg is_dirac st =
     (if is_dirac
      then
        bind_err (get_dict_number py_model ''psi'') (\<lambda>v1.
        bind_err (get_dict_number py_model ''c'') (\<lambda>v2.
          let psi = PyFloat_AsDouble v1; c = PyFloat_AsDouble v2 in
          if d_le psi (Finite 0) \<or> d_ge psi (Finite 1)
          then Inl (ValueError ''Must have 0 < psi < 1'')
          else if d_lt c (Finite 0)
          then Inl (ValueError ''c >= 0'')
          else Inr (msp_set_simulation_model_dirac K (snd st) reference_size_arg psi c)))
      else Inr st)"

text \<open>The source has no check of the two parameters here; its comment says so.\<close>

definition beta_step ::
  "('p, 'k) kernel \<Rightarrow> (string \<Rightarrow> pyobj option) \<Rightarrow> double \<Rightarrow> bool \<Rightarrow> int \<times> 'k msp_t \<Rightarrow>
   pyerr + (int \<times> 'k msp_t)" where
  "beta_step K py_model reference_size_arg is_beta st =
     (if is_beta
      then
        bind_err (get_dict_number py_model ''alpha'') (\<lambda>v1.
        bind_err (get_dict_number py_model ''truncation_point'') (\<lambda>v2.
          let alpha = PyFloat_AsDouble v1; truncation_point = PyFloat_AsDouble v2 in
          Inr (msp_set_simulation_model_beta K (snd st) reference_size_arg alpha
                 truncation_point)))
      else Inr st)"

definition Simulator_parse_simulation_model ::
  "('p, 'k) kernel \<Rightarrow> 'k Simulator \<Rightarrow> (string \<Rightarrow> pyobj option) \<Rightarrow> pyerr option \<times> 'k Simulator" where
  "Simulator_parse_simulation_model K self py_model =
     (case Simulator_check_sim self of
        Some e \<Rightarrow> (Some e, self)
      | None \<Rightarrow>
     (case sim self of
        None \<Rightarrow> (Some MemoryFault, self)
      | Some s \<Rightarrow>
     (case get_dict_number py_model ''reference_size'' of
        Inl e \<Rightarrow> (Some e, self)
      | Inr v \<Rightarrow>
     (let ref = PyFloat_AsDouble v in
      if d_le ref (Finite 0) then (Some (ValueError ''population size must be >= 0''), self)
      else
     (case get_dict_value py_model ''name'' of
        Inl e \<Rightarrow> (Some e, self)
      | Inr py_name \<Rightarrow>
     (let is_hudson = (py_name = PyStr ''hudson'');
          st = model_step is_hudson (\<lambda>s. msp_set_simulation_model_hudson K s ref) (0, s);
          is_dtwf = (py_name = PyStr ''dtwf'');
          st = model_step is_dtwf (\<lambda>s. msp_set_simulation_model_dtwf K s ref) st;
          is_wf_ped = (py_name = PyStr ''wf_ped'');
          st = model_step is_wf_ped (\<lambda>s. msp_set_simulation_model_wf_ped K s ref) st;
          is_smc = (py_name = PyStr ''smc'');
          st = model_step is_smc (\<lambda>s. msp_set_simulation_model_smc K s ref) st;
          is_smc_prime = (py_name = PyStr ''smc_prime'');
          st = model_step is_smc_prime (\<lambda>s. msp_set_simulation_model_smc_prime K s ref) st;
          is_dirac = (py_name = PyStr ''dirac'')
      in
     (case dirac_step K py_model ref is_dirac st of
        Inl e \<Rightarrow> (Some e, self\<lparr>sim := Some (snd st)\<rparr>)
      | Inr st \<Rightarrow>
     (let is_beta = (py_name = PyStr ''beta'') in
     (case beta_step K py_model ref is_beta st of
        Inl e \<Rightarrow> (Some e, self\<lparr>sim := Some (snd st)\<rparr>)
      | Inr st \<Rightarrow>
     (let is_sweep_genic_selection = (py_name = PyStr ''sweep_genic_selection'')
      in
     (case (if is_sweep_genic_selection
            then Simulator_parse_sweep_genic_selection_model K (self\<lparr>sim := Some (snd st)\<rparr>)
                   py_model ref
            else (None, self\<lparr>sim := Some (snd st)\<rparr>)) of
        (Some e, self') \<Rightarrow> (Some e, self')
      | (None, self') \<Rightarrow>
          if \<not> (is_hudson \<or> is_dtwf \<or> is_smc \<or> is_smc_prime \<or> is_dirac \<or> is_beta
                \<or> is_sweep_genic_selection \<or> is_wf_ped)
          then (Some (ValueError ''Unknown simulation model''), self')
          else if fst st \<noteq> 0
          then (Some (InputError ''simulation model'' (fst st)), self')
          else (None, self'))))))))))))"

text \<open>
  \<^verbatim>\<open>Simulator_get_model\<close> builds the dictionary of the model: its name, its reference size
  and the parameters of its type.
\<close>

definition Simulator_get_model :: "('p, 'k) kernel \<Rightarrow> 'k Simulator \<Rightarrow> pyerr + pyobj" where
  "Simulator_get_model K self =
     (case Simulator_check_sim self of
        Some e \<Rightarrow> Inl e
      | None \<Rightarrow>
          (case sim self of
             None \<Rightarrow> Inl MemoryFault
           | Some s \<Rightarrow>
               let m = msp_get_model s;
                   d = [''name'' \<mapsto> PyStr (msp_get_model_name K s),
                        ''reference_size'' \<mapsto> PyFloat (reference_size (msp_get_model s))]
               in
               if model_type m = MSP_MODEL_DIRAC
               then Inr (PyDict (d(''psi'' \<mapsto> PyFloat (dirac_coalescent_psi m),
                                   ''c'' \<mapsto> PyFloat (dirac_coalescent_c m))))
               else if model_type m = MSP_MODEL_BETA
               then Inr (PyDict (d(''alpha'' \<mapsto> PyFloat (beta_coalescent_alpha m),
                                   ''truncation_point'' \<mapsto>
                                      PyFloat (beta_coalescent_truncation_point m))))
               else if model_type m = MSP_MODEL_SWEEP
               then Inr (PyDict (d(''locus'' \<mapsto> PyFloat (sweep_locus m))))
               else Inr (PyDict d)))"

subsubsection \<open>The pedigree and the population configuration\<close>

definition Simulator_parse_pedigree ::
  "('p, 'k) kernel \<Rightarrow> 'k Simulator \<Rightarrow> (string \<Rightarrow> pyobj option) \<Rightarrow> pyerr option \<times> 'k Simulator" where
  "Simulator_parse_pedigree K self pedigree_dict =
     (case
        bind_err (get_table_dict_value pedigree_dict ''individual'' True) (\<lambda>inds_input.
        bind_err (get_table_dict_value pedigree_dict ''parents'' True) (\<lambda>parents_input.
        bind_err (get_table_dict_value pedigree_dict ''time'' True) (\<lambda>times_input.
        bind_err (get_table_dict_value pedigree_dict ''is_sample'' True) (\<lambda>is_sample_input.
        bind_err (PyArray_FROMANY parents_input NPY_INT32 2 2) (\<lambda>parents_array.
          let num_inds = shape parents_array ! 0;
              ploidy = int (shape parents_array ! 1) in
        bind_err (table_read_column_array inds_input NPY_INT32 num_inds True)
          (\<lambda>(inds_array, num_inds).
        bind_err (table_read_column_array times_input NPY_FLOAT64 num_inds True)
          (\<lambda>(times_array, num_inds).
        bind_err (table_read_column_array is_sample_input NPY_UINT32 num_inds True)
          (\<lambda>(is_sample_array, num_inds).
        Inr (num_inds, ploidy, i32_data (elems inds_array), i32_data (elems parents_array),
             f64_data (elems times_array), u32_data (elems is_sample_array))))))))))
      of
        Inl e \<Rightarrow> (Some e, self)
      | Inr (num_inds, ploidy, inds, parents, time_data, is_sample) \<Rightarrow>
          and_then (kernel_call ''pedigree'' (\<lambda>s. msp_alloc_pedigree K s num_inds ploidy) self)
            (kernel_call ''pedigree''
               (\<lambda>s. msp_set_pedigree K s num_inds inds parents time_data is_sample)))"

fun population_configuration_loop ::
  "('p, 'k) kernel \<Rightarrow> nat \<Rightarrow> pyobj list \<Rightarrow> 'k Simulator \<Rightarrow> pyerr option \<times> 'k Simulator" where
  "population_configuration_loop K j [] self = (None, self)"
| "population_configuration_loop K j (item # rest) self =
     (case item of
        PyDict d \<Rightarrow>
          (case
             bind_err (get_dict_number d ''initial_size'') (\<lambda>v1.
             bind_err (get_dict_number d ''growth_rate'') (\<lambda>v2.
             Inr (PyFloat_AsDouble v1, PyFloat_AsDouble v2)))
           of
             Inl e \<Rightarrow> (Some e, self)
           | Inr (initial_size, growth_rate) \<Rightarrow>
               and_then
                 (kernel_call ''population configuration''
                    (\<lambda>s. msp_set_population_configuration K s j initial_size growth_rate) self)
                 (population_configuration_loop K (Suc j) rest))
      | _ \<Rightarrow> (Some (TypeError ''not a dictionary''), self))"

definition Simulator_parse_population_configuration ::
  "('p, 'k) kernel \<Rightarrow> 'k Simulator \<Rightarrow> pyobj list \<Rightarrow> pyerr option \<times> 'k Simulator" where
  "Simulator_parse_population_configuration K self py_pop_config =
     (case Simulator_check_sim self of
        Some e \<Rightarrow> (Some e, self)
      | None \<Rightarrow> population_configuration_loop K 0 py_pop_config self)"

subsubsection \<open>The constructor\<close>

text \<open>
  The arguments of \<^verbatim>\<open>Simulator_init\<close> as \<^verbatim>\<open>PyArg_ParseTupleAndKeywords\<close> delivers them: the
  four required objects, which it has checked to be of their types, and the optional
  ones, \<open>None\<close> for an optional object that was not given, and the defaults of the source
  for the numbers.
\<close>

record init_args =
  arg_samples :: "pyobj list"
  arg_recombination_map :: RecombinationMap
  arg_random_generator :: RandomGenerator
  arg_tables :: LightweightTableCollection
  arg_population_configuration :: "pyobj list option"
  arg_pedigree :: pyobj
  arg_migration_matrix :: "pyobj list option"
  arg_demographic_events :: "pyobj list option"
  arg_model :: "(string \<Rightarrow> pyobj option) option"
  arg_avl_node_block_size :: int
  arg_segment_block_size :: int
  arg_node_mapping_block_size :: int
  arg_store_migrations :: int
  arg_start_time :: double
  arg_store_full_arg :: int
  arg_num_labels :: int
  arg_gene_conversion_rate :: double
  arg_gene_conversion_track_length :: double

text \<open>
  \<^verbatim>\<open>Simulator_init\<close> is embedded in three parts, in the order of the source: everything up
  to \<^verbatim>\<open>msp_set_dimensions\<close>; the block \<^verbatim>\<open>if (pedigree != Py_None) { ... }\<close>; and the rest.
  A failure of \<^verbatim>\<open>PyMem_Malloc\<close> is not modelled.
\<close>

definition Simulator_init_config ::
  "('p, 'k) kernel \<Rightarrow> 'k Simulator \<Rightarrow> init_args \<Rightarrow> pyerr option \<times> 'k Simulator" where
  "Simulator_init_config K self0 a =
     (let self = self0\<lparr>sim := None,
                       sim_random_generator := Some (arg_random_generator a),
                       sim_recombination_map := Some (arg_recombination_map a),
                       sim_tables := Some (arg_tables a)\<rparr>
      in
      case RandomGenerator_check_state (arg_random_generator a) of
        Some e \<Rightarrow> (Some e, self)
      | None \<Rightarrow>
     (case RecombinationMap_check_recomb_map (arg_recombination_map a) of
        Some e \<Rightarrow> (Some e, self)
      | None \<Rightarrow>
     (let num_populations =
            (case arg_population_configuration a of None \<Rightarrow> 1 | Some l \<Rightarrow> length l)
      in
      if arg_population_configuration a \<noteq> None \<and> num_populations = 0
      then (Some (ValueError ''Empty population configuration''), self)
      else
     (case parse_samples (population_id_cast K) (arg_samples a) (word_of_nat num_populations) of
        Inl e \<Rightarrow> (Some e, self)
      | Inr (num_samples, samples) \<Rightarrow>
     (case (recomb_map (arg_recombination_map a), rng (arg_random_generator a)) of
        (Some rm, Some r) \<Rightarrow>
          (case msp_alloc K num_samples samples rm (tables (arg_tables a)) r of
             (sim_ret, s) \<Rightarrow>
               if sim_ret \<noteq> 0
               then (Some (InputError ''simulator alloc'' sim_ret), self\<lparr>sim := Some s\<rparr>)
               else
                 and_then
                   (case arg_model a of
                      None \<Rightarrow> (None, self\<lparr>sim := Some s\<rparr>)
                    | Some py_model \<Rightarrow>
                        Simulator_parse_simulation_model K (self\<lparr>sim := Some s\<rparr>) py_model)
                   (\<lambda>self.
                 and_then
                   (if d_ge (arg_start_time a) (Finite 0)
                    then kernel_call ''start time''
                           (\<lambda>s. msp_set_start_time K s (arg_start_time a)) self
                    else (None, self))
                   (\<lambda>self.
                 and_then
                   (kernel_call ''store migrations''
                      (\<lambda>s. msp_set_store_migrations K s (arg_store_migrations a \<noteq> 0)) self)
                   (\<lambda>self.
                 and_then
                   (kernel_call ''avl_node_block_size''
                      (\<lambda>s. msp_set_avl_node_block_size K s
                              (word_of_int (arg_avl_node_block_size a))) self)
                   (\<lambda>self.
                 and_then
                   (kernel_call ''segment_block_size''
                      (\<lambda>s. msp_set_segment_block_size K s
                              (word_of_int (arg_segment_block_size a))) self)
                   (\<lambda>self.
                 and_then
                   (kernel_call ''node_mapping_block_size''
                      (\<lambda>s. msp_set_node_mapping_block_size K s
                              (word_of_int (arg_node_mapping_block_size a))) self)
                   (\<lambda>self.
                 and_then
                   (kernel_call ''set_gene_conversion_rate''
                      (\<lambda>s. msp_set_gene_conversion_rate K s (arg_gene_conversion_rate a)
                              (arg_gene_conversion_track_length a)) self)
                   (\<lambda>self.
                   kernel_call ''set_dimensions''
                     (\<lambda>s. msp_set_dimensions K s (word_of_nat num_populations)
                             (word_of_int (arg_num_labels a))) self))))))))
      | _ \<Rightarrow> (Some MemoryFault, self))))))"

definition Simulator_init_pedigree ::
  "('p, 'k) kernel \<Rightarrow> pyobj \<Rightarrow> 'k Simulator \<Rightarrow> pyerr option \<times> 'k Simulator" where
  "Simulator_init_pedigree K pedigree self =
     (if pedigree \<noteq> PyNone
      then
        (case pedigree of
           PyDict pedigree_dict \<Rightarrow>
             (case sim self of
                None \<Rightarrow> (Some MemoryFault, self)
              | Some s \<Rightarrow>
                  if model_type (model s) \<noteq> MSP_MODEL_WF_PED
                  then (Some (ValueError ''A pedigree can only be supplied under the msprime.WrightFisherPedigree simulation model''), self)
                  else Simulator_parse_pedigree K self pedigree_dict)
         | _ \<Rightarrow> (Some (TypeError ''Pedigree must be a dictionary''), self))
      else (None, self))"

text \<open>
  \<open>parse_events\<close> stands for \<^verbatim>\<open>Simulator_parse_demographic_events\<close>, which no theorem here
  is about: it is a parameter, so that nothing is assumed of it.
\<close>

definition Simulator_init_rest ::
  "('p, 'k) kernel \<Rightarrow> ('k Simulator \<Rightarrow> pyobj list \<Rightarrow> pyerr option \<times> 'k Simulator) \<Rightarrow> init_args \<Rightarrow>
   'k Simulator \<Rightarrow> pyerr option \<times> 'k Simulator" where
  "Simulator_init_rest K parse_events a self =
     and_then
       (case arg_population_configuration a of
          Some population_configuration \<Rightarrow>
            and_then (Simulator_parse_population_configuration K self population_configuration)
              (\<lambda>self.
                 case arg_migration_matrix a of
                   None \<Rightarrow>
                     (Some (ValueError ''A migration matrix must be provided when a non-default population configuration is used.''), self)
                 | Some migration_matrix \<Rightarrow>
                     Simulator_parse_migration_matrix K self migration_matrix)
        | None \<Rightarrow>
            if arg_migration_matrix a \<noteq> None
            then (Some (ValueError ''Cannot supply migration_matrix without population_configuration.''), self)
            else (None, self))
       (\<lambda>self.
     and_then
       (case arg_demographic_events a of
          None \<Rightarrow> (None, self)
        | Some demographic_events \<Rightarrow> parse_events self demographic_events)
       (\<lambda>self.
          case sim self of
            None \<Rightarrow> (Some MemoryFault, self)
          | Some s \<Rightarrow>
              kernel_call ''initialise'' (msp_initialise K)
                (self\<lparr>sim := Some (msp_set_store_full_arg K s (arg_store_full_arg a))\<rparr>)))"

definition Simulator_init ::
  "('p, 'k) kernel \<Rightarrow> ('k Simulator \<Rightarrow> pyobj list \<Rightarrow> pyerr option \<times> 'k Simulator) \<Rightarrow>
   'k Simulator \<Rightarrow> init_args \<Rightarrow> pyerr option \<times> 'k Simulator" where
  "Simulator_init K parse_events self a =
     and_then
       (and_then (Simulator_init_config K self a) (Simulator_init_pedigree K (arg_pedigree a)))
       (Simulator_init_rest K parse_events a)"

subsection \<open>The likelihood of an ARG\<close>

text \<open>
  \<^verbatim>\<open>msprime_log_likelihood_arg\<close> calls three functions that are not part of the module's
  file; the two that return something are parameters. The result comes with the calls
  that were made, in their order. The arguments are those that
  \<^verbatim>\<open>PyArg_ParseTupleAndKeywords\<close> delivers.
\<close>

record 'ts likelihood_lib =
  tsk_treeseq_init :: "tsk_table_collection_t option \<Rightarrow> int \<times> 'ts"
  msp_log_likelihood_arg :: "'ts \<Rightarrow> double \<Rightarrow> double \<Rightarrow> int \<times> double"

datatype lib_call =
    Call_tsk_treeseq_init
  | Call_msp_log_likelihood_arg double double
  | Call_tsk_treeseq_free

definition msprime_log_likelihood_arg ::
  "'ts likelihood_lib \<Rightarrow> LightweightTableCollection \<Rightarrow> double \<Rightarrow> double \<Rightarrow>
   (pyerr + pyobj) \<times> lib_call list" where
  "msprime_log_likelihood_arg L tabs Ne recombination_rate =
     (if d_lt recombination_rate (Finite 0)
      then (Inl (ValueError ''recombination_rate must be >= 0''), [Call_tsk_treeseq_free])
      else
        (case tsk_treeseq_init L (tables tabs) of
           (err, ts) \<Rightarrow>
             if err \<noteq> 0
             then (Inl (TskitLibraryError err), [Call_tsk_treeseq_init, Call_tsk_treeseq_free])
             else
               (case msp_log_likelihood_arg L ts recombination_rate Ne of
                  (err, ret_likelihood) \<Rightarrow>
                    (if err \<noteq> 0 then Inl (LibraryError err) else Inr (PyFloat ret_likelihood),
                     [Call_tsk_treeseq_init,
                      Call_msp_log_likelihood_arg recombination_rate Ne,
                      Call_tsk_treeseq_free]))))"

subsection \<open>A kernel for the examples\<close>

text \<open>
  The examples need a kernel to run on. In this one every call succeeds, the setters of
  the model store their arguments in the member \<^verbatim>\<open>model\<close>, there are two populations, and
  the state counts the events left until coalescence. It stands for the interface only:
  no theorem assumes it.
\<close>

definition example_model :: simulation_model_t where
  "example_model =
     \<lparr>model_type = MSP_MODEL_HUDSON, reference_size = Finite 1,
      dirac_coalescent_psi = Finite 0, dirac_coalescent_c = Finite 0,
      beta_coalescent_alpha = Finite 0, beta_coalescent_truncation_point = Finite 0,
      sweep_locus = Finite 0\<rparr>"

definition set_model_type :: "model_type_t \<Rightarrow> nat msp_t \<Rightarrow> double \<Rightarrow> int \<times> nat msp_t" where
  "set_model_type ty s ref = (0, s\<lparr>model := (model s)\<lparr>model_type := ty, reference_size := ref\<rparr>\<rparr>)"

fun model_name :: "model_type_t \<Rightarrow> string" where
  "model_name MSP_MODEL_HUDSON = ''hudson''"
| "model_name MSP_MODEL_SMC = ''smc''"
| "model_name MSP_MODEL_SMC_PRIME = ''smc_prime''"
| "model_name MSP_MODEL_BETA = ''beta''"
| "model_name MSP_MODEL_DIRAC = ''dirac''"
| "model_name MSP_MODEL_DTWF = ''dtwf''"
| "model_name MSP_MODEL_SWEEP = ''sweep_genic_selection''"
| "model_name MSP_MODEL_WF_PED = ''wf_ped''"

definition example_kernel :: "(32 word, nat) kernel" where
  "example_kernel =
     \<lparr>population_id_cast = word_of_int,
      msp_alloc = (\<lambda>n samples rm tabs r. (0, \<lparr>model = example_model, kernel_state = 2000\<rparr>)),
      msp_set_simulation_model_hudson = set_model_type MSP_MODEL_HUDSON,
      msp_set_simulation_model_dtwf = set_model_type MSP_MODEL_DTWF,
      msp_set_simulation_model_wf_ped = set_model_type MSP_MODEL_WF_PED,
      msp_set_simulation_model_smc = set_model_type MSP_MODEL_SMC,
      msp_set_simulation_model_smc_prime = set_model_type MSP_MODEL_SMC_PRIME,
      msp_set_simulation_model_dirac =
        (\<lambda>s ref psi c.
           (0, s\<lparr>model := (model s)\<lparr>model_type := MSP_MODEL_DIRAC, reference_size := ref,
                                    dirac_coalescent_psi := psi, dirac_coalescent_c := c\<rparr>\<rparr>)),
      msp_set_simulation_model_beta =
        (\<lambda>s ref alpha truncation_point.
           (0, s\<lparr>model := (model s)\<lparr>model_type := MSP_MODEL_BETA, reference_size := ref,
                                    beta_coalescent_alpha := alpha,
                                    beta_coalescent_truncation_point := truncation_point\<rparr>\<rparr>)),
      msp_set_simulation_model_sweep_genic_selection =
        (\<lambda>s ref position start_frequency end_frequency alpha dt.
           (0, s\<lparr>model := (model s)\<lparr>model_type := MSP_MODEL_SWEEP, reference_size := ref,
                                    sweep_locus := position\<rparr>\<rparr>)),
      msp_get_model_name = (\<lambda>s. model_name (model_type (model s))),
      msp_set_start_time = (\<lambda>s t. (0, s)),
      msp_set_store_migrations = (\<lambda>s b. (0, s)),
      msp_set_avl_node_block_size = (\<lambda>s n. (0, s)),
      msp_set_segment_block_size = (\<lambda>s n. (0, s)),
      msp_set_node_mapping_block_size = (\<lambda>s n. (0, s)),
      msp_set_gene_conversion_rate = (\<lambda>s r l. (0, s)),
      msp_set_dimensions = (\<lambda>s n l. (0, s)),
      msp_alloc_pedigree = (\<lambda>s n ploidy. (0, s)),
      msp_set_pedigree = (\<lambda>s n inds parents time_data is_sample. (0, s)),
      msp_set_population_configuration = (\<lambda>s j initial_size growth_rate. (0, s)),
      msp_get_num_populations = (\<lambda>s. 2),
      msp_set_migration_matrix = (\<lambda>s n m. (0, s)),
      msp_set_store_full_arg = (\<lambda>s b. s),
      msp_initialise = (\<lambda>s. (0, s)),
      msp_run =
        (\<lambda>s end_time chunk.
           if unat chunk < kernel_state s
           then (MSP_EXIT_MAX_EVENTS, s\<lparr>kernel_state := kernel_state s - unat chunk\<rparr>)
           else (0, s\<lparr>kernel_state := 0\<rparr>))\<rparr>"

definition example_simulator :: "nat Simulator" where
  "example_simulator =
     \<lparr>sim = Some \<lparr>model = example_model, kernel_state = 2000\<rparr>,
      sim_recombination_map = None, sim_random_generator = None, sim_tables = None\<rparr>"

text \<open>
  Two small table collections for the examples: an empty one, and one with a node, an
  edge, a site and a population, each with metadata.
\<close>

definition empty_tables :: tsk_table_collection_t where
  "empty_tables =
     \<lparr>sequence_length = Finite 0,
      individuals =
        \<lparr>individuals_num_rows = 0, individuals_flags = [], individuals_location = [],
         individuals_location_length = 0, individuals_location_offset = [0],
         individuals_metadata = [], individuals_metadata_length = 0,
         individuals_metadata_offset = [0]\<rparr>,
      nodes =
        \<lparr>nodes_num_rows = 0, nodes_time = [], nodes_flags = [], nodes_population = [],
         nodes_individual = [], nodes_metadata = [], nodes_metadata_length = 0,
         nodes_metadata_offset = [0]\<rparr>,
      edges =
        \<lparr>edges_num_rows = 0, edges_left = [], edges_right = [], edges_parent = [],
         edges_child = []\<rparr>,
      migrations =
        \<lparr>migrations_num_rows = 0, migrations_left = [], migrations_right = [],
         migrations_node = [], migrations_source = [], migrations_dest = [],
         migrations_time = []\<rparr>,
      sites =
        \<lparr>sites_num_rows = 0, sites_position = [], sites_ancestral_state = [],
         sites_ancestral_state_length = 0, sites_ancestral_state_offset = [0],
         sites_metadata = [], sites_metadata_length = 0, sites_metadata_offset = [0]\<rparr>,
      mutations =
        \<lparr>mutations_num_rows = 0, mutations_site = [], mutations_node = [],
         mutations_parent = [], mutations_derived_state = [],
         mutations_derived_state_length = 0, mutations_derived_state_offset = [0],
         mutations_metadata = [], mutations_metadata_length = 0,
         mutations_metadata_offset = [0]\<rparr>,
      populations =
        \<lparr>populations_num_rows = 0, populations_metadata = [],
         populations_metadata_length = 0, populations_metadata_offset = [0]\<rparr>,
      provenances =
        \<lparr>provenances_num_rows = 0, provenances_timestamp = [],
         provenances_timestamp_length = 0, provenances_timestamp_offset = [0],
         provenances_record = [], provenances_record_length = 0,
         provenances_record_offset = [0]\<rparr>\<rparr>"

definition example_tables :: tsk_table_collection_t where
  "example_tables =
     empty_tables
       \<lparr>sequence_length := Finite 10,
        nodes :=
          \<lparr>nodes_num_rows = 2, nodes_time = [Finite 0, Finite 1], nodes_flags = [1, 0],
           nodes_population = [0, - 1], nodes_individual = [- 1, - 1],
           nodes_metadata = [97, 98, 99], nodes_metadata_length = 3,
           nodes_metadata_offset = [0, 1, 3]\<rparr>,
        edges :=
          \<lparr>edges_num_rows = 1, edges_left = [Finite 0], edges_right = [Finite 10],
           edges_parent = [1], edges_child = [0]\<rparr>,
        sites :=
          \<lparr>sites_num_rows = 1, sites_position = [Finite 2], sites_ancestral_state = [65],
           sites_ancestral_state_length = 1, sites_ancestral_state_offset = [0, 1],
           sites_metadata = [], sites_metadata_length = 0, sites_metadata_offset = [0, 0]\<rparr>,
        populations :=
          \<lparr>populations_num_rows = 1, populations_metadata = [120],
           populations_metadata_length = 1, populations_metadata_offset = [0, 1]\<rparr>\<rparr>"

text \<open>
  Arguments for the constructor in the examples: two samples, a pedigree of two
  individuals, and a model dictionary with the given name. \<open>example_configured\<close> is the
  simulator that the first part of the constructor leaves with them.
\<close>

definition example_pedigree :: pyobj where
  "example_pedigree =
     PyDict [''individual'' \<mapsto> PyArray (NdArray [2] (I32 [1, 2])),
             ''parents'' \<mapsto> PyArray (NdArray [2, 2] (I32 [- 1, - 1, - 1, - 1])),
             ''time'' \<mapsto> PyArray (NdArray [2] (F64 [Finite 0, Finite 0])),
             ''is_sample'' \<mapsto> PyArray (NdArray [2] (U32 [1, 1]))]"

definition example_args :: "string \<Rightarrow> init_args" where
  "example_args name =
     \<lparr>arg_samples = [PyTuple [PyLong 0, PyFloat (Finite 0)], PyTuple [PyLong 0, PyFloat (Finite 0)]],
      arg_recombination_map = \<lparr>recomb_map = Some (Recomb_map 0)\<rparr>,
      arg_random_generator = \<lparr>seed = 1, rng = Some (Gsl_rng 1)\<rparr>,
      arg_tables = \<lparr>tables = Some empty_tables\<rparr>,
      arg_population_configuration = None,
      arg_pedigree = example_pedigree,
      arg_migration_matrix = None,
      arg_demographic_events = None,
      arg_model = Some [''name'' \<mapsto> PyStr name, ''reference_size'' \<mapsto> PyFloat (Finite 1)],
      arg_avl_node_block_size = 10,
      arg_segment_block_size = 10,
      arg_node_mapping_block_size = 10,
      arg_store_migrations = 0,
      arg_start_time = Finite (- 1),
      arg_store_full_arg = 0,
      arg_num_labels = 1,
      arg_gene_conversion_rate = Finite 0,
      arg_gene_conversion_track_length = Finite 1\<rparr>"

definition example_configured :: "model_type_t \<Rightarrow> nat Simulator" where
  "example_configured ty =
     \<lparr>sim = Some \<lparr>model = example_model\<lparr>model_type := ty\<rparr>, kernel_state = 2000\<rparr>,
      sim_recombination_map = Some \<lparr>recomb_map = Some (Recomb_map 0)\<rparr>,
      sim_random_generator = Some \<lparr>seed = 1, rng = Some (Gsl_rng 1)\<rparr>,
      sim_tables = Some \<lparr>tables = Some empty_tables\<rparr>\<rparr>"

definition example_likelihood_lib :: "int \<Rightarrow> unit likelihood_lib" where
  "example_likelihood_lib err =
     \<lparr>tsk_treeseq_init = (\<lambda>t. (err, ())),
      msp_log_likelihood_arg = (\<lambda>ts r n. (0, Finite (- 3)))\<rparr>"

text \<open>
  A kernel that returns an error code for a migration matrix of its two populations
  with a diagonal entry (the entries 0 and 3 of the flat list) other than 0, and is the
  kernel of the examples otherwise.
\<close>

definition diagonal_kernel :: "(32 word, nat) kernel" where
  "diagonal_kernel =
     example_kernel
       \<lparr>msp_set_migration_matrix :=
          (\<lambda>s n m.
             if d_eq (m ! 0) (Finite 0) \<and> d_eq (m ! 3) (Finite 0)
             then (0, s) else (- 1, s))\<rparr>"

text \<open>
  The static variables as the loader leaves them in a process that has installed a
  handler of its own, and a run of the initialisation in which every call succeeds.
\<close>

definition example_globals :: globals where
  "example_globals =
     \<lparr>gsl_error_handler = User_handler 7, old_gsl_error_handler = NULL_handler,
      MsprimeInputError = None, MsprimeLibraryError = None,
      type_objects = (\<lambda>t. \<lparr>tp_new = None, tp_ready = False\<rparr>), PyArray_API = False\<rparr>"

definition all_calls_succeed :: init_calls where
  "all_calls_succeed =
     \<lparr>PyModule_Create_ok = True, import_array_ok = True, PyType_Ready_ok = (\<lambda>t. True)\<rparr>"

section \<open>Theorems\<close>

subsection \<open>Numbers\<close>

lemma PyNumber_Check_index: "py_index x \<noteq> None \<Longrightarrow> PyNumber_Check x"
  by (cases x) simp_all

lemma PyNumber_Check_float: "py_float x \<noteq> None \<Longrightarrow> PyNumber_Check x"
  by (cases x) simp_all

lemma PyFloat_AsDouble_float [simp]: "PyFloat_AsDouble (PyFloat d) = d"
  by (simp add: PyFloat_AsDouble_def)

lemma PyLong_AsLong_fits [simp]:
  "- (2 ^ 63) \<le> i \<Longrightarrow> i < 2 ^ 63 \<Longrightarrow> PyLong_AsLong (PyLong i) = i"
  by (simp add: PyLong_AsLong_def)

lemma PyLong_AsDouble_small: "\<bar>i\<bar> < 2 ^ 53 \<Longrightarrow> PyLong_AsDouble i = Some (Finite (real_of_int i))"
  by (simp add: PyLong_AsDouble_def)

lemma PyFloat_AsDouble_small: "\<bar>i\<bar> < 2 ^ 53 \<Longrightarrow> PyFloat_AsDouble (PyLong i) = Finite (real_of_int i)"
  by (simp add: PyFloat_AsDouble_def PyLong_AsDouble_small)

lemma is_py_real_float [simp]: "is_py_real (PyFloat d)"
  by (simp add: is_py_real_def)

lemma is_py_real_small: "\<bar>i\<bar> < 2 ^ 53 \<Longrightarrow> is_py_real (PyLong i)"
  by (simp add: is_py_real_def PyLong_AsDouble_small)

lemma is_py_real_number: "is_py_real x \<Longrightarrow> PyNumber_Check x"
  by (simp add: is_py_real_def PyNumber_Check_float)

text \<open>
  An integer of 54 binary digits is rounded to 53, a tie to the even neighbour.
\<close>

lemma bit_length_eq: "2 ^ k \<le> n \<Longrightarrow> n < 2 ^ Suc k \<Longrightarrow> bit_length n = Suc k"
proof (induction k arbitrary: n)
  case 0
  then have "n = 1" by simp
  then show ?case by (simp add: bit_length.simps)
next
  case (Suc k)
  have "2 ^ k \<le> n div 2" "n div 2 < 2 ^ Suc k"
    using Suc.prems by simp_all
  then have "bit_length (n div 2) = Suc k"
    by (rule Suc.IH)
  moreover have "0 < (2::nat) ^ Suc k"
    by simp
  then have "n \<noteq> 0"
    using Suc.prems(1) by linarith
  ultimately show ?case
    by (subst bit_length.simps) simp
qed

lemma PyLong_AsDouble_rounds:
  "PyLong_AsDouble 9007199254740993 = Some (Finite 9007199254740992)"
  "PyLong_AsDouble 9007199254740995 = Some (Finite 9007199254740996)"
  "PyLong_AsDouble (- 9007199254740995) = Some (Finite (- 9007199254740996))"
proof -
  have a: "bit_length 9007199254740993 = 54" "bit_length 9007199254740995 = 54"
    using bit_length_eq [of 53 9007199254740993] bit_length_eq [of 53 9007199254740995]
    by simp_all
  show "PyLong_AsDouble 9007199254740993 = Some (Finite 9007199254740992)"
    "PyLong_AsDouble 9007199254740995 = Some (Finite 9007199254740996)"
    "PyLong_AsDouble (- 9007199254740995) = Some (Finite (- 9007199254740996))"
    using a by (simp_all add: PyLong_AsDouble_def round_half_even_def Let_def)
qed

text \<open>
  A one-element array converts like its element, and an integer array of no dimensions
  is an integer.
\<close>

lemma PyFloat_AsDouble_array:
  "PyFloat_AsDouble (PyArray (NdArray [1] (F64 [d]))) = d"
  "PyLong_AsLong (PyArray (NdArray [] (I32 [3]))) = 3"
  "PyLong_AsLong (PyArray (NdArray [1] (I32 [3]))) = - 1"
  by (simp_all add: PyFloat_AsDouble_def PyLong_AsLong_def ndarray_float_def ndarray_index_def)

subsection \<open>RandomGenerator seeds\<close>

lemma RandomGenerator_init_in_range:
  assumes "0 < s" and "s < 2 ^ 32"
  shows "RandomGenerator_init (PyLong s) = Inr \<lparr>seed = word_of_int s, rng = Some (Gsl_rng (word_of_int s))\<rparr>"
    and "RandomGenerator_get_seed \<lparr>seed = word_of_int s, rng = Some (Gsl_rng (word_of_int s))\<rparr> = Inr (PyLong s)"
proof -
  have u: "uint (word_of_int s :: 64 word) = s"
    using assms by (simp add: uint_word_of_int take_bit_int_eq_self)
  have nz: "(word_of_int s :: 64 word) \<noteq> 0"
    using u assms by (metis less_irrefl uint_0_eq)
  have lt: "\<not> (2 ^ 32 \<le> (word_of_int s :: 64 word))"
    using u assms by (simp add: word_le_def)
  show "RandomGenerator_init (PyLong s) = Inr \<lparr>seed = word_of_int s, rng = Some (Gsl_rng (word_of_int s))\<rparr>"
    using nz lt by (simp add: RandomGenerator_init_def PyArg_K_def)
  show "RandomGenerator_get_seed \<lparr>seed = word_of_int s, rng = Some (Gsl_rng (word_of_int s))\<rparr> = Inr (PyLong s)"
    using u by (simp add: RandomGenerator_get_seed_def RandomGenerator_check_state_def)
qed

text \<open>
  C10. The claim: construction succeeds if and only if \<open>0 < seed < 2 ^ 32\<close>, and
  \<^verbatim>\<open>get_seed\<close> returns the seed that was supplied. The code converts the argument with
  the format unit \<^verbatim>\<open>"K"\<close>, which reduces it modulo \<open>2 ^ 64\<close> before the range check:
  the seed \<open>2 ^ 64 + 1\<close> is accepted, and \<^verbatim>\<open>get_seed\<close> then returns 1.
\<close>

theorem RandomGenerator_seed_wraps:
  "RandomGenerator_init (PyLong (2 ^ 64 + 1)) = Inr \<lparr>seed = 1, rng = Some (Gsl_rng 1)\<rparr>
   \<and> RandomGenerator_get_seed \<lparr>seed = 1, rng = Some (Gsl_rng 1)\<rparr> = Inr (PyLong 1)"
  by (simp add: RandomGenerator_init_def PyArg_K_def RandomGenerator_get_seed_def
      RandomGenerator_check_state_def)

subsection \<open>The GSL error handler\<close>

lemma init_types_handlers:
  "gsl_error_handler (snd (init_types ready_ok ts g)) = gsl_error_handler g
   \<and> old_gsl_error_handler (snd (init_types ready_ok ts g)) = old_gsl_error_handler g"
  by (induction ts arbitrary: g) (simp_all add: Let_def)

lemma PyInit_handlers:
  "gsl_error_handler (snd (PyInit__msprime calls g)) = gsl_error_handler g"
  "old_gsl_error_handler (snd (PyInit__msprime calls g))
     = (if fst (PyInit__msprime calls g) then NULL_handler else old_gsl_error_handler g)"
proof -
  obtain ok g' where t: "init_types (PyType_Ready_ok calls)
      [LightweightTableCollectionType, RandomGeneratorType, MutationGeneratorType,
       SimulatorType, RecombinationMapType, IntervalMapType] (g\<lparr>PyArray_API := True\<rparr>) = (ok, g')"
    by (cases "init_types (PyType_Ready_ok calls)
      [LightweightTableCollectionType, RandomGeneratorType, MutationGeneratorType,
       SimulatorType, RecombinationMapType, IntervalMapType] (g\<lparr>PyArray_API := True\<rparr>)")
  have h: "gsl_error_handler g' = gsl_error_handler g"
    "old_gsl_error_handler g' = old_gsl_error_handler g"
    using init_types_handlers [of "PyType_Ready_ok calls"
        "[LightweightTableCollectionType, RandomGeneratorType, MutationGeneratorType,
          SimulatorType, RecombinationMapType, IntervalMapType]" "g\<lparr>PyArray_API := True\<rparr>"] t
    by simp_all
  show "gsl_error_handler (snd (PyInit__msprime calls g)) = gsl_error_handler g"
    using t h by (cases ok) (simp_all add: PyInit__msprime_def)
  show "old_gsl_error_handler (snd (PyInit__msprime calls g))
     = (if fst (PyInit__msprime calls g) then NULL_handler else old_gsl_error_handler g)"
    using t h by (cases ok) (simp_all add: PyInit__msprime_def)
qed

text \<open>
  C9, as the code has it. The handler is captured by \<^verbatim>\<open>unset_gsl_error_handler\<close> and
  restored by \<^verbatim>\<open>restore_gsl_error_handler\<close>: after the pair the process-wide handler is
  the one that was found, and of the static variables of the module (the saved pointer,
  the exception classes, the type objects, NumPy's table) only the saved pointer has changed, which
  holds the handler that was found. The initialisation of the module captures nothing:
  it leaves the process-wide handler alone and, when it succeeds, sets the saved pointer
  to NULL. The pair after it (the package is meant to call \<^verbatim>\<open>unset_gsl_error_handler\<close>
  when it is imported) leaves the handler found at load time.
\<close>

theorem gsl_error_handler_restored:
  "msprime_restore_gsl_error_handler (msprime_unset_gsl_error_handler g)
     = g\<lparr>old_gsl_error_handler := gsl_error_handler g\<rparr>
   \<and> gsl_error_handler (snd (PyInit__msprime calls g)) = gsl_error_handler g
   \<and> old_gsl_error_handler (snd (PyInit__msprime calls g))
       = (if fst (PyInit__msprime calls g) then NULL_handler else old_gsl_error_handler g)
   \<and> gsl_error_handler (msprime_restore_gsl_error_handler
        (msprime_unset_gsl_error_handler (snd (PyInit__msprime calls g)))) = gsl_error_handler g"
  using PyInit_handlers [of calls g]
  by (simp add: msprime_restore_gsl_error_handler_def msprime_unset_gsl_error_handler_def
      gsl_set_error_handler_off_def gsl_set_error_handler_def)

theorem gsl_error_handler_restored_witness:
  "msprime_restore_gsl_error_handler (msprime_unset_gsl_error_handler example_globals)
     = example_globals\<lparr>old_gsl_error_handler := User_handler 7\<rparr>
   \<and> gsl_error_handler (msprime_restore_gsl_error_handler
        (msprime_unset_gsl_error_handler
           (snd (PyInit__msprime all_calls_succeed example_globals)))) = User_handler 7"
  using gsl_error_handler_restored [of example_globals all_calls_succeed]
  by (simp add: example_globals_def)

text \<open>
  The claim of C9 as the specification words it has the handler captured at module load
  and restored on teardown, and no other global mutable state. The initialisation of the
  module, in a process whose handler is \<open>User_handler 7\<close>, succeeds and leaves NULL in the
  saved pointer; restoring then installs NULL, not the handler that was found. It has
  also written the module's other static variables: the exception classes, NumPy's
  table and the type objects.
\<close>

theorem module_init_captures_nothing:
  "fst (PyInit__msprime all_calls_succeed example_globals)
   \<and> gsl_error_handler example_globals = User_handler 7
   \<and> old_gsl_error_handler (snd (PyInit__msprime all_calls_succeed example_globals)) = NULL_handler
   \<and> gsl_error_handler (msprime_restore_gsl_error_handler
        (snd (PyInit__msprime all_calls_succeed example_globals))) = NULL_handler
   \<and> MsprimeInputError example_globals = None
   \<and> MsprimeInputError (snd (PyInit__msprime all_calls_succeed example_globals))
       = Some ''_msprime.InputError''
   \<and> \<not> PyArray_API example_globals
   \<and> PyArray_API (snd (PyInit__msprime all_calls_succeed example_globals))
   \<and> type_objects example_globals SimulatorType = \<lparr>tp_new = None, tp_ready = False\<rparr>
   \<and> type_objects (snd (PyInit__msprime all_calls_succeed example_globals)) SimulatorType
       = \<lparr>tp_new = Some PyType_GenericNew, tp_ready = True\<rparr>"
  by (simp add: PyInit__msprime_def all_calls_succeed_def example_globals_def Let_def
      msprime_restore_gsl_error_handler_def gsl_set_error_handler_def)

subsection \<open>Samples\<close>

lemmas number_defs = PyLong_AsLong_def PyFloat_AsDouble_def is_py_int_def is_py_real_def
  py_int_val_def

lemma parse_samples_entry_fails:
  "(\<exists>e. parse_samples_entry cast P x = Inl e) \<longleftrightarrow>
     (\<not> sample_pair x \<or> sample_population x < 0 \<or> sint P \<le> sample_population x
      \<or> d_lt (sample_time x) (Finite 0))"
proof (cases x)
  case (PyTuple items)
  show ?thesis
  proof (cases items)
    case Nil
    then show ?thesis using PyTuple by (simp add: parse_samples_entry_def)
  next
    case (Cons p ts)
    note c1 = Cons
    show ?thesis
    proof (cases ts)
      case Nil
      then show ?thesis using PyTuple c1 by (simp add: parse_samples_entry_def)
    next
      case (Cons t us)
      note c2 = Cons
      have b: "- (2 ^ 63) \<le> sint P" "sint P < 2 ^ 63"
        using sint_ge [of P] sint_lt [of P] by simp_all
      show ?thesis
      proof (cases us)
        case Nil
        show ?thesis
          using PyTuple c1 c2 Nil b PyNumber_Check_index [of p] PyNumber_Check_float [of t]
          by (cases "py_index p"; cases "py_float t")
            (auto simp: parse_samples_entry_def Let_def number_defs)
      next
        case (Cons u vs)
        then show ?thesis using PyTuple c1 c2 by (simp add: parse_samples_entry_def)
      qed
    qed
  qed
qed (simp_all add: parse_samples_entry_def)

lemma parse_samples_entry_stored:
  assumes "parse_samples_entry cast P x = Inr s"
  shows "s = \<lparr>population_id = cast (sample_population x), time = sample_time x\<rparr>"
proof -
  have ok: "sample_pair x" "0 \<le> sample_population x" "sample_population x < sint P"
    using parse_samples_entry_fails [of cast P x] assms by auto
  have b: "sint P < 2 ^ 63"
    using sint_lt [of P] by simp
  obtain p t where x: "x = PyTuple [p, t]"
    using ok(1) by (cases x rule: sample_pair.cases) simp_all
  have "PyLong_AsLong p = py_int_val p"
    using ok b x by (cases "py_index p") (auto simp: number_defs)
  then show ?thesis
    using assms x by (auto simp: parse_samples_entry_def Let_def split: if_splits)
qed

lemma parse_samples_loop_fails:
  "(\<exists>e. parse_samples_loop cast P lst = Inl e) \<longleftrightarrow>
     (\<exists>x\<in>set lst. \<not> sample_pair x \<or> sample_population x < 0 \<or> sint P \<le> sample_population x
        \<or> d_lt (sample_time x) (Finite 0))"
proof (induction lst)
  case Nil
  show ?case by simp
next
  case (Cons x xs)
  show ?case
  proof (cases "parse_samples_entry cast P x")
    case (Inl e)
    then show ?thesis
      using parse_samples_entry_fails [of cast P x] by auto
  next
    case (Inr s)
    then have good: "\<not> (\<not> sample_pair x \<or> sample_population x < 0 \<or> sint P \<le> sample_population x
        \<or> d_lt (sample_time x) (Finite 0))"
      using parse_samples_entry_fails [of cast P x] by auto
    show ?thesis
      using Inr good Cons.IH by (auto split: sum.splits)
  qed
qed

lemma parse_samples_loop_stored:
  "parse_samples_loop cast P lst = Inr ss \<Longrightarrow>
     ss = map (\<lambda>x. \<lparr>population_id = cast (sample_population x), time = sample_time x\<rparr>) lst"
proof (induction lst arbitrary: ss)
  case Nil
  then show ?case by simp
next
  case (Cons x xs)
  then show ?case
    by (auto split: sum.splits dest: parse_samples_entry_stored)
qed

lemma sint_to_population_id_t:
  assumes "0 \<le> v" and "v < 2 ^ (LENGTH('w::len) - 1)"
  shows "sint (to_population_id_t v :: 'w word) = v"
  using assms
  by (simp add: to_population_id_t_def sint_sbintrunc' signed_take_bit_int_eq_self)

text \<open>
  C3, as the code has it. Parsing the sample list fails if and only if some entry is not
  a \<open>(population, time)\<close> pair, or has a population id below 0 or not below the number of
  populations, or has a time below 0. When it succeeds, the reported number of samples
  is the length of the list, and every sample holds the time of its entry and the
  population id of its entry converted to \<^verbatim>\<open>population_id_t\<close>. The stored id is the id
  of the entry whenever that is below \<open>2 ^ (w - 1)\<close>, \<open>w\<close> the width of the type: for every
  entry when the number of populations is not above \<open>2 ^ (w - 1)\<close>.
\<close>

theorem parse_samples_spec:
  "((\<exists>e. parse_samples (to_population_id_t :: int \<Rightarrow> 'w::len word) lst P = Inl e) \<longleftrightarrow>
      (\<exists>x\<in>set lst. \<not> sample_pair x \<or> sample_population x < 0 \<or> sint P \<le> sample_population x
         \<or> d_lt (sample_time x) (Finite 0)))
   \<and> (\<forall>n ss. parse_samples (to_population_id_t :: int \<Rightarrow> 'w word) lst P = Inr (n, ss) \<longrightarrow>
        n = length lst
        \<and> map time ss = map sample_time lst
        \<and> map population_id ss = map (\<lambda>x. word_of_int (sample_population x)) lst
        \<and> (\<forall>j<length lst. sample_population (lst ! j) < 2 ^ (LENGTH('w) - 1) \<longrightarrow>
              sint (population_id (ss ! j)) = sample_population (lst ! j))
        \<and> (sint P \<le> 2 ^ (LENGTH('w) - 1) \<longrightarrow>
              map (\<lambda>s. sint (population_id s)) ss = map sample_population lst))"
proof -
  let ?cast = "to_population_id_t :: int \<Rightarrow> 'w word"
  have fails: "(\<exists>e. parse_samples ?cast lst P = Inl e) \<longleftrightarrow>
      (\<exists>x\<in>set lst. \<not> sample_pair x \<or> sample_population x < 0 \<or> sint P \<le> sample_population x
         \<or> d_lt (sample_time x) (Finite 0))"
    using parse_samples_loop_fails [of ?cast P lst]
    by (auto simp: parse_samples_def split: sum.splits)
  have stored: "n = length lst
        \<and> map time ss = map sample_time lst
        \<and> map population_id ss = map (\<lambda>x. word_of_int (sample_population x)) lst
        \<and> (\<forall>j<length lst. sample_population (lst ! j) < 2 ^ (LENGTH('w) - 1) \<longrightarrow>
              sint (population_id (ss ! j)) = sample_population (lst ! j))
        \<and> (sint P \<le> 2 ^ (LENGTH('w) - 1) \<longrightarrow>
              map (\<lambda>s. sint (population_id s)) ss = map sample_population lst)"
    if r: "parse_samples ?cast lst P = Inr (n, ss)" for n ss
  proof -
    have n: "n = length lst" and l: "parse_samples_loop ?cast P lst = Inr ss"
      using r by (auto simp: parse_samples_def split: sum.splits)
    have ss: "ss = map (\<lambda>x. \<lparr>population_id = ?cast (sample_population x),
                              time = sample_time x\<rparr>) lst"
      using l by (rule parse_samples_loop_stored)
    have good: "\<forall>x\<in>set lst. 0 \<le> sample_population x \<and> sample_population x < sint P"
      using fails r by (auto simp: not_le not_less)
    have one: "sint (population_id (ss ! j)) = sample_population (lst ! j)"
      if "j < length lst" "sample_population (lst ! j) < 2 ^ (LENGTH('w) - 1)" for j
      using that good ss by (simp add: sint_to_population_id_t)
    have every: "map (\<lambda>s. sint (population_id s)) ss = map sample_population lst"
      if "sint P \<le> 2 ^ (LENGTH('w) - 1)"
    proof -
      have "sint (?cast (sample_population x)) = sample_population x" if "x \<in> set lst" for x
        using good that \<open>sint P \<le> 2 ^ (LENGTH('w) - 1)\<close>
        by (intro sint_to_population_id_t) auto
      then show ?thesis
        using ss by (simp add: comp_def)
    qed
    show ?thesis
      using n ss one every by (simp add: comp_def to_population_id_t_def)
  qed
  show ?thesis
    using fails stored by blast
qed

theorem parse_samples_spec_witness:
  "parse_samples (to_population_id_t :: int \<Rightarrow> 32 word)
      [PyTuple [PyLong 0, PyFloat (Finite 0)],
       PyTuple [PyLong 1, PyArray (NdArray [1] (F64 [Finite 3]))]] 2
    = Inr (2, [\<lparr>population_id = 0, time = Finite 0\<rparr>, \<lparr>population_id = 1, time = Finite 3\<rparr>])
   \<and> (\<exists>e. parse_samples (to_population_id_t :: int \<Rightarrow> 32 word)
      [PyTuple [PyLong 0, PyFloat (Finite 0)], PyTuple [PyLong 2, PyFloat (Finite 0)]] 2 = Inl e)"
proof -
  let ?good = "[PyTuple [PyLong 0, PyFloat (Finite 0)],
       PyTuple [PyLong 1, PyArray (NdArray [1] (F64 [Finite 3]))]]"
  have a: "\<not> (\<exists>e. parse_samples (to_population_id_t :: int \<Rightarrow> 32 word) ?good 2 = Inl e)"
    using parse_samples_spec [where 'w = 32, of ?good 2]
    by (simp add: number_defs ndarray_float_def)
  then obtain n ss where r: "parse_samples (to_population_id_t :: int \<Rightarrow> 32 word) ?good 2
      = Inr (n, ss)"
    by (metis old.prod.exhaust sum.exhaust_sel sum.collapse(1))
  have "n = 2 \<and> map time ss = [Finite 0, Finite 3] \<and> map population_id ss = [0, 1]"
    using r parse_samples_spec [where 'w = 32, of ?good 2]
    by (simp add: number_defs ndarray_float_def)
  then have b: "n = 2 \<and> ss = [\<lparr>population_id = 0, time = Finite 0\<rparr>,
                             \<lparr>population_id = 1, time = Finite 3\<rparr>]"
    by (auto simp: map_eq_Cons_conv)
  have c: "\<exists>e. parse_samples (to_population_id_t :: int \<Rightarrow> 32 word)
      [PyTuple [PyLong 0, PyFloat (Finite 0)], PyTuple [PyLong 2, PyFloat (Finite 0)]] 2 = Inl e"
    using parse_samples_spec [where 'w = 32,
        of "[PyTuple [PyLong 0, PyFloat (Finite 0)], PyTuple [PyLong 2, PyFloat (Finite 0)]]" 2]
    by (simp add: number_defs)
  show ?thesis using r b c by simp
qed

text \<open>
  The claim of C3 as the specification words it has every population id stored
  unchanged. With the 32 bits that \<^verbatim>\<open>msprime.h\<close> gives \<^verbatim>\<open>population_id_t\<close> and
  \<open>2 ^ 32 + 1\<close> populations, the entry with the population id \<open>2 ^ 32\<close> is accepted and
  stored with the id 0.
\<close>

theorem parse_samples_population_id_truncated:
  "parse_samples (to_population_id_t :: int \<Rightarrow> 32 word)
      [PyTuple [PyLong 4294967296, PyFloat (Finite 0)]] 4294967297
    = Inr (1, [\<lparr>population_id = 0, time = Finite 0\<rparr>])
   \<and> sample_population (PyTuple [PyLong 4294967296, PyFloat (Finite 0)]) = 4294967296"
  by (simp add: parse_samples_def parse_samples_entry_def number_defs to_population_id_t_def)

subsection \<open>The dictionary encoding of table collections\<close>

lemma read_f64 [simp]:
  "table_read_column_array (new_f64_array n xs) NPY_FLOAT64 k False = Inr (NdArray [n] (F64 (take n xs)), n)"
  "table_read_column_array (new_f64_array n xs) NPY_FLOAT64 n True = Inr (NdArray [n] (F64 (take n xs)), n)"
  by (simp_all add: table_read_column_array_def PyArray_FROMANY_def bind_err_def new_f64_array_def)

lemma read_i32 [simp]:
  "table_read_column_array (new_i32_array n xs) NPY_INT32 k False = Inr (NdArray [n] (I32 (take n xs)), n)"
  "table_read_column_array (new_i32_array n xs) NPY_INT32 n True = Inr (NdArray [n] (I32 (take n xs)), n)"
  by (simp_all add: table_read_column_array_def PyArray_FROMANY_def bind_err_def new_i32_array_def)

lemma read_u32 [simp]:
  "table_read_column_array (new_u32_array n xs) NPY_UINT32 k False = Inr (NdArray [n] (U32 (take n xs)), n)"
  "table_read_column_array (new_u32_array n xs) NPY_UINT32 n True = Inr (NdArray [n] (U32 (take n xs)), n)"
  by (simp_all add: table_read_column_array_def PyArray_FROMANY_def bind_err_def new_u32_array_def)

lemma read_i8 [simp]:
  "table_read_column_array (new_i8_array n xs) NPY_INT8 k False = Inr (NdArray [n] (I8 (take n xs)), n)"
  "table_read_column_array (new_i8_array n xs) NPY_INT8 n True = Inr (NdArray [n] (I8 (take n xs)), n)"
  by (simp_all add: table_read_column_array_def PyArray_FROMANY_def bind_err_def new_i8_array_def)

lemma array_not_none [simp]:
  "new_f64_array n xs \<noteq> PyNone" "new_i32_array n ys \<noteq> PyNone"
  "new_u32_array n ys \<noteq> PyNone" "new_i8_array n zs \<noteq> PyNone"
  by (simp_all add: new_f64_array_def new_i32_array_def new_u32_array_def new_i8_array_def)

lemma read_offset:
  assumes "packed_wf n packed len offs"
  shows "table_read_offset_array (new_u32_array (Suc n) offs) n len True = Inr (NdArray [Suc n] (U32 offs), n)"
    and "table_read_offset_array (new_u32_array (Suc n) offs) k len False = Inr (NdArray [Suc n] (U32 offs), n)"
  using assms
  by (simp_all add: table_read_offset_array_def PyArray_FROMANY_def bind_err_def new_u32_array_def
      packed_wf_def Let_def)

lemma packed_append:
  assumes "packed_wf n packed len offs"
  shows "offsets_ok n (Some (packed, offs))"
    and "append_packed [] n (Some (packed, offs)) = packed"
    and "append_length 0 n (Some (packed, offs)) = len"
    and "append_offset [0] 0 n (Some (packed, offs)) = offs"
proof -
  have u: "unat (offs ! n) = len"
    using assms by (simp add: packed_wf_def unat_of_nat take_bit_nat_eq_self)
  show "offsets_ok n (Some (packed, offs))"
    using assms by (simp add: offsets_ok_def check_offsets_def packed_wf_def)
  show "append_packed [] n (Some (packed, offs)) = packed"
    using assms u by (simp add: append_packed_def packed_wf_def)
  show "append_length 0 n (Some (packed, offs)) = len"
    using u by (simp add: append_length_def)
  have "(+) (0 :: 32 word) = id"
    by auto
  then show "append_offset [0] 0 n (Some (packed, offs)) = offs"
    using assms by (simp add: append_offset_def packed_wf_def)
qed

lemma packed_take:
  "packed_wf n packed len offs \<Longrightarrow> take len packed = packed"
  by (simp add: packed_wf_def)

lemma edge_roundtrip:
  "edge_table_wf (edges T) \<Longrightarrow> parse_edge_table_dict t0 (edge_cols T) True = (None, edges T)"
  by (simp add: parse_edge_table_dict_def edge_cols_def edge_table_wf_def bind_err_def
      get_table_dict_value_def clear_and_append_def
      tsk_edge_table_clear_def tsk_edge_table_append_columns_def Let_def)

lemma node_roundtrip:
  assumes "node_table_wf (nodes T)"
  shows "parse_node_table_dict t0 (node_cols T) True = (None, nodes T)"
proof -
  have w: "packed_wf (nodes_num_rows (nodes T)) (nodes_metadata (nodes T))
      (nodes_metadata_length (nodes T)) (nodes_metadata_offset (nodes T))"
    using assms by (simp add: node_table_wf_def)
  show ?thesis
    using assms
    by (simp add: parse_node_table_dict_def node_cols_def node_table_wf_def bind_err_def
      get_table_dict_value_def clear_and_append_def read_optional_i8_def read_optional_i32_def
      read_offset [OF w] packed_append [OF w] packed_take [OF w] packed_column_def append_ids_def
      tsk_node_table_clear_def tsk_node_table_append_columns_def Let_def)
qed

lemmas parse_frame = bind_err_def get_table_dict_value_def clear_and_append_def
  read_optional_i8_def read_optional_i32_def packed_column_def append_ids_def Let_def

lemma individual_roundtrip:
  assumes "individual_table_wf (individuals T)"
  shows "parse_individual_table_dict t0 (individual_cols T) True = (None, individuals T)"
proof -
  have w1: "packed_wf (individuals_num_rows (individuals T)) (individuals_location (individuals T))
      (individuals_location_length (individuals T)) (individuals_location_offset (individuals T))"
    and w2: "packed_wf (individuals_num_rows (individuals T)) (individuals_metadata (individuals T))
      (individuals_metadata_length (individuals T)) (individuals_metadata_offset (individuals T))"
    using assms by (simp_all add: individual_table_wf_def)
  show ?thesis
    using assms
    by (simp add: parse_individual_table_dict_def individual_cols_def individual_table_wf_def
      parse_frame read_offset [OF w1] packed_append [OF w1] packed_take [OF w1]
      read_offset [OF w2] packed_append [OF w2] packed_take [OF w2]
      tsk_individual_table_clear_def tsk_individual_table_append_columns_def)
qed

lemma migration_roundtrip:
  "migration_table_wf (migrations T) \<Longrightarrow>
     parse_migration_table_dict t0 (migration_cols T) True = (None, migrations T)"
  by (simp add: parse_migration_table_dict_def migration_cols_def migration_table_wf_def
      parse_frame tsk_migration_table_clear_def tsk_migration_table_append_columns_def)

lemma site_roundtrip:
  assumes "site_table_wf (sites T)"
  shows "parse_site_table_dict t0 (site_cols T) True = (None, sites T)"
proof -
  have w1: "packed_wf (sites_num_rows (sites T)) (sites_ancestral_state (sites T))
      (sites_ancestral_state_length (sites T)) (sites_ancestral_state_offset (sites T))"
    and w2: "packed_wf (sites_num_rows (sites T)) (sites_metadata (sites T))
      (sites_metadata_length (sites T)) (sites_metadata_offset (sites T))"
    using assms by (simp_all add: site_table_wf_def)
  show ?thesis
    using assms
    by (simp add: parse_site_table_dict_def site_cols_def site_table_wf_def
      parse_frame read_offset [OF w1] packed_append [OF w1] packed_take [OF w1]
      read_offset [OF w2] packed_append [OF w2] packed_take [OF w2]
      tsk_site_table_clear_def tsk_site_table_append_columns_def)
qed

lemma mutation_roundtrip:
  assumes "mutation_table_wf (mutations T)"
  shows "parse_mutation_table_dict t0 (mutation_cols T) True = (None, mutations T)"
proof -
  have w1: "packed_wf (mutations_num_rows (mutations T)) (mutations_derived_state (mutations T))
      (mutations_derived_state_length (mutations T)) (mutations_derived_state_offset (mutations T))"
    and w2: "packed_wf (mutations_num_rows (mutations T)) (mutations_metadata (mutations T))
      (mutations_metadata_length (mutations T)) (mutations_metadata_offset (mutations T))"
    using assms by (simp_all add: mutation_table_wf_def)
  show ?thesis
    using assms
    by (simp add: parse_mutation_table_dict_def mutation_cols_def mutation_table_wf_def
      parse_frame read_offset [OF w1] packed_append [OF w1] packed_take [OF w1]
      read_offset [OF w2] packed_append [OF w2] packed_take [OF w2]
      tsk_mutation_table_clear_def tsk_mutation_table_append_columns_def)
qed

lemma population_roundtrip:
  assumes "population_table_wf (populations T)"
  shows "parse_population_table_dict t0 (population_cols T) True = (None, populations T)"
proof -
  have w: "packed_wf (populations_num_rows (populations T)) (populations_metadata (populations T))
      (populations_metadata_length (populations T)) (populations_metadata_offset (populations T))"
    using assms by (simp add: population_table_wf_def)
  show ?thesis
    by (simp add: parse_population_table_dict_def population_cols_def
      parse_frame read_offset [OF w] packed_append [OF w] packed_take [OF w]
      tsk_population_table_clear_def tsk_population_table_append_columns_def)
qed

lemma provenance_roundtrip:
  assumes "provenance_table_wf (provenances T)"
  shows "parse_provenance_table_dict t0 (provenance_cols T) True = (None, provenances T)"
proof -
  have w1: "packed_wf (provenances_num_rows (provenances T)) (provenances_timestamp (provenances T))
      (provenances_timestamp_length (provenances T)) (provenances_timestamp_offset (provenances T))"
    and w2: "packed_wf (provenances_num_rows (provenances T)) (provenances_record (provenances T))
      (provenances_record_length (provenances T)) (provenances_record_offset (provenances T))"
    using assms by (simp_all add: provenance_table_wf_def)
  show ?thesis
    by (simp add: parse_provenance_table_dict_def provenance_cols_def
      parse_frame read_offset [OF w1] packed_append [OF w1] packed_take [OF w1]
      read_offset [OF w2] packed_append [OF w2] packed_take [OF w2]
      tsk_provenance_table_clear_def tsk_provenance_table_append_columns_def)
qed

lemma collection_roundtrip:
  assumes "table_collection_wf T"
  shows "parse_table_collection_dict T0 (write_table_arrays T [''sequence_length'' \<mapsto> PyFloat (sequence_length T)])
     = (None, T)"
  using assms
  by (simp add: parse_table_collection_dict_def write_table_arrays_def table_collection_wf_def
      table_dict_entry_def get_table_dict_value_def bind_err_def and_then_def
      individual_roundtrip node_roundtrip edge_roundtrip migration_roundtrip site_roundtrip
      mutation_roundtrip population_roundtrip provenance_roundtrip)

text \<open>
  C2. For every table collection \<open>T\<close> that satisfies the invariants of the tables
  library, \<^verbatim>\<open>asdict\<close> returns a dictionary, and \<^verbatim>\<open>fromdict\<close> on that dictionary succeeds
  and leaves exactly \<open>T\<close> in the receiving collection, whatever it held before: the
  sequence length, the numbers of rows and every column of the eight tables, with the
  packed arrays, their lengths and their offsets.
\<close>

theorem fromdict_asdict:
  assumes "table_collection_wf T"
  shows "LightweightTableCollection_asdict \<lparr>tables = Some T\<rparr> = Inr (dump_tables_dict T)
    \<and> LightweightTableCollection_fromdict \<lparr>tables = Some T0\<rparr> (dump_tables_dict T)
        = (Inr PyNone, \<lparr>tables = Some T\<rparr>)"
  using collection_roundtrip [OF assms, of T0]
  by (simp add: LightweightTableCollection_asdict_def LightweightTableCollection_fromdict_def
      dump_tables_dict_def)

lemma example_tables_wf: "table_collection_wf example_tables"
  by (simp add: example_tables_def empty_tables_def table_collection_wf_def
      individual_table_wf_def node_table_wf_def edge_table_wf_def migration_table_wf_def
      site_table_wf_def mutation_table_wf_def population_table_wf_def provenance_table_wf_def
      packed_wf_def)

theorem fromdict_asdict_witness:
  "table_collection_wf example_tables
   \<and> LightweightTableCollection_fromdict \<lparr>tables = Some empty_tables\<rparr>
        (dump_tables_dict example_tables)
      = (Inr PyNone, \<lparr>tables = Some example_tables\<rparr>)"
  using example_tables_wf fromdict_asdict [OF example_tables_wf, of empty_tables]
  by simp

subsection \<open>Running the simulation\<close>

lemma Simulator_run_loop_continues:
  assumes "\<forall>i<n. run_status K t s i = MSP_EXIT_MAX_EVENTS \<and> 0 \<le> check_signals (k + i)"
  shows "Simulator_run_loop K check_signals t k s
     = Simulator_run_loop K check_signals t (k + n) (run_state K t s n)"
  using assms
proof (induction n)
  case 0
  show ?case by simp
next
  case (Suc n)
  have st: "run_status K t s n = MSP_EXIT_MAX_EVENTS" and sg: "0 \<le> check_signals (k + n)"
    using Suc.prems by simp_all
  have "Simulator_run_loop K check_signals t k s
      = Simulator_run_loop K check_signals t (k + n) (run_state K t s n)"
    using Suc by simp
  also have "\<dots> = Simulator_run_loop K check_signals t (Suc (k + n)) (run_state K t s (Suc n))"
    using st sg
    by (subst Simulator_run_loop.simps)
      (auto simp: run_status_def MSP_EXIT_MAX_EVENTS_def split: prod.splits)
  finally show ?case by simp
qed

lemma Simulator_run_loop_stops:
  assumes "run_status K t s n \<noteq> MSP_EXIT_MAX_EVENTS \<or> run_status K t s n < 0 \<or> check_signals (k + n) < 0"
  shows "Simulator_run_loop K check_signals t (k + n) (run_state K t s n)
     = Some (if run_status K t s n < 0 then Inl (LibraryError (run_status K t s n))
             else if check_signals (k + n) < 0 then Inl Interrupt
             else Inr (PyBool (run_status K t s n = 0)),
             run_state K t s (Suc n))"
  using assms
  by (subst Simulator_run_loop.simps) (auto simp: run_status_def split: prod.splits)

text \<open>
  The loop returns only if some call of the kernel returns a status other than
  \<^verbatim>\<open>MSP_EXIT_MAX_EVENTS\<close> or some signal check fails: with a kernel that yields for ever and
  no signal, \<^verbatim>\<open>Simulator_run\<close> does not return.
\<close>

lemma run_state_shift:
  "run_state K t (snd (msp_run K s t 1024)) i = run_state K t s (Suc i)"
  by (induction i) simp_all

lemma run_status_shift:
  "run_status K t (snd (msp_run K s t 1024)) i = run_status K t s (Suc i)"
  by (simp add: run_status_def run_state_shift del: run_state.simps)

lemma Simulator_run_loop_returns_stops:
  assumes "Simulator_run_loop K check_signals t k s = Some y"
  shows "\<exists>i. run_status K t s i \<noteq> MSP_EXIT_MAX_EVENTS \<or> check_signals (k + i) < 0"
proof (rule Simulator_run_loop.raw_induct
    [where P = "\<lambda>K check_signals t k s y.
       \<exists>i. run_status K t s i \<noteq> MSP_EXIT_MAX_EVENTS \<or> check_signals (k + i) < 0",
     OF _ assms], goal_cases)
  case (1 loop K check_signals t k s y)
  show ?case
  proof (cases "run_status K t s 0 = MSP_EXIT_MAX_EVENTS \<and> 0 \<le> check_signals k")
    case False
    then have "run_status K t s 0 \<noteq> MSP_EXIT_MAX_EVENTS \<or> check_signals (k + 0) < 0"
      by auto
    then show ?thesis by blast
  next
    case True
    then have "loop K check_signals t (Suc k) (snd (msp_run K s t 1024)) = Some y"
      using 1(2) by (auto simp: run_status_def MSP_EXIT_MAX_EVENTS_def split: prod.splits if_splits)
    then obtain i where
      "run_status K t (snd (msp_run K s t 1024)) i \<noteq> MSP_EXIT_MAX_EVENTS
       \<or> check_signals (Suc k + i) < 0"
      using 1(1) by blast
    then have "run_status K t s (Suc i) \<noteq> MSP_EXIT_MAX_EVENTS \<or> check_signals (k + Suc i) < 0"
      by (simp add: run_status_shift)
    then show ?thesis by blast
  qed
qed

lemma Simulator_run_loop_diverges:
  assumes "\<forall>i. run_status K t s i = MSP_EXIT_MAX_EVENTS \<and> 0 \<le> check_signals (k + i)"
  shows "Simulator_run_loop K check_signals t k s = None"
proof (cases "Simulator_run_loop K check_signals t k s")
  case (Some y)
  from Simulator_run_loop_returns_stops [OF this] obtain i where
    "run_status K t s i \<noteq> MSP_EXIT_MAX_EVENTS \<or> check_signals (k + i) < 0"
    by blast
  with assms [rule_format, of i] show ?thesis
    by simp
qed simp

text \<open>
  C1, as the code has it. For an initialised simulator and an end time that is not below
  0, \<^verbatim>\<open>Simulator_run\<close> calls the kernel with a chunk of 1024 events again and again. When
  the first \<open>n\<close> calls return \<^verbatim>\<open>MSP_EXIT_MAX_EVENTS\<close> with no signal handler raising after
  them, and the next call returns another status, returns an error or is followed by a
  raising signal handler, the run ends after that call: with \<open>LibraryError\<close> for a negative
  status, else with the exception of the signal handler if one was raised, else with
  \<open>True\<close> if the status is 0 and \<open>False\<close> if it is not.
\<close>

theorem Simulator_run_spec:
  assumes "sim self = Some s"
    and "\<not> d_lt t (Finite 0)"
    and "\<forall>i<n. run_status K t s i = MSP_EXIT_MAX_EVENTS \<and> 0 \<le> check_signals i"
    and "run_status K t s n \<noteq> MSP_EXIT_MAX_EVENTS \<or> run_status K t s n < 0 \<or> check_signals n < 0"
  shows "Simulator_run K check_signals self (Some t)
     = Some (if run_status K t s n < 0 then Inl (LibraryError (run_status K t s n))
             else if check_signals n < 0 then Inl Interrupt
             else Inr (PyBool (run_status K t s n = 0)),
             self\<lparr>sim := Some (run_state K t s (Suc n))\<rparr>)"
proof -
  have "Simulator_run_loop K check_signals t 0 s
      = Simulator_run_loop K check_signals t (0 + n) (run_state K t s n)"
    using assms(3) by (intro Simulator_run_loop_continues) simp
  also have "\<dots> = Some (if run_status K t s n < 0 then Inl (LibraryError (run_status K t s n))
             else if check_signals (0 + n) < 0 then Inl Interrupt
             else Inr (PyBool (run_status K t s n = 0)),
             run_state K t s (Suc n))"
    using assms(4) by (intro Simulator_run_loop_stops) simp
  finally show ?thesis
    using assms(1,2) by (simp add: Simulator_run_def Simulator_check_sim_def)
qed

theorem Simulator_run_spec_witness:
  "Simulator_run example_kernel (\<lambda>n. 0) example_simulator (Some (Finite 100))
     = Some (Inr (PyBool True), example_simulator\<lparr>sim := Some \<lparr>model = example_model, kernel_state = 0\<rparr>\<rparr>)"
  using Simulator_run_spec [of example_simulator "\<lparr>model = example_model, kernel_state = 2000\<rparr>"
      "Finite 100" "Suc 0" example_kernel "\<lambda>n. 0"]
  by (simp add: run_status_def example_kernel_def example_simulator_def MSP_EXIT_MAX_EVENTS_def)

text \<open>
  The claim of C1 as the specification words it leaves the signal check out: here the
  kernel returns status 0 at its first call, and what the run returns is not \<open>True\<close> but
  the exception that the signal handler raised.
\<close>

theorem Simulator_run_interrupted:
  "run_status example_kernel (Finite 100) \<lparr>model = example_model, kernel_state = 10\<rparr> 0 = 0
   \<and> Simulator_run example_kernel (\<lambda>n. - 1)
        (example_simulator\<lparr>sim := Some \<lparr>model = example_model, kernel_state = 10\<rparr>\<rparr>)
        (Some (Finite 100))
      = Some (Inl Interrupt,
              example_simulator\<lparr>sim := Some \<lparr>model = example_model, kernel_state = 0\<rparr>\<rparr>)"
proof -
  have st: "run_status example_kernel (Finite 100) \<lparr>model = example_model, kernel_state = 10\<rparr> 0 = 0"
    by (simp add: run_status_def example_kernel_def)
  have "Simulator_run_loop example_kernel (\<lambda>n. - 1) (Finite 100) (0 + 0)
          (run_state example_kernel (Finite 100) \<lparr>model = example_model, kernel_state = 10\<rparr> 0)
        = Some (Inl Interrupt, \<lparr>model = example_model, kernel_state = 0\<rparr>)"
    using st
    by (subst Simulator_run_loop_stops) (simp_all add: example_kernel_def)
  then show ?thesis
    using st by (simp add: Simulator_run_def Simulator_check_sim_def)
qed

subsection \<open>The migration matrix\<close>

lemma number_or_negative:
  "(\<not> PyNumber_Check x \<or> d_lt (PyFloat_AsDouble x) (Finite 0))
     \<longleftrightarrow> (\<not> is_py_real x \<or> d_lt (PyFloat_AsDouble x) (Finite 0))"
  using PyNumber_Check_float [of x]
  by (cases "py_float x") (auto simp: is_py_real_def PyFloat_AsDouble_def)

lemma migration_matrix_loop_fails:
  "(\<exists>e. migration_matrix_loop lst = Inl e) \<longleftrightarrow>
     (\<exists>x\<in>set lst. \<not> is_py_real x \<or> d_lt (PyFloat_AsDouble x) (Finite 0))"
proof (induction lst)
  case Nil
  show ?case by simp
next
  case (Cons x xs)
  show ?case
    using Cons.IH number_or_negative [of x]
    by (auto simp: Let_def bind_err_def split: sum.splits)
qed

lemma migration_matrix_loop_error:
  "migration_matrix_loop lst = Inl e \<Longrightarrow> (\<exists>msg. e = ValueError msg \<or> e = TypeError msg)"
  by (induction lst) (auto simp: Let_def bind_err_def split: if_splits sum.splits)

lemma migration_matrix_loop_values:
  "migration_matrix_loop lst = Inr m \<Longrightarrow> m = map PyFloat_AsDouble lst"
  by (induction lst arbitrary: m) (auto simp: Let_def bind_err_def split: if_splits sum.splits)

text \<open>
  The product of the numbers of populations, taken in \<^verbatim>\<open>size_t\<close>, is the product itself
  for every number of populations below \<open>2 ^ 32\<close>.
\<close>

lemma size_t_product:
  fixes P :: nat
  assumes "P < 2 ^ 32"
  shows "(P * P) mod 2 ^ 64 = P * P"
proof -
  have "P * P < 2 ^ 32 * 2 ^ 32"
    using assms by (intro mult_strict_mono) simp_all
  then show ?thesis
    by simp
qed

text \<open>
  C4, as the code has it. Let \<open>P\<close> be the number of populations the kernel reports. The
  module rejects the list, with a \<open>ValueError\<close> or a \<open>TypeError\<close> and without calling the
  kernel, if and only if the list does not have exactly \<open>P * P\<close> entries (the product
  as \<^verbatim>\<open>size_t\<close> computes it), or some entry is not a number, or some entry is below 0.
  Every other list is handed to the kernel's \<^verbatim>\<open>msp_set_migration_matrix\<close> as the doubles
  of its entries, in their order, and setting the matrix then fails exactly when that
  call returns an error code, which is raised as an \<open>InputError\<close>.
\<close>

theorem Simulator_parse_migration_matrix_spec:
  assumes "sim self = Some s"
  shows "((\<exists>msg. Simulator_parse_migration_matrix K self lst = (Some (ValueError msg), self)
                \<or> Simulator_parse_migration_matrix K self lst = (Some (TypeError msg), self))
           \<longleftrightarrow>
            ((msp_get_num_populations K s * msp_get_num_populations K s) mod 2 ^ 64 \<noteq> length lst
             \<or> (\<exists>x\<in>set lst. \<not> is_py_real x \<or> d_lt (PyFloat_AsDouble x) (Finite 0))))
    \<and> ((msp_get_num_populations K s * msp_get_num_populations K s) mod 2 ^ 64 = length lst
         \<and> (\<forall>x\<in>set lst. is_py_real x \<and> \<not> d_lt (PyFloat_AsDouble x) (Finite 0))
       \<longrightarrow> Simulator_parse_migration_matrix K self lst
           = kernel_call ''migration matrix''
               (\<lambda>s. msp_set_migration_matrix K s (length lst) (map PyFloat_AsDouble lst)) self
         \<and> fst (Simulator_parse_migration_matrix K self lst)
           = (if fst (msp_set_migration_matrix K s (length lst) (map PyFloat_AsDouble lst)) \<noteq> 0
              then Some (InputError ''migration matrix''
                     (fst (msp_set_migration_matrix K s (length lst) (map PyFloat_AsDouble lst))))
              else None)
         \<and> snd (Simulator_parse_migration_matrix K self lst)
           = self\<lparr>sim := Some (snd (msp_set_migration_matrix K s (length lst)
                                      (map PyFloat_AsDouble lst)))\<rparr>)"
proof (cases "(msp_get_num_populations K s * msp_get_num_populations K s) mod 2 ^ 64 = length lst")
  case False
  then show ?thesis
    using assms
    by (simp add: Simulator_parse_migration_matrix_def Simulator_check_sim_def Let_def)
next
  case len: True
  show ?thesis
  proof (cases "migration_matrix_loop lst")
    case (Inl e)
    then have bad: "\<exists>x\<in>set lst. \<not> is_py_real x \<or> d_lt (PyFloat_AsDouble x) (Finite 0)"
      using migration_matrix_loop_fails [of lst] by auto
    obtain msg where "e = ValueError msg \<or> e = TypeError msg"
      using Inl migration_matrix_loop_error by blast
    then show ?thesis
      using assms len Inl bad
      by (auto simp: Simulator_parse_migration_matrix_def Simulator_check_sim_def Let_def)
  next
    case (Inr m)
    then have m: "m = map PyFloat_AsDouble lst"
      by (rule migration_matrix_loop_values)
    have good: "\<not> (\<exists>x\<in>set lst. \<not> is_py_real x \<or> d_lt (PyFloat_AsDouble x) (Finite 0))"
      using migration_matrix_loop_fails [of lst] Inr by auto
    have r: "Simulator_parse_migration_matrix K self lst
           = kernel_call ''migration matrix''
               (\<lambda>s. msp_set_migration_matrix K s (length lst) (map PyFloat_AsDouble lst)) self"
      using assms len Inr m
      by (simp add: Simulator_parse_migration_matrix_def Simulator_check_sim_def Let_def)
    show ?thesis
      unfolding r using assms len good
      by (auto simp: kernel_call_def split: prod.splits)
  qed
qed

theorem Simulator_parse_migration_matrix_spec_witness:
  "Simulator_parse_migration_matrix example_kernel example_simulator
      [PyFloat (Finite 0), PyFloat (Finite (1 / 10)), PyLong 2,
       PyArray (NdArray [1] (F64 [Finite 0]))]
     = (None, example_simulator)
   \<and> Simulator_parse_migration_matrix example_kernel example_simulator
      [PyFloat (Finite 0), PyFloat (Finite (- 1)), PyLong 2, PyFloat (Finite 0)]
     = (Some (ValueError ''Negative values not permitted''), example_simulator)"
proof -
  have a: "Simulator_parse_migration_matrix example_kernel example_simulator
      [PyFloat (Finite 0), PyFloat (Finite (1 / 10)), PyLong 2,
       PyArray (NdArray [1] (F64 [Finite 0]))]
     = (None, example_simulator)"
    using Simulator_parse_migration_matrix_spec [of example_simulator
        "\<lparr>model = example_model, kernel_state = 2000\<rparr>" example_kernel
        "[PyFloat (Finite 0), PyFloat (Finite (1 / 10)), PyLong 2,
          PyArray (NdArray [1] (F64 [Finite 0]))]"]
    by (simp add: example_kernel_def example_simulator_def kernel_call_def
        is_py_real_def PyFloat_AsDouble_def PyLong_AsDouble_def ndarray_float_def)
  have "\<exists>msg. Simulator_parse_migration_matrix example_kernel example_simulator
      [PyFloat (Finite 0), PyFloat (Finite (- 1)), PyLong 2, PyFloat (Finite 0)]
        = (Some (ValueError msg), example_simulator)
     \<or> Simulator_parse_migration_matrix example_kernel example_simulator
      [PyFloat (Finite 0), PyFloat (Finite (- 1)), PyLong 2, PyFloat (Finite 0)]
        = (Some (TypeError msg), example_simulator)"
    using Simulator_parse_migration_matrix_spec [of example_simulator
        "\<lparr>model = example_model, kernel_state = 2000\<rparr>" example_kernel
        "[PyFloat (Finite 0), PyFloat (Finite (- 1)), PyLong 2, PyFloat (Finite 0)]"]
    by (simp add: example_kernel_def example_simulator_def)
  then have b: "Simulator_parse_migration_matrix example_kernel example_simulator
      [PyFloat (Finite 0), PyFloat (Finite (- 1)), PyLong 2, PyFloat (Finite 0)]
     = (Some (ValueError ''Negative values not permitted''), example_simulator)"
    by (simp add: Simulator_parse_migration_matrix_def Simulator_check_sim_def
        example_kernel_def example_simulator_def Let_def bind_err_def)
  show ?thesis using a b by simp
qed

text \<open>
  The claim of C4 as the specification words it has a matrix of \<open>P * P\<close> doubles none of
  which is below 0 always accepted. The module raises the error code of the kernel's
  call: with two populations and a kernel that returns an error code for a diagonal
  entry other than 0, the matrix \<open>[1, 0, 0, 0]\<close> is rejected with an \<open>InputError\<close>.
\<close>

theorem migration_matrix_rejected_by_kernel:
  "msp_get_num_populations diagonal_kernel \<lparr>model = example_model, kernel_state = 2000\<rparr> = 2
   \<and> Simulator_parse_migration_matrix diagonal_kernel example_simulator
      [PyFloat (Finite 1), PyFloat (Finite 0), PyFloat (Finite 0), PyFloat (Finite 0)]
     = (Some (InputError ''migration matrix'' (- 1)), example_simulator)"
  by (simp add: Simulator_parse_migration_matrix_def Simulator_check_sim_def
      diagonal_kernel_def example_kernel_def example_simulator_def Let_def bind_err_def
      kernel_call_def)

subsection \<open>The simulation model\<close>

lemmas model_defs = Simulator_parse_simulation_model_def Simulator_check_sim_def
  get_dict_number_def get_dict_value_def bind_err_def model_step_def dirac_step_def
  beta_step_def kernel_call_def Let_def

text \<open>
  C5. The claim: a model named \<open>beta\<close> whose \<open>alpha\<close> is outside \<open>(1, 2)\<close> or whose
  \<open>truncation_point\<close> is outside \<open>(0, 1]\<close> is rejected. The module has no check of the
  two parameters: for a \<open>beta\<close> dictionary with a reference size above 0 and any two
  numbers, what \<^verbatim>\<open>Simulator_parse_simulation_model\<close> does is the call of the kernel's
  setter with these numbers, and it raises only what that call reports. With a kernel
  that stores what it is given, \<open>alpha = 5\<close> and \<open>truncation_point = 2\<close> are installed.
\<close>

theorem beta_parameters_unchecked:
  assumes "sim self = Some s"
    and "py_model ''name'' = Some (PyStr ''beta'')"
    and "py_model ''reference_size'' = Some r"
    and "PyNumber_Check r"
    and "\<not> d_le (PyFloat_AsDouble r) (Finite 0)"
    and "py_model ''alpha'' = Some a"
    and "PyNumber_Check a"
    and "py_model ''truncation_point'' = Some tp"
    and "PyNumber_Check tp"
  shows "Simulator_parse_simulation_model K self py_model
     = kernel_call ''simulation model''
         (\<lambda>s. msp_set_simulation_model_beta K s (PyFloat_AsDouble r) (PyFloat_AsDouble a)
                 (PyFloat_AsDouble tp))
         self"
  using assms by (simp add: model_defs split: prod.splits)

theorem beta_parameters_unchecked_witness:
  "Simulator_parse_simulation_model example_kernel example_simulator
      [''name'' \<mapsto> PyStr ''beta'', ''reference_size'' \<mapsto> PyFloat (Finite 1),
       ''alpha'' \<mapsto> PyFloat (Finite 5), ''truncation_point'' \<mapsto> PyFloat (Finite 2)]
   = (None,
      example_simulator
        \<lparr>sim := Some \<lparr>model = example_model
                         \<lparr>model_type := MSP_MODEL_BETA, reference_size := Finite 1,
                          beta_coalescent_alpha := Finite 5,
                          beta_coalescent_truncation_point := Finite 2\<rparr>,
                      kernel_state = 2000\<rparr>\<rparr>)"
  using beta_parameters_unchecked [of example_simulator
      "\<lparr>model = example_model, kernel_state = 2000\<rparr>"
      "[''name'' \<mapsto> PyStr ''beta'', ''reference_size'' \<mapsto> PyFloat (Finite 1),
       ''alpha'' \<mapsto> PyFloat (Finite 5), ''truncation_point'' \<mapsto> PyFloat (Finite 2)]"
      "PyFloat (Finite 1)" "PyFloat (Finite 5)" "PyFloat (Finite 2)" example_kernel]
  by (simp add: example_simulator_def example_kernel_def kernel_call_def d_le_def)

text \<open>
  C6, as the code has it. For a model dictionary named \<open>dirac\<close> with a reference size
  that is a number above 0 and with numbers \<open>psi\<close> and \<open>c\<close>,
  \<^verbatim>\<open>Simulator_parse_simulation_model\<close> raises a \<open>ValueError\<close> if and only if \<open>psi \<le> 0\<close>,
  \<open>psi \<ge> 1\<close> or \<open>c < 0\<close>. Otherwise it calls the kernel's setter with exactly the reference
  size, \<open>psi\<close> and \<open>c\<close>, and raises only what that call reports; and when the setter
  accepts and stores them, the model is installed and \<^verbatim>\<open>get_model\<close> reports the same
  \<open>psi\<close> and \<open>c\<close> back.
\<close>

theorem dirac_parameters_spec:
  assumes "sim self = Some s"
    and "py_model ''name'' = Some (PyStr ''dirac'')"
    and "py_model ''reference_size'' = Some r"
    and "is_py_real r"
    and "\<not> d_le (PyFloat_AsDouble r) (Finite 0)"
    and "py_model ''psi'' = Some p"
    and "is_py_real p"
    and "py_model ''c'' = Some q"
    and "is_py_real q"
  shows "((\<exists>msg. fst (Simulator_parse_simulation_model K self py_model) = Some (ValueError msg))
            \<longleftrightarrow> (d_le (PyFloat_AsDouble p) (Finite 0) \<or> d_ge (PyFloat_AsDouble p) (Finite 1)
                 \<or> d_lt (PyFloat_AsDouble q) (Finite 0)))
    \<and> (\<not> (d_le (PyFloat_AsDouble p) (Finite 0) \<or> d_ge (PyFloat_AsDouble p) (Finite 1)
            \<or> d_lt (PyFloat_AsDouble q) (Finite 0))
       \<longrightarrow> Simulator_parse_simulation_model K self py_model
           = kernel_call ''simulation model''
               (\<lambda>s. msp_set_simulation_model_dirac K s (PyFloat_AsDouble r) (PyFloat_AsDouble p)
                       (PyFloat_AsDouble q))
               self
         \<and> (\<forall>s'. msp_set_simulation_model_dirac K s (PyFloat_AsDouble r) (PyFloat_AsDouble p)
                     (PyFloat_AsDouble q) = (0, s')
                  \<and> model s' = (model s)\<lparr>model_type := MSP_MODEL_DIRAC,
                                           reference_size := PyFloat_AsDouble r,
                                           dirac_coalescent_psi := PyFloat_AsDouble p,
                                           dirac_coalescent_c := PyFloat_AsDouble q\<rparr>
               \<longrightarrow> Simulator_parse_simulation_model K self py_model = (None, self\<lparr>sim := Some s'\<rparr>)
                   \<and> Simulator_get_model K (self\<lparr>sim := Some s'\<rparr>)
                       = Inr (PyDict [''name'' \<mapsto> PyStr (msp_get_model_name K s'),
                                      ''reference_size'' \<mapsto> PyFloat (PyFloat_AsDouble r),
                                      ''psi'' \<mapsto> PyFloat (PyFloat_AsDouble p),
                                      ''c'' \<mapsto> PyFloat (PyFloat_AsDouble q)])))"
proof -
  have n: "PyNumber_Check r" "PyNumber_Check p" "PyNumber_Check q"
    using assms by (simp_all add: is_py_real_number)
  have a: "(\<exists>msg. fst (Simulator_parse_simulation_model K self py_model) = Some (ValueError msg))
            \<longleftrightarrow> (d_le (PyFloat_AsDouble p) (Finite 0) \<or> d_ge (PyFloat_AsDouble p) (Finite 1)
                 \<or> d_lt (PyFloat_AsDouble q) (Finite 0))"
    using assms n by (auto simp: model_defs split: prod.splits)
  have b: "Simulator_parse_simulation_model K self py_model
           = kernel_call ''simulation model''
               (\<lambda>s. msp_set_simulation_model_dirac K s (PyFloat_AsDouble r) (PyFloat_AsDouble p)
                       (PyFloat_AsDouble q))
               self"
    if "\<not> (d_le (PyFloat_AsDouble p) (Finite 0) \<or> d_ge (PyFloat_AsDouble p) (Finite 1)
            \<or> d_lt (PyFloat_AsDouble q) (Finite 0))"
    using that assms n by (simp add: model_defs split: prod.splits)
  have c: "Simulator_get_model K (self\<lparr>sim := Some s'\<rparr>)
                       = Inr (PyDict [''name'' \<mapsto> PyStr (msp_get_model_name K s'),
                                      ''reference_size'' \<mapsto> PyFloat (PyFloat_AsDouble r),
                                      ''psi'' \<mapsto> PyFloat (PyFloat_AsDouble p),
                                      ''c'' \<mapsto> PyFloat (PyFloat_AsDouble q)])"
    if "model s' = (model s)\<lparr>model_type := MSP_MODEL_DIRAC,
                                           reference_size := PyFloat_AsDouble r,
                                           dirac_coalescent_psi := PyFloat_AsDouble p,
                                           dirac_coalescent_c := PyFloat_AsDouble q\<rparr>" for s'
    using that by (simp add: Simulator_get_model_def Simulator_check_sim_def msp_get_model_def)
  show ?thesis
    using a b c by (auto simp: kernel_call_def assms(1))
qed

theorem dirac_parameters_spec_witness:
  "Simulator_parse_simulation_model example_kernel example_simulator
      [''name'' \<mapsto> PyStr ''dirac'', ''reference_size'' \<mapsto> PyFloat (Finite 1),
       ''psi'' \<mapsto> PyFloat (Finite (1 / 2)), ''c'' \<mapsto> PyLong 1]
   = (None,
      example_simulator
        \<lparr>sim := Some \<lparr>model = example_model
                         \<lparr>model_type := MSP_MODEL_DIRAC, reference_size := Finite 1,
                          dirac_coalescent_psi := Finite (1 / 2),
                          dirac_coalescent_c := Finite 1\<rparr>,
                      kernel_state = 2000\<rparr>\<rparr>)
   \<and> Simulator_get_model example_kernel
        (example_simulator
           \<lparr>sim := Some \<lparr>model = example_model
                         \<lparr>model_type := MSP_MODEL_DIRAC, reference_size := Finite 1,
                          dirac_coalescent_psi := Finite (1 / 2),
                          dirac_coalescent_c := Finite 1\<rparr>,
                      kernel_state = 2000\<rparr>\<rparr>)
      = Inr (PyDict [''name'' \<mapsto> PyStr ''dirac'', ''reference_size'' \<mapsto> PyFloat (Finite 1),
                     ''psi'' \<mapsto> PyFloat (Finite (1 / 2)), ''c'' \<mapsto> PyFloat (Finite 1)])"
  using dirac_parameters_spec [of example_simulator
      "\<lparr>model = example_model, kernel_state = 2000\<rparr>"
      "[''name'' \<mapsto> PyStr ''dirac'', ''reference_size'' \<mapsto> PyFloat (Finite 1),
       ''psi'' \<mapsto> PyFloat (Finite (1 / 2)), ''c'' \<mapsto> PyLong 1]"
      "PyFloat (Finite 1)" "PyFloat (Finite (1 / 2))" "PyLong 1" example_kernel]
  by (simp add: example_simulator_def example_kernel_def example_model_def kernel_call_def
      d_le_def d_ge_def is_py_real_small PyFloat_AsDouble_small)

text \<open>
  The claim of C6 as the specification words it holds for no dictionary whose reference
  size is not above 0: the \<open>ValueError\<close> is raised although \<open>0 < psi < 1\<close> and \<open>c \<ge> 0\<close>.
\<close>

theorem dirac_reference_size_rejected:
  "d_lt (Finite 0) (Finite (1 / 2)) \<and> d_lt (Finite (1 / 2)) (Finite 1)
   \<and> d_ge (Finite 1) (Finite 0)
   \<and> fst (Simulator_parse_simulation_model example_kernel example_simulator
        [''name'' \<mapsto> PyStr ''dirac'', ''reference_size'' \<mapsto> PyFloat (Finite 0),
         ''psi'' \<mapsto> PyFloat (Finite (1 / 2)), ''c'' \<mapsto> PyFloat (Finite 1)])
      = Some (ValueError ''population size must be >= 0'')"
  by (simp add: model_defs example_simulator_def d_le_def d_ge_def)

subsection \<open>The pedigree\<close>
lemma Simulator_init_pedigree_rejects:
  assumes "pedigree \<noteq> PyNone"
    and "sim self = Some s"
    and "model_type (model s) \<noteq> MSP_MODEL_WF_PED"
  shows "\<exists>e. Simulator_init_pedigree K pedigree self = (Some e, self)"
  using assms by (cases pedigree) (simp_all add: Simulator_init_pedigree_def)

lemma Simulator_init_pedigree_accepts:
  assumes "pedigree \<noteq> PyNone"
    and "Simulator_init_pedigree K pedigree self = (None, self')"
  shows "\<exists>s d. sim self = Some s \<and> model_type (model s) = MSP_MODEL_WF_PED
           \<and> pedigree = PyDict d \<and> Simulator_parse_pedigree K self d = (None, self')"
  using assms
  by (cases pedigree; cases "sim self")
    (auto simp: Simulator_init_pedigree_def split: if_splits)

lemma and_then_None:
  "and_then r f = (None, s') \<Longrightarrow> \<exists>s. r = (None, s) \<and> f s = (None, s')"
  by (cases r) (auto simp: and_then_def split: option.splits)


text \<open>
  C7. Let a pedigree be supplied to the constructor (an object other than \<open>None\<close>). When
  the first part of the constructor succeeds and the model it has installed is not of
  type \<^verbatim>\<open>MSP_MODEL_WF_PED\<close>, the constructor fails, and the simulator is as that part left it:
  nothing of the pedigree has been handed to the kernel. When the first part fails, the
  constructor fails with its exception. So the constructor succeeds only if the model is
  of type \<^verbatim>\<open>MSP_MODEL_WF_PED\<close>, the pedigree is a dictionary and
  \<^verbatim>\<open>Simulator_parse_pedigree\<close> has read and installed it.
\<close>

theorem pedigree_requires_wf_ped:
  assumes "arg_pedigree a \<noteq> PyNone"
  shows "(\<forall>self1 s. Simulator_init_config K self a = (None, self1) \<and> sim self1 = Some s
            \<and> model_type (model s) \<noteq> MSP_MODEL_WF_PED
          \<longrightarrow> (\<exists>e. Simulator_init K parse_events self a = (Some e, self1)))
    \<and> (\<forall>e self1. Simulator_init_config K self a = (Some e, self1)
          \<longrightarrow> Simulator_init K parse_events self a = (Some e, self1))
    \<and> (\<forall>self'. Simulator_init K parse_events self a = (None, self')
          \<longrightarrow> (\<exists>self1 self2 s d. Simulator_init_config K self a = (None, self1)
                 \<and> sim self1 = Some s \<and> model_type (model s) = MSP_MODEL_WF_PED
                 \<and> arg_pedigree a = PyDict d
                 \<and> Simulator_parse_pedigree K self1 d = (None, self2)))"
proof (intro conjI allI impI)
  fix self1 s
  assume h: "Simulator_init_config K self a = (None, self1) \<and> sim self1 = Some s
            \<and> model_type (model s) \<noteq> MSP_MODEL_WF_PED"
  then obtain e where "Simulator_init_pedigree K (arg_pedigree a) self1 = (Some e, self1)"
    using Simulator_init_pedigree_rejects [OF assms, of self1 s K] by auto
  then have "Simulator_init K parse_events self a = (Some e, self1)"
    using h by (simp add: Simulator_init_def and_then_def)
  then show "\<exists>e. Simulator_init K parse_events self a = (Some e, self1)" ..
next
  fix e self1
  assume "Simulator_init_config K self a = (Some e, self1)"
  then show "Simulator_init K parse_events self a = (Some e, self1)"
    by (simp add: Simulator_init_def and_then_def)
next
  fix self'
  assume "Simulator_init K parse_events self a = (None, self')"
  then obtain self2 where
    r: "and_then (Simulator_init_config K self a) (Simulator_init_pedigree K (arg_pedigree a))
          = (None, self2)"
    unfolding Simulator_init_def by (blast dest: and_then_None)
  then obtain self1 where c: "Simulator_init_config K self a = (None, self1)"
    and p: "Simulator_init_pedigree K (arg_pedigree a) self1 = (None, self2)"
    by (blast dest: and_then_None)
  show "\<exists>self1 self2 s d. Simulator_init_config K self a = (None, self1)
                 \<and> sim self1 = Some s \<and> model_type (model s) = MSP_MODEL_WF_PED
                 \<and> arg_pedigree a = PyDict d
                 \<and> Simulator_parse_pedigree K self1 d = (None, self2)"
    using c Simulator_init_pedigree_accepts [OF assms p] by blast
qed

lemmas init_defs = Simulator_init_config_def RandomGenerator_check_state_def
  RecombinationMap_check_recomb_map_def parse_samples_def parse_samples_entry_def
  Simulator_parse_simulation_model_def Simulator_check_sim_def get_dict_number_def
  get_dict_value_def bind_err_def model_step_def dirac_step_def beta_step_def kernel_call_def
  and_then_def Let_def d_le_def d_ge_def

lemma example_config_hudson:
  "Simulator_init_config example_kernel example_simulator (example_args ''hudson'')
     = (None, example_configured MSP_MODEL_HUDSON)"
  by (simp add: init_defs example_args_def example_kernel_def example_configured_def
      example_simulator_def example_model_def set_model_type_def)

theorem pedigree_requires_wf_ped_witness:
  "Simulator_init_config example_kernel example_simulator (example_args ''hudson'')
     = (None, example_configured MSP_MODEL_HUDSON)
   \<and> (\<exists>e. Simulator_init example_kernel (\<lambda>self events. (None, self)) example_simulator
             (example_args ''hudson'')
           = (Some e, example_configured MSP_MODEL_HUDSON))"
proof -
  have p: "arg_pedigree (example_args ''hudson'') \<noteq> PyNone"
    by (simp add: example_args_def example_pedigree_def)
  show ?thesis
    using example_config_hudson
      pedigree_requires_wf_ped [OF p, of example_kernel example_simulator
        "\<lambda>self events. (None, self)"]
    by (simp add: example_configured_def)
qed

text \<open>With the model \<open>wf_ped\<close> the same arguments are accepted.\<close>

lemma example_init_wf_ped:
  "Simulator_init example_kernel (\<lambda>self events. (None, self)) example_simulator
     (example_args ''wf_ped'') = (None, example_configured MSP_MODEL_WF_PED)"
  by (simp add: Simulator_init_def init_defs example_args_def example_kernel_def
      example_configured_def example_simulator_def example_model_def set_model_type_def
      Simulator_init_pedigree_def example_pedigree_def Simulator_parse_pedigree_def
      get_table_dict_value_def PyArray_FROMANY_def table_read_column_array_def
      Simulator_init_rest_def)


subsection \<open>The likelihood of an ARG\<close>

text \<open>
  C8, as the code has it. With a recombination rate below 0 the function raises a
  \<open>ValueError\<close> and neither builds the tree sequence nor computes the likelihood. With a
  rate that is not below 0 it builds the tree sequence; when that fails, it raises the
  tables library's error and does not compute the likelihood; when it succeeds, it
  computes the likelihood with the rate and \<open>Ne\<close> and returns it as a float, or raises
  \<open>LibraryError\<close> when the computation reports an error.
\<close>

theorem log_likelihood_arg_spec:
  "(d_lt recombination_rate (Finite 0)
      \<longrightarrow> msprime_log_likelihood_arg L tabs Ne recombination_rate
          = (Inl (ValueError ''recombination_rate must be >= 0''), [Call_tsk_treeseq_free]))
   \<and> (\<not> d_lt recombination_rate (Finite 0) \<and> fst (tsk_treeseq_init L (tables tabs)) \<noteq> 0
      \<longrightarrow> msprime_log_likelihood_arg L tabs Ne recombination_rate
          = (Inl (TskitLibraryError (fst (tsk_treeseq_init L (tables tabs)))),
             [Call_tsk_treeseq_init, Call_tsk_treeseq_free]))
   \<and> (\<not> d_lt recombination_rate (Finite 0) \<and> fst (tsk_treeseq_init L (tables tabs)) = 0
      \<longrightarrow> (let r = msp_log_likelihood_arg L (snd (tsk_treeseq_init L (tables tabs)))
                       recombination_rate Ne
           in msprime_log_likelihood_arg L tabs Ne recombination_rate
              = (if fst r \<noteq> 0 then Inl (LibraryError (fst r)) else Inr (PyFloat (snd r)),
                 [Call_tsk_treeseq_init, Call_msp_log_likelihood_arg recombination_rate Ne,
                  Call_tsk_treeseq_free])))"
  by (simp add: msprime_log_likelihood_arg_def Let_def split: prod.splits)

theorem log_likelihood_arg_spec_witness:
  "msprime_log_likelihood_arg (example_likelihood_lib 0) \<lparr>tables = Some empty_tables\<rparr>
      (Finite 1) (Finite (- 1))
     = (Inl (ValueError ''recombination_rate must be >= 0''), [Call_tsk_treeseq_free])
   \<and> msprime_log_likelihood_arg (example_likelihood_lib 0) \<lparr>tables = Some empty_tables\<rparr>
        (Finite 1) (Finite 0)
     = (Inr (PyFloat (Finite (- 3))),
        [Call_tsk_treeseq_init, Call_msp_log_likelihood_arg (Finite 0) (Finite 1),
         Call_tsk_treeseq_free])"
  using log_likelihood_arg_spec [of "Finite (- 1)" "example_likelihood_lib 0"
      "\<lparr>tables = Some empty_tables\<rparr>" "Finite 1"]
    log_likelihood_arg_spec [of "Finite 0" "example_likelihood_lib 0"
      "\<lparr>tables = Some empty_tables\<rparr>" "Finite 1"]
  by (simp add: example_likelihood_lib_def)

text \<open>
  The claim of C8 as the specification words it promises a result for every rate that is
  not below 0: here the rate is 0, the tree sequence cannot be built, and the likelihood
  is not computed.
\<close>

theorem log_likelihood_arg_tree_sequence_fails:
  "d_ge (Finite 0) (Finite 0)
   \<and> msprime_log_likelihood_arg (example_likelihood_lib (- 1)) \<lparr>tables = Some empty_tables\<rparr>
        (Finite 1) (Finite 0)
     = (Inl (TskitLibraryError (- 1)), [Call_tsk_treeseq_init, Call_tsk_treeseq_free])"
  by (simp add: msprime_log_likelihood_arg_def example_likelihood_lib_def d_ge_def d_le_def)

end
